theory Spec2Isabelle
  imports Complex_Main "HOL-Library.Word"
begin

unbundle bit_operations_syntax

section \<open>JavaScript values and the built-ins the data layer relies on\<close>

text \<open>
  The data layer of the explorer is TypeScript; at run time its values are plain JavaScript
  values. A number held in a value is modelled as a mathematical integer (\<open>JNum\<close>) with
  a separate \<open>JNaN\<close>: heights, counts, offsets and millisecond time stamps are integers.
  The code's numbers are doubles, which hold every integer up to \<open>2 ^ 53\<close> in magnitude
  and add, subtract and print such integers exactly; beyond that bound the model does not
  follow the code, and a statement that turns on the value of a cursor offset carries the
  bound.
  Where the code computes with fractions the rounding of doubles is modelled, see
  \<open>float64\<close> below. Strings are lists of characters, one \<open>char\<close> per UTF-16 code unit;
  the text at hand is Latin-1, its code units lie below 256. An object is the list of its
  members, a key being looked up from the front.
\<close>

datatype json =
    JUndefined
  | JNull
  | JBool bool
  | JNum int
  | JNaN
  | JStr string
  | JArr "json list"
  | JObj "(string \<times> json) list"

datatype js_error = Error string | TypeError | RangeError

text \<open>ToBoolean: \<open>undefined\<close>, \<open>null\<close>, \<open>false\<close>, \<open>0\<close>, \<open>NaN\<close> and the empty string are falsy.\<close>

fun truthy :: "json \<Rightarrow> bool" where
  "truthy JUndefined = False"
| "truthy JNull = False"
| "truthy (JBool b) = b"
| "truthy (JNum n) = (n \<noteq> 0)"
| "truthy JNaN = False"
| "truthy (JStr s) = (s \<noteq> [])"
| "truthy (JArr xs) = True"
| "truthy (JObj kvs) = True"

text \<open>\<open>a || b\<close> and \<open>a ?? b\<close>.\<close>

definition js_or :: "json \<Rightarrow> json \<Rightarrow> json" where
  "js_or a b = (if truthy a then a else b)"

definition nullish :: "json \<Rightarrow> bool" where
  "nullish a = (a = JUndefined \<or> a = JNull)"

definition js_coalesce :: "json \<Rightarrow> json \<Rightarrow> json" where
  "js_coalesce a b = (if nullish a then b else a)"

text \<open>
  Reading a property. On \<open>undefined\<close> and \<open>null\<close> it throws a TypeError; on an object
  parsed from JSON it gives the member or \<open>undefined\<close>; arrays and strings have
  \<open>length\<close>; no other property the data layer probes exists on a primitive.
\<close>

definition member :: "(string \<times> json) list \<Rightarrow> string \<Rightarrow> json" where
  "member kvs k = (case map_of kvs k of None \<Rightarrow> JUndefined | Some v \<Rightarrow> v)"

fun readProp :: "json \<Rightarrow> string \<Rightarrow> js_error + json" where
  "readProp JUndefined k = Inl TypeError"
| "readProp JNull k = Inl TypeError"
| "readProp (JObj kvs) k = Inr (member kvs k)"
| "readProp (JArr xs) k = Inr (if k = ''length'' then JNum (int (length xs)) else JUndefined)"
| "readProp (JStr s) k = Inr (if k = ''length'' then JNum (int (length s)) else JUndefined)"
| "readProp (JBool b) k = Inr JUndefined"
| "readProp (JNum n) k = Inr JUndefined"
| "readProp JNaN k = Inr JUndefined"

text \<open>\<open>a.k\<close> where \<open>a\<close> is known not to be \<open>undefined\<close> or \<open>null\<close>, and \<open>a?.k\<close>.\<close>

definition getProp :: "json \<Rightarrow> string \<Rightarrow> json" where
  "getProp a k = (case readProp a k of Inl e \<Rightarrow> JUndefined | Inr v \<Rightarrow> v)"

definition optProp :: "json \<Rightarrow> string \<Rightarrow> json" where
  "optProp a k = (if nullish a then JUndefined else getProp a k)"

subsection \<open>Numbers and strings\<close>

definition digitChar :: "nat \<Rightarrow> char" where
  "digitChar d = ''0123456789abcdefghijklmnopqrstuvwxyz'' ! d"

fun digitsRadix :: "nat \<Rightarrow> nat \<Rightarrow> string" where
  "digitsRadix b n =
     (if b < 2 \<or> n < b then [digitChar n]
      else digitsRadix b (n div b) @ [digitChar (n mod b)])"

declare digitsRadix.simps [simp del]

text \<open>
  \<open>Number.prototype.toString(radix)\<close> on an integer; in radix 10 the code prints digits
  only below \<open>1e21\<close>, and the digits of the integer itself up to \<open>2 ^ 53\<close>.
\<close>

definition toStringRadix :: "nat \<Rightarrow> int \<Rightarrow> string" where
  "toStringRadix b n =
     (if n < 0 then CHR ''-'' # digitsRadix b (nat (- n)) else digitsRadix b (nat n))"

definition toString10 :: "int \<Rightarrow> string" where
  "toString10 n = toStringRadix 10 n"

definition isWhite :: "char \<Rightarrow> bool" where
  "isWhite c = ((of_char c :: nat) \<in> {9, 10, 11, 12, 13, 32, 160})"

definition isDigit :: "char \<Rightarrow> bool" where
  "isDigit c = (48 \<le> (of_char c :: nat) \<and> (of_char c :: nat) \<le> 57)"

definition digitVal :: "char \<Rightarrow> nat" where
  "digitVal c = of_char c - 48"

definition digitsValue :: "string \<Rightarrow> nat" where
  "digitsValue ds = foldl (\<lambda>a c. 10 * a + digitVal c) 0 ds"

text \<open>
  \<open>parseInt(s, 10)\<close>: leading white space is skipped, one sign is read, then the longest
  run of decimal digits; with no digit the result is \<open>NaN\<close>, here \<open>None\<close>.
\<close>

definition parseInt10 :: "string \<Rightarrow> int option" where
  "parseInt10 s =
     (let t = dropWhile isWhite s;
          neg = (t \<noteq> [] \<and> hd t = CHR ''-'');
          u = (if t \<noteq> [] \<and> (hd t = CHR ''-'' \<or> hd t = CHR ''+'') then tl t else t);
          ds = takeWhile isDigit u
      in if ds = [] then None
         else Some ((if neg then - 1 else 1) * int (digitsValue ds)))"

text \<open>The test \<open>/^\d+$/.test(id)\<close>: one or more decimal digits and nothing else.\<close>

definition allDigits :: "string \<Rightarrow> bool" where
  "allDigits s = (s \<noteq> [] \<and> list_all isDigit s)"

text \<open>
  \<open>String.prototype.toLowerCase\<close>: the capital letters are \<open>A\<close> to \<open>Z\<close> and, in
  the upper half of Latin-1, the code units 192 to 222 without the multiplication sign 215.
\<close>

definition isUpper :: "char \<Rightarrow> bool" where
  "isUpper c =
     (let n = (of_char c :: nat)
      in (65 \<le> n \<and> n \<le> 90) \<or> (192 \<le> n \<and> n \<le> 222 \<and> n \<noteq> 215))"

definition toLowerCase :: "string \<Rightarrow> string" where
  "toLowerCase s = map (\<lambda>c. if isUpper c then char_of ((of_char c :: nat) + 32) else c) s"

text \<open>
  \<open>Array.prototype.slice(start, end)\<close>; an index is a number, \<open>None\<close> being \<open>NaN\<close>,
  which counts as 0; a negative index counts from the end.
\<close>

definition relIndex :: "int \<Rightarrow> int option \<Rightarrow> int" where
  "relIndex len i =
     (case i of None \<Rightarrow> 0
      | Some k \<Rightarrow> if k < 0 then max (len + k) 0 else min k len)"

definition slice :: "'a list \<Rightarrow> int option \<Rightarrow> int option \<Rightarrow> 'a list" where
  "slice xs s e =
     (let len = int (length xs); k = relIndex len s; f = relIndex len e
      in take (nat (f - k)) (drop (nat k) xs))"

subsection \<open>Arithmetic on doubles\<close>

text \<open>
  The result of an arithmetic operation on doubles is the double nearest to the exact
  result, a tie going to the even significand: \<open>float64 x\<close> is the double nearest to the
  rational \<open>x\<close>. A positive \<open>x\<close> is scaled by powers of two into the range of the
  53-bit significands, from \<open>2 ^ 52\<close> up to \<open>2 ^ 53\<close>, and rounded to an integer there.
  The exponent range is not modelled: the values at hand lie far from overflow and from the
  subnormal numbers.
\<close>

definition roundHalfEven :: "rat \<Rightarrow> int" where
  "roundHalfEven q =
     (let n = \<lfloor>q\<rfloor>; r = q - of_int n
      in if r < 1 / 2 then n else if 1 / 2 < r then n + 1 else if even n then n else n + 1)"

function float64Pos :: "rat \<Rightarrow> rat" where
  "float64Pos x =
     (if x \<le> 0 then 0
      else if 2 ^ 53 \<le> x then 2 * float64Pos (x / 2)
      else if x < 2 ^ 52 then float64Pos (2 * x) / 2
      else of_int (roundHalfEven x))"
  by pat_completeness auto
termination
proof -
  define c :: rat where "c = 2 ^ 52"
  have c: "0 < c" and c2: "2 ^ 53 = 2 * c" and c1: "2 ^ 52 = c"
    by (simp_all add: c_def)
  have half: "\<lfloor>y / 2\<rfloor> < \<lfloor>y\<rfloor>" if "1 \<le> y" for y :: rat
  proof -
    from that have "1 \<le> \<lfloor>y\<rfloor>"
      by (simp add: le_floor_iff)
    then have "(1::rat) \<le> of_int \<lfloor>y\<rfloor>"
      by simp
    moreover have "y < of_int \<lfloor>y\<rfloor> + 1"
      by linarith
    ultimately have "y / 2 < of_int \<lfloor>y\<rfloor>"
      by linarith
    then show ?thesis
      by (simp add: floor_less_iff)
  qed
  have pos: "0 < \<lfloor>y\<rfloor>" if "1 \<le> y" for y :: rat
    using that by (simp add: less_floor_iff le_floor_iff)
  show ?thesis
  proof (relation "measure (\<lambda>x. if c \<le> x then nat \<lfloor>x / c\<rfloor> else nat \<lfloor>c / x\<rfloor> + 1)")
    show "wf (measure (\<lambda>x. if c \<le> x then nat \<lfloor>x / c\<rfloor> else nat \<lfloor>c / x\<rfloor> + 1))"
      by simp
    show "(x / 2, x) \<in> measure (\<lambda>x. if c \<le> x then nat \<lfloor>x / c\<rfloor> else nat \<lfloor>c / x\<rfloor> + 1)"
      if "\<not> x \<le> 0" and "2 ^ 53 \<le> x" for x :: rat
    proof -
      from that have big: "2 * c \<le> x"
        by (simp only: c2)
      with c have y: "1 \<le> x / c"
        by (simp add: le_divide_eq)
      have e: "x / 2 / c = x / c / 2"
        by simp
      have "\<lfloor>x / 2 / c\<rfloor> < \<lfloor>x / c\<rfloor>"
        unfolding e by (rule half [OF y])
      with pos [OF y] have "nat \<lfloor>x / 2 / c\<rfloor> < nat \<lfloor>x / c\<rfloor>"
        by linarith
      moreover from big c have "c \<le> x / 2" and "c \<le> x"
        by simp_all
      ultimately show ?thesis
        by simp
    qed
    show "(2 * x, x) \<in> measure (\<lambda>x. if c \<le> x then nat \<lfloor>x / c\<rfloor> else nat \<lfloor>c / x\<rfloor> + 1)"
      if "\<not> x \<le> 0" and "\<not> 2 ^ 53 \<le> x" and "x < 2 ^ 52" for x :: rat
    proof -
      from that have xpos: "0 < x" and small: "x < c"
        by (simp_all only: c1 not_le)
      then have y: "1 \<le> c / x"
        by (simp add: le_divide_eq)
      show ?thesis
      proof (cases "c \<le> 2 * x")
        case True
        from small c have "2 * x / c < 2"
          by (simp add: divide_less_eq)
        then have "\<lfloor>2 * x / c\<rfloor> < 2"
          by (simp add: floor_less_iff)
        with pos [OF y] have "nat \<lfloor>2 * x / c\<rfloor> < nat \<lfloor>c / x\<rfloor> + 1"
          by linarith
        with True small show ?thesis
          by simp
      next
        case False
        have e: "c / (2 * x) = c / x / 2"
          by simp
        have "\<lfloor>c / (2 * x)\<rfloor> < \<lfloor>c / x\<rfloor>"
          unfolding e by (rule half [OF y])
        with pos [OF y] have "nat \<lfloor>c / (2 * x)\<rfloor> < nat \<lfloor>c / x\<rfloor>"
          by linarith
        with False small show ?thesis
          by simp
      qed
    qed
  qed
qed

declare float64Pos.simps [simp del]

definition float64 :: "rat \<Rightarrow> rat" where
  "float64 x = (if x < 0 then - float64Pos (- x) else float64Pos x)"

text \<open>The integer part of a number, as \<open>setMinutes\<close> takes it from its argument.\<close>

definition toInteger :: "rat \<Rightarrow> int" where
  "toInteger x = (if 0 \<le> x then \<lfloor>x\<rfloor> else \<lceil>x\<rceil>)"

subsection \<open>Dates\<close>

text \<open>
  A \<open>Date\<close> is its time value, milliseconds since the epoch. \<open>toISOString\<close> prints it
  in UTC as \<open>YYYY-MM-DDTHH:mm:ss.sssZ\<close>; the calendar date comes from the day number by
  the usual era arithmetic of the proleptic Gregorian calendar. Time values are taken to
  stay within the range of valid dates, 8.64e15 ms either side of the epoch.
\<close>

definition pad :: "nat \<Rightarrow> nat \<Rightarrow> string" where
  "pad w n = (let ds = digitsRadix 10 n in replicate (w - length ds) CHR ''0'' @ ds)"

definition civil :: "int \<Rightarrow> int \<times> nat \<times> nat" where
  "civil days =
     (let z = days + 719468;
          era = z div 146097;
          doe = z - era * 146097;
          yoe = (doe - doe div 1460 + doe div 36524 - doe div 146096) div 365;
          doy = doe - (365 * yoe + yoe div 4 - yoe div 100);
          mp = (5 * doy + 2) div 153;
          d = doy - (153 * mp + 2) div 5 + 1;
          m = (if mp < 10 then mp + 3 else mp - 9);
          y = yoe + era * 400 + (if m \<le> 2 then 1 else 0)
      in (y, nat m, nat d))"

definition isoYear :: "int \<Rightarrow> string" where
  "isoYear y =
     (if 0 \<le> y \<and> y \<le> 9999 then pad 4 (nat y)
      else (if y < 0 then CHR ''-'' else CHR ''+'') # pad 6 (nat \<bar>y\<bar>))"

definition toISOString :: "int \<Rightarrow> string" where
  "toISOString ms =
     (let (y, m, d) = civil (ms div 86400000);
          r = nat (ms mod 86400000)
      in isoYear y @ ''-'' @ pad 2 m @ ''-'' @ pad 2 d @ ''T''
         @ pad 2 (r div 3600000) @ '':'' @ pad 2 (r div 60000 mod 60) @ '':''
         @ pad 2 (r div 1000 mod 60) @ ''.'' @ pad 3 (r mod 1000) @ ''Z'')"

text \<open>\<open>date.toISOString().split('T')[0]\<close>: the text before the first \<open>T\<close>.\<close>

definition isoDate :: "int \<Rightarrow> string" where
  "isoDate ms = takeWhile (\<lambda>c. c \<noteq> CHR ''T'') (toISOString ms)"

text \<open>
  \<open>getMinutes\<close> and \<open>setMinutes\<close> work in the local time of the process, and the time
  zone of the process is a parameter: \<open>tzaOfUTC z t\<close> is the offset of local time from
  UTC, in milliseconds, at the instant \<open>t\<close>, and \<open>tzaOfLocal z t\<close> is the offset by which
  the local time \<open>t\<close> is read back as an instant. \<open>getMinutes\<close> is the minute of the
  local time. \<open>setMinutes(m)\<close> keeps the day, the hour, the second and the millisecond of
  the local time, puts \<open>m\<close> minutes in their place (any number of them, negative ones
  too), and reads the outcome back as an instant.
\<close>

record timeZone =
  tzaOfUTC :: "int \<Rightarrow> int"
  tzaOfLocal :: "int \<Rightarrow> int"

definition LocalTime :: "timeZone \<Rightarrow> int \<Rightarrow> int" where
  "LocalTime z t = t + tzaOfUTC z t"

definition UTC :: "timeZone \<Rightarrow> int \<Rightarrow> int" where
  "UTC z t = t - tzaOfLocal z t"

definition Day :: "int \<Rightarrow> int" where
  "Day t = t div 86400000"

definition HourFromTime :: "int \<Rightarrow> int" where
  "HourFromTime t = (t div 3600000) mod 24"

definition MinFromTime :: "int \<Rightarrow> int" where
  "MinFromTime t = (t div 60000) mod 60"

definition SecFromTime :: "int \<Rightarrow> int" where
  "SecFromTime t = (t div 1000) mod 60"

definition msFromTime :: "int \<Rightarrow> int" where
  "msFromTime t = t mod 1000"

definition MakeTime :: "int \<Rightarrow> int \<Rightarrow> int \<Rightarrow> int \<Rightarrow> int" where
  "MakeTime hour m sec ms = hour * 3600000 + m * 60000 + sec * 1000 + ms"

definition MakeDate :: "int \<Rightarrow> int \<Rightarrow> int" where
  "MakeDate day time = day * 86400000 + time"

definition getMinutes :: "timeZone \<Rightarrow> int \<Rightarrow> int" where
  "getMinutes z t = MinFromTime (LocalTime z t)"

definition setMinutes :: "timeZone \<Rightarrow> int \<Rightarrow> int \<Rightarrow> int" where
  "setMinutes z t m =
     (let local = LocalTime z t
      in UTC z (MakeDate (Day local)
                  (MakeTime (HourFromTime local) m (SecFromTime local) (msFromTime local))))"

section \<open>The domain types\<close>

text \<open>
  \<open>Block\<close>, \<open>Transaction\<close>, \<open>AddressSummary\<close> and \<open>Page\<close> of \<open>types.ts\<close>. The
  TypeScript field types are erased at run time and the indexer mapping stores whatever
  value it probed, so every field holds a JavaScript value; an absent optional field is
  \<open>JUndefined\<close>. The status of a transaction is one of three literals.
\<close>

datatype status = Success | Failed | Pending

record Block =
  b_height :: json
  b_hash :: json
  b_timestamp :: json
  b_txCount :: json

record Transaction =
  tx_hash :: json
  tx_status :: status
  tx_blockHeight :: json
  tx_timestamp :: json
  tx_size :: json

record AddressSummary =
  as_address :: json
  as_balance :: json
  as_txCount :: json

record 'a Page =
  items :: "'a list"
  nextCursor :: "string option"

section \<open>The mock generator (\<open>data.ts\<close>)\<close>

text \<open>
  \<open>seededRandom\<close>: the string hash \<open>hash = ((hash << 5) - hash) + code; hash |= 0\<close>
  runs on 32-bit integers; the result is the quotient \<open>(|hash| % 1000000) / 1000000\<close>,
  a double.
\<close>

definition hashStep :: "32 word \<Rightarrow> char \<Rightarrow> 32 word" where
  "hashStep h c = (push_bit 5 h - h) + of_nat (of_char c)"

definition stringHash :: "string \<Rightarrow> 32 word" where
  "stringHash seed = foldl hashStep 0 seed"

definition seededRandom :: "string \<Rightarrow> rat" where
  "seededRandom seed = float64 (of_int (\<bar>sint (stringHash seed)\<bar> mod 1000000) / 1000000)"

text \<open>
  The 64 characters of a fake hash:
  \<open>Math.floor(seededRandom(`${seed}-${i}`) * 16).toString(16)\<close> for \<open>i = 0 .. 63\<close>, joined.
\<close>

definition fakeHash :: "string \<Rightarrow> string" where
  "fakeHash seed =
     concat (map (\<lambda>i. toStringRadix 16
                         \<lfloor>float64 (seededRandom (seed @ ''-'' @ toString10 (int i)) * 16)\<rfloor>)
       [0..<64])"

text \<open>
  \<open>generateMockBlock\<close> reads the clock (\<open>new Date()\<close>); \<open>now\<close> is that reading and
  \<open>zone\<close> the time zone of the process. The date, moved back two minutes per unit of
  height, gives the time stamp and, through its UTC calendar day, the seed.
\<close>

definition blockDate :: "timeZone \<Rightarrow> int \<Rightarrow> int \<Rightarrow> int" where
  "blockDate zone now height = setMinutes zone now (getMinutes zone now - height * 2)"

definition generateMockBlock :: "timeZone \<Rightarrow> int \<Rightarrow> int \<Rightarrow> Block" where
  "generateMockBlock zone now height =
     (let date = blockDate zone now height;
          seed = ''block-'' @ toString10 height @ ''-'' @ isoDate date;
          rand = seededRandom seed
      in \<lparr> b_height = JNum height,
           b_hash = JStr (fakeHash seed),
           b_timestamp = JStr (toISOString date),
           b_txCount = JNum (\<lfloor>float64 (rand * 20)\<rfloor> + 1) \<rparr>)"

text \<open>
  \<open>generateMockTransaction(index, blockHeight?)\<close>; an absent height is \<open>None\<close>. The
  minutes handed to \<open>setMinutes\<close> are the double
  \<open>getMinutes() - (blockHeight || 0) * 2 - index * 0.1\<close>, of which it takes the integer
  part. The threshold \<open>0.9\<close> of the status is a double too.
\<close>

definition heightJson :: "int option \<Rightarrow> json" where
  "heightJson blockHeight = (case blockHeight of None \<Rightarrow> JUndefined | Some h \<Rightarrow> JNum h)"

definition txDate :: "timeZone \<Rightarrow> int \<Rightarrow> int \<Rightarrow> int option \<Rightarrow> int" where
  "txDate zone now index blockHeight =
     (let h0 = (case js_or (heightJson blockHeight) (JNum 0) of JNum h \<Rightarrow> h | _ \<Rightarrow> 0)
      in setMinutes zone now
           (toInteger (float64 (of_int (getMinutes zone now - h0 * 2)
                                 - float64 (of_int index * float64 (1 / 10))))))"

definition generateMockTransaction ::
  "timeZone \<Rightarrow> int \<Rightarrow> int \<Rightarrow> int option \<Rightarrow> Transaction" where
  "generateMockTransaction zone now index blockHeight =
     (let bh = heightJson blockHeight;
          date = txDate zone now index blockHeight;
          seed = ''tx-'' @ toString10 index @ ''-'' @ isoDate date;
          rand = seededRandom seed
      in \<lparr> tx_hash = JStr (fakeHash seed),
           tx_status = (if truthy bh then Success
                        else if rand > float64 (9 / 10) then Failed else Pending),
           tx_blockHeight = bh,
           tx_timestamp = (if truthy bh then JStr (toISOString date) else JUndefined),
           tx_size = JNum (\<lfloor>float64 (rand * 2000)\<rfloor> + 500) \<rparr>)"

text \<open>
  The provider builds its corpus once, in the constructor: 100 blocks counting down from
  height 12345, then 200 transactions of which the first 160 are confirmed, four to a block.
  Each generator call reads the clock again: \<open>clock k\<close> is the reading of the \<open>k\<close>-th call.
  All of them run in the one time zone of the process.
\<close>

record MockProvider =
  mockBlocks :: "Block list"
  mockTransactions :: "Transaction list"

definition latestHeight :: int where
  "latestHeight = 12345"

definition confirmedHeight :: "nat \<Rightarrow> int option" where
  "confirmedHeight i = (if i < 160 then Some (latestHeight - int i div 4) else None)"

definition MockProvider_new :: "timeZone \<Rightarrow> (nat \<Rightarrow> int) \<Rightarrow> MockProvider" where
  "MockProvider_new zone clock =
     \<lparr> mockBlocks =
         map (\<lambda>i. generateMockBlock zone (clock i) (latestHeight - int i)) [0..<100],
       mockTransactions =
         map (\<lambda>i. generateMockTransaction zone (clock (100 + i)) (int i) (confirmedHeight i))
           [0..<200] \<rparr>"

text \<open>
  \<open>cursor ? parseInt(cursor, 10) : 0\<close>: an absent or empty cursor is offset 0. The
  offset is the integer the digits of the cursor denote; the code holds it exactly up to
  \<open>2 ^ 53\<close>.
\<close>

definition cursorOffset :: "string option \<Rightarrow> int option" where
  "cursorOffset cursor =
     (case cursor of None \<Rightarrow> Some 0
      | Some c \<Rightarrow> if c = [] then Some 0 else parseInt10 c)"

definition pageSize :: int where
  "pageSize = 20"

text \<open>
  The page computation the three mock operations share:
  \<open>items = all.slice(i, i + pageSize)\<close> and
  \<open>nextCursor = i + pageSize < all.length ? (i + pageSize).toString() : undefined\<close>.
  A comparison with \<open>NaN\<close> is false.
\<close>

definition mockPage :: "'a list \<Rightarrow> string option \<Rightarrow> 'a Page" where
  "mockPage all cursor =
     (let cursorIndex = cursorOffset cursor;
          stop = map_option (\<lambda>i. i + pageSize) cursorIndex
      in \<lparr> items = slice all cursorIndex stop,
           nextCursor = (case stop of None \<Rightarrow> None
                         | Some e \<Rightarrow> if e < int (length all) then Some (toString10 e) else None) \<rparr>)"

definition MockProvider_getLatestBlocks :: "MockProvider \<Rightarrow> int \<Rightarrow> Block list" where
  "MockProvider_getLatestBlocks p limit = slice (mockBlocks p) (Some 0) (Some limit)"

definition MockProvider_getLatestTransactions :: "MockProvider \<Rightarrow> int \<Rightarrow> Transaction list" where
  "MockProvider_getLatestTransactions p limit = slice (mockTransactions p) (Some 0) (Some limit)"

definition MockProvider_getBlocksPage :: "MockProvider \<Rightarrow> string option \<Rightarrow> Block Page" where
  "MockProvider_getBlocksPage p cursor = mockPage (mockBlocks p) cursor"

text \<open>
  \<open>getBlockByHashOrHeight\<close> parses the id with \<open>parseInt\<close> first and looks the height up
  whenever the parse is not \<open>NaN\<close>; only otherwise does it compare hashes.
\<close>

definition MockProvider_getBlockByHashOrHeight :: "MockProvider \<Rightarrow> string \<Rightarrow> Block option" where
  "MockProvider_getBlockByHashOrHeight p ident =
     (case parseInt10 ident of
        Some height \<Rightarrow> find (\<lambda>b. b_height b = JNum height) (mockBlocks p)
      | None \<Rightarrow> find (\<lambda>b. b_hash b = JStr ident) (mockBlocks p))"

definition MockProvider_getTransactionsPage ::
  "MockProvider \<Rightarrow> string option \<Rightarrow> Transaction Page" where
  "MockProvider_getTransactionsPage p cursor = mockPage (mockTransactions p) cursor"

definition MockProvider_getTransactionByHash ::
  "MockProvider \<Rightarrow> string \<Rightarrow> Transaction option" where
  "MockProvider_getTransactionByHash p h = find (\<lambda>t. tx_hash t = JStr h) (mockTransactions p)"

text \<open>
  The balance is \<open>(Math.floor(rand * 10000) / 100).toString()\<close>: a number of hundredths,
  printed without trailing zeros.
\<close>

definition hundredths :: "int \<Rightarrow> string" where
  "hundredths k =
     (let w = toString10 (k div 100); f = k mod 100
      in if f = 0 then w
         else if f mod 10 = 0 then w @ ''.'' @ toString10 (f div 10)
         else w @ ''.'' @ pad 2 (nat f))"

definition MockProvider_getAddressSummary :: "MockProvider \<Rightarrow> string \<Rightarrow> AddressSummary option" where
  "MockProvider_getAddressSummary p addr =
     (let seed = ''addr-'' @ addr; rand = seededRandom seed
      in Some \<lparr> as_address = JStr addr,
                as_balance = JStr (hundredths \<lfloor>float64 (rand * 10000)\<rfloor>),
                as_txCount = JNum (\<lfloor>float64 (rand * 50)\<rfloor> + 1) \<rparr>)"

definition emptyPage :: "'a Page" where
  "emptyPage = \<lparr> items = [], nextCursor = None \<rparr>"

text \<open>
  \<open>a === b\<close> between values that are not objects: \<open>NaN\<close> equals nothing, itself
  included. Objects and arrays are compared by identity; none is compared here.
\<close>

definition strictEquals :: "json \<Rightarrow> json \<Rightarrow> bool" where
  "strictEquals a b = (a = b \<and> a \<noteq> JNaN)"

text \<open>
  \<open>getBlockTransactions\<close> resolves the id to a height: the parsed id or, when that is
  \<open>NaN\<close>, the height of the block with that hash, \<open>undefined\<close> when there is none.
  With an \<open>undefined\<close> height the page is empty.
\<close>

definition mockResolveHeight :: "MockProvider \<Rightarrow> string \<Rightarrow> json" where
  "mockResolveHeight p ident =
     (case parseInt10 ident of
        Some num \<Rightarrow> JNum num
      | None \<Rightarrow>
          (case find (\<lambda>b. b_hash b = JStr ident) (mockBlocks p) of
             None \<Rightarrow> JUndefined
           | Some block \<Rightarrow> b_height block))"

definition MockProvider_getBlockTransactions ::
  "MockProvider \<Rightarrow> string \<Rightarrow> string option \<Rightarrow> Transaction Page" where
  "MockProvider_getBlockTransactions p ident cursor =
     (let height = mockResolveHeight p ident
      in if height = JUndefined then emptyPage
         else mockPage (filter (\<lambda>tx. strictEquals (tx_blockHeight tx) height)
                          (mockTransactions p)) cursor)"

text \<open>
  The list a page of \<open>getBlockTransactions\<close> is cut from: the transactions of the
  resolved height, and nothing when the id resolves to no height.
\<close>

definition mockTransactionsOfBlock :: "MockProvider \<Rightarrow> string \<Rightarrow> Transaction list" where
  "mockTransactionsOfBlock p ident =
     (let height = mockResolveHeight p ident
      in if height = JUndefined then []
         else filter (\<lambda>tx. strictEquals (tx_blockHeight tx) height) (mockTransactions p))"

section \<open>The RPC scanner (\<open>HttpProvider\<close> over the Polkadot API)\<close>

text \<open>
  This \<open>HttpProvider\<close> answers every query from the chain node. What it reads from the
  node is a parameter of the model: the finalized tip, the hash at a height, the block
  body at a hash and the event log at a hash. A block body carries its header number and
  its extrinsics; an event record carries its phase and the section and method of its
  event. Calls to the node are taken to answer; only the event query is wrapped in a
  \<open>try\<close> by the source, and \<open>None\<close> stands for its failure.
\<close>

record extrinsic =
  ext_hash :: string
  ext_section :: string
  ext_args :: "string list"
  ext_encodedLength :: int

datatype phase = ApplyExtrinsic int | Finalization | Initialization

record event_record =
  ev_phase :: "phase option"
  ev_section :: string
  ev_method :: string

record signed_block =
  blk_number :: int
  blk_extrinsics :: "extrinsic list"

record chain =
  tipHeight :: int
  blockHashAt :: "json \<Rightarrow> string"
  blockByHash :: "string \<Rightarrow> signed_block"
  eventsAt :: "string \<Rightarrow> event_record list option"

text \<open>Numbers that may be \<open>NaN\<close>: \<open>None\<close>.\<close>

definition numJson :: "int option \<Rightarrow> json" where
  "numJson n = (case n of None \<Rightarrow> JNaN | Some k \<Rightarrow> JNum k)"

definition numToString :: "int option \<Rightarrow> string" where
  "numToString n = (case n of None \<Rightarrow> ''NaN'' | Some k \<Rightarrow> toString10 k)"

text \<open>
  The time stamp of a block: the first extrinsic of section \<open>timestamp\<close>, its first
  argument printed and read back with \<open>Number\<close>, as an ISO string. The moment is a
  non-negative integer and prints as decimal digits; a \<open>Date\<close> beyond 8.64e15 ms is
  invalid and \<open>toISOString\<close> throws. Every failure is swallowed by the empty \<open>catch\<close>
  and leaves the default.
\<close>

definition blockTimestampOf :: "extrinsic list \<Rightarrow> string option" where
  "blockTimestampOf extrinsics =
     (case find (\<lambda>ext. ext_section ext = ''timestamp'') extrinsics of
        None \<Rightarrow> None
      | Some tsExtrinsic \<Rightarrow>
          (case ext_args tsExtrinsic of
             [] \<Rightarrow> None
           | a # _ \<Rightarrow>
               if allDigits a \<and> int (digitsValue a) \<le> 8640000000000000
               then Some (toISOString (int (digitsValue a))) else None))"

definition getBlockByHeight :: "chain \<Rightarrow> int \<Rightarrow> json \<Rightarrow> Block" where
  "getBlockByHeight ch now height =
     (let hash = blockHashAt ch height;
          extrinsics = blk_extrinsics (blockByHash ch hash);
          timestamp = (case blockTimestampOf extrinsics of
                         None \<Rightarrow> toISOString now | Some t \<Rightarrow> t)
      in \<lparr> b_height = height,
           b_hash = JStr hash,
           b_timestamp = JStr timestamp,
           b_txCount = JNum (int (length extrinsics)) \<rparr>)"

text \<open>
  The status of the extrinsic at index \<open>idx\<close>: among the records whose phase is
  \<open>ApplyExtrinsic idx\<close>, a \<open>system.ExtrinsicSuccess\<close> gives success, otherwise a
  \<open>system.ExtrinsicFailed\<close> gives failed, otherwise the status stays pending.
\<close>

definition relatedEvents :: "event_record list \<Rightarrow> int \<Rightarrow> event_record list" where
  "relatedEvents events idx = filter (\<lambda>r. ev_phase r = Some (ApplyExtrinsic idx)) events"

definition extrinsicStatus :: "event_record list \<Rightarrow> int \<Rightarrow> status" where
  "extrinsicStatus events idx =
     (let related = relatedEvents events idx
      in if list_ex (\<lambda>r. ev_section r = ''system'' \<and> ev_method r = ''ExtrinsicSuccess'') related
         then Success
         else if list_ex (\<lambda>r. ev_section r = ''system'' \<and> ev_method r = ''ExtrinsicFailed'') related
         then Failed
         else Pending)"

text \<open>The body of \<open>extrinsics.forEach((ext, idx) => ...)\<close>, pushing one item per extrinsic.\<close>

fun pushExtrinsics ::
  "event_record list \<Rightarrow> json \<Rightarrow> json \<Rightarrow> int \<Rightarrow> extrinsic list \<Rightarrow> Transaction list" where
  "pushExtrinsics events blockHeight blockTimestamp idx [] = []"
| "pushExtrinsics events blockHeight blockTimestamp idx (ext # rest) =
     \<lparr> tx_hash = JStr (ext_hash ext),
       tx_status = extrinsicStatus events idx,
       tx_blockHeight = blockHeight,
       tx_timestamp = blockTimestamp,
       tx_size = JNum (ext_encodedLength ext) \<rparr>
     # pushExtrinsics events blockHeight blockTimestamp (idx + 1) rest"

text \<open>
  The event log the scanner works with: \<open>events\<close> starts empty and keeps that value when
  the query for the events at the block throws.
\<close>

definition eventLog :: "chain \<Rightarrow> string \<Rightarrow> event_record list" where
  "eventLog ch blockHashHex =
     (case eventsAt ch blockHashHex of None \<Rightarrow> [] | Some es \<Rightarrow> es)"

definition mapExtrinsicsForBlock :: "chain \<Rightarrow> json \<Rightarrow> string \<Rightarrow> Transaction list" where
  "mapExtrinsicsForBlock ch blockHeight blockHashHex =
     (let extrinsics = blk_extrinsics (blockByHash ch blockHashHex);
          blockTimestamp = (case blockTimestampOf extrinsics of
                              None \<Rightarrow> JUndefined | Some t \<Rightarrow> JStr t);
          events = eventLog ch blockHashHex
      in pushExtrinsics events blockHeight blockTimestamp 0 extrinsics)"

text \<open>
  The markers of the status claim, in the words of the specification: a record of the log
  whose phase is the application of extrinsic \<open>i\<close> and whose event is
  \<open>system.ExtrinsicSuccess\<close>, or \<open>system.ExtrinsicFailed\<close>.
\<close>

definition successMarker :: "event_record list \<Rightarrow> int \<Rightarrow> bool" where
  "successMarker events i =
     (\<exists>r \<in> set events. ev_phase r = Some (ApplyExtrinsic i)
        \<and> ev_section r = ''system'' \<and> ev_method r = ''ExtrinsicSuccess'')"

definition failureMarker :: "event_record list \<Rightarrow> int \<Rightarrow> bool" where
  "failureMarker events i =
     (\<exists>r \<in> set events. ev_phase r = Some (ApplyExtrinsic i)
        \<and> ev_section r = ''system'' \<and> ev_method r = ''ExtrinsicFailed'')"

text \<open>
  \<open>getBlocksPage\<close>: the heights \<open>tip - offset - i\<close> for \<open>i = 0 .. 19\<close>, stopping at the
  first negative one; \<open>nextCursor\<close> is set when 20 heights were produced. With a \<open>NaN\<close>
  offset no height is negative. Every height of the page is fetched by a call of its own
  to \<open>getBlockByHeight\<close>, which reads the clock for itself: \<open>clock i\<close> is the reading
  of the call for the \<open>i\<close>-th height.
\<close>

definition pageHeights :: "int \<Rightarrow> int option \<Rightarrow> int option list" where
  "pageHeights tip offset =
     takeWhile (\<lambda>h. \<not> (case h of None \<Rightarrow> False | Some k \<Rightarrow> k < 0))
       (map (\<lambda>i. map_option (\<lambda>off. tip - off - int i) offset) [0..<20])"

definition RpcHttpProvider_getBlocksPage ::
  "chain \<Rightarrow> (nat \<Rightarrow> int) \<Rightarrow> string option \<Rightarrow> Block Page" where
  "RpcHttpProvider_getBlocksPage ch clock cursor =
     (let offset = cursorOffset cursor;
          heights = pageHeights (tipHeight ch) offset
      in \<lparr> items = map (\<lambda>(i, h). getBlockByHeight ch (clock i) (numJson h))
                     (enumerate 0 heights),
           nextCursor = (if int (length heights) = pageSize
                         then Some (numToString (map_option (\<lambda>off. off + pageSize) offset))
                         else None) \<rparr>)"

text \<open>
  \<open>getBlockByHashOrHeight\<close>: an id of digits only is a height and its hash is asked
  from the node; any other id is taken as a hash and the height is read from the header.
  \<open>null\<close> is returned only for an empty hash.
\<close>

definition resolveId :: "chain \<Rightarrow> string \<Rightarrow> json \<times> string" where
  "resolveId ch ident =
     (if allDigits ident
      then (numJson (parseInt10 ident), blockHashAt ch (numJson (parseInt10 ident)))
      else (JNum (blk_number (blockByHash ch ident)), ident))"

definition RpcHttpProvider_getBlockByHashOrHeight :: "chain \<Rightarrow> int \<Rightarrow> string \<Rightarrow> Block option" where
  "RpcHttpProvider_getBlockByHashOrHeight ch now ident =
     (let (height, hashHex) = resolveId ch ident
      in if height = JUndefined \<or> hashHex = [] then None
         else Some (getBlockByHeight ch now height))"

text \<open>
  The backward scans. \<open>h\<close> starts at the tip and \<open>scanned\<close> at 0; every round asks the
  node for the block at \<open>h\<close>, so \<open>scanned\<close> counts the blocks fetched.
\<close>

function collectTransactions ::
  "chain \<Rightarrow> int option \<Rightarrow> int \<Rightarrow> nat \<Rightarrow> Transaction list \<Rightarrow> Transaction list" where
  "collectTransactions ch wanted h scanned collected =
     (if (case wanted of None \<Rightarrow> False | Some w \<Rightarrow> int (length collected) < w)
         \<and> h \<ge> 0 \<and> scanned < 200
      then collectTransactions ch wanted (h - 1) (scanned + 1)
             (collected @ rev (mapExtrinsicsForBlock ch (JNum h) (blockHashAt ch (JNum h))))
      else collected)"
  by pat_completeness auto
termination
  by (relation "measure (\<lambda>(ch, wanted, h, scanned, collected). 200 - scanned)") auto

declare collectTransactions.simps [simp del]

definition RpcHttpProvider_getLatestTransactions :: "chain \<Rightarrow> int \<Rightarrow> Transaction list" where
  "RpcHttpProvider_getLatestTransactions ch limit =
     slice (collectTransactions ch (Some limit) (tipHeight ch) 0 []) (Some 0) (Some limit)"

definition RpcHttpProvider_getTransactionsPage :: "chain \<Rightarrow> string option \<Rightarrow> Transaction Page" where
  "RpcHttpProvider_getTransactionsPage ch cursor =
     (let offset = cursorOffset cursor;
          stop = map_option (\<lambda>off. off + pageSize) offset;
          collected = collectTransactions ch stop (tipHeight ch) 0 []
      in \<lparr> items = slice collected offset stop,
           nextCursor = (case stop of None \<Rightarrow> None
                         | Some e \<Rightarrow> if int (length collected) > e
                                     then Some (toString10 e) else None) \<rparr>)"

text \<open>
  \<open>getTransactionByHash\<close>: at most 500 rounds; the result comes with the heights of the
  blocks that were fetched, in the order of fetching.
\<close>

definition hashMatches :: "string \<Rightarrow> Transaction \<Rightarrow> bool" where
  "hashMatches hash tx =
     (case tx_hash tx of JStr s \<Rightarrow> toLowerCase s = toLowerCase hash | _ \<Rightarrow> False)"

function scanForTransaction ::
  "chain \<Rightarrow> string \<Rightarrow> int \<Rightarrow> nat \<Rightarrow> int list \<Rightarrow> Transaction option \<times> int list" where
  "scanForTransaction ch hash h scanned fetched =
     (if h \<ge> 0 \<and> scanned < 500
      then (case find (hashMatches hash)
                   (mapExtrinsicsForBlock ch (JNum h) (blockHashAt ch (JNum h))) of
              Some found \<Rightarrow> (Some found, fetched @ [h])
            | None \<Rightarrow> scanForTransaction ch hash (h - 1) (scanned + 1) (fetched @ [h]))
      else (None, fetched))"
  by pat_completeness auto
termination
  by (relation "measure (\<lambda>(ch, hash, h, scanned, fetched). 500 - scanned)") auto

declare scanForTransaction.simps [simp del]

text \<open>
  For the statement of the scan bound: the heights from \<open>h\<close> downwards, at most \<open>n\<close> of
  them and none below 0; the transactions of the block at a height; and the part of a
  list of heights up to and including the first block that holds a match.
\<close>

fun scanWindow :: "int \<Rightarrow> nat \<Rightarrow> int list" where
  "scanWindow h 0 = []"
| "scanWindow h (Suc n) = (if h \<ge> 0 then h # scanWindow (h - 1) n else [])"

definition transactionsAt :: "chain \<Rightarrow> int \<Rightarrow> Transaction list" where
  "transactionsAt ch h = mapExtrinsicsForBlock ch (JNum h) (blockHashAt ch (JNum h))"

fun upToFirst :: "('a \<Rightarrow> bool) \<Rightarrow> 'a list \<Rightarrow> 'a list" where
  "upToFirst P [] = []"
| "upToFirst P (x # xs) = (if P x then [x] else x # upToFirst P xs)"

definition RpcHttpProvider_getTransactionByHash :: "chain \<Rightarrow> string \<Rightarrow> Transaction option" where
  "RpcHttpProvider_getTransactionByHash ch hash =
     fst (scanForTransaction ch hash (tipHeight ch) 0 [])"

definition RpcHttpProvider_getAddressSummary :: "chain \<Rightarrow> string \<Rightarrow> AddressSummary option" where
  "RpcHttpProvider_getAddressSummary ch addr = None"

definition RpcHttpProvider_getBlockTransactions ::
  "chain \<Rightarrow> string \<Rightarrow> string option \<Rightarrow> Transaction Page" where
  "RpcHttpProvider_getBlockTransactions ch ident cursor =
     (let (height, hashHex) = resolveId ch ident;
          all = mapExtrinsicsForBlock ch height hashHex;
          offset = cursorOffset cursor;
          stop = map_option (\<lambda>off. off + pageSize) offset
      in \<lparr> items = slice all offset stop,
           nextCursor = (case stop of None \<Rightarrow> None
                         | Some e \<Rightarrow> if int (length all) > e
                                     then Some (toString10 e) else None) \<rparr>)"

text \<open>
  Construction: the constructor throws when \<open>RPC_URL\<close> is empty, and \<open>getProvider\<close>
  returns \<open>new HttpProvider()\<close> with nothing around it.
\<close>

record config =
  INDEXER_URL :: string
  RPC_URL :: string

datatype RpcHttpProvider = RpcHttpProvider

definition RpcHttpProvider_new :: "config \<Rightarrow> js_error + RpcHttpProvider" where
  "RpcHttpProvider_new cfg =
     (if RPC_URL cfg = []
      then Inl (Error ''Missing Midnight RPC endpoint. Please set NEXT_PUBLIC_RPC_URL'')
      else Inr RpcHttpProvider)"

definition getProvider_rpc :: "config \<Rightarrow> js_error + RpcHttpProvider" where
  "getProvider_rpc cfg = RpcHttpProvider_new cfg"

section \<open>The indexer client (\<open>HttpProvider\<close> of \<open>data.ts\<close>)\<close>

text \<open>
  The provider posts GraphQL queries to the indexer and maps the loosely shaped answers.
  The network is a parameter: \<open>net q\<close> is the parsed JSON body of an answer with an OK
  status, or \<open>None\<close> when \<open>fetch\<close> throws, the status is not OK or the body does not
  parse. The query texts are kept with their white space collapsed.
\<close>

record query =
  q_text :: string
  q_vars :: "(string \<times> json) list"

text \<open>
  The two \<open>Date\<close> computations of \<open>mapBlock\<close> depend on the run time only and are
  parameters too: \<open>new Date(parseInt(v)).toISOString()\<close> for a header time stamp and the
  estimate \<open>now - height * 2\<close> minutes, which reads the clock and the time zone and is
  taken as a function of the height, one reading of the clock serving the records of an
  answer. \<open>None\<close> is the RangeError that \<open>toISOString\<close> throws on an invalid date.
\<close>

record js_dates =
  headerTimestampISO :: "json \<Rightarrow> string option"
  estimatedTimestampISO :: "json \<Rightarrow> string option"

record world =
  w_config :: config
  w_net :: "query \<Rightarrow> json option"
  w_dates :: js_dates

definition graphQL :: "world \<Rightarrow> query \<Rightarrow> json" where
  "graphQL w q =
     (if INDEXER_URL (w_config w) = [] then JNull
      else case w_net w q of
             None \<Rightarrow> JNull
           | Some result \<Rightarrow>
               (case readProp result ''errors'' of
                  Inl e \<Rightarrow> JNull
                | Inr errors \<Rightarrow> if truthy errors then JNull else getProp result ''data''))"

fun tryQueries :: "world \<Rightarrow> query list \<Rightarrow> json" where
  "tryQueries w [] = JNull"
| "tryQueries w (q # queries) =
     (let result = graphQL w q
      in if result \<noteq> JNull then result else tryQueries w queries)"

definition isString :: "json \<Rightarrow> bool" where
  "isString v = (case v of JStr s \<Rightarrow> True | _ \<Rightarrow> False)"

definition parseIntJson :: "json \<Rightarrow> json" where
  "parseIntJson v = (case v of JStr s \<Rightarrow> numJson (parseInt10 s) | _ \<Rightarrow> JNaN)"

text \<open>
  \<open>mapBlock\<close>. Reading \<open>block.block\<close> throws on \<open>undefined\<close> and \<open>null\<close>; that and a
  RangeError from a date are caught and give \<open>null\<close>. Each field is the first truthy
  candidate of its chain of \<open>||\<close>.
\<close>

definition blockDataOf :: "json \<Rightarrow> js_error + json" where
  "blockDataOf block =
     (case readProp block ''block'' of
        Inl e \<Rightarrow> Inl e
      | Inr inner \<Rightarrow> Inr (js_or inner block))"

definition mapBlock :: "js_dates \<Rightarrow> json \<Rightarrow> Block option" where
  "mapBlock dates block =
     (case blockDataOf block of
        Inl e \<Rightarrow> None
      | Inr blockData \<Rightarrow>
          (let header = getProp blockData ''header'';
               height = js_or (js_or (getProp blockData ''height'') (getProp blockData ''number''))
                          (if isString (optProp header ''number'')
                           then parseIntJson (getProp header ''number'')
                           else optProp header ''number'')
           in if height = JUndefined then None
              else
                (let hash = js_or (js_or (getProp blockData ''hash'') (getProp blockData ''blockHash''))
                              (getProp blockData ''id'')
                 in if \<not> truthy hash then None
                    else
                      (let timestamp0 = js_or (js_or (getProp blockData ''timestamp'')
                                                (getProp blockData ''time''))
                                          (getProp blockData ''datetime'');
                           timestamp1 =
                             (if \<not> truthy timestamp0 \<and> truthy (optProp header ''timestamp'')
                              then map_option JStr
                                     (headerTimestampISO dates (getProp header ''timestamp''))
                              else Some timestamp0);
                           timestamp2 =
                             (case timestamp1 of
                                None \<Rightarrow> None
                              | Some t \<Rightarrow>
                                  if \<not> truthy t
                                  then map_option JStr (estimatedTimestampISO dates height)
                                  else Some t);
                           txCount = js_or (js_or (js_or (getProp blockData ''txCount'')
                                                     (getProp blockData ''transactionCount''))
                                              (getProp blockData ''extrinsicsCount''))
                                       (js_coalesce
                                          (optProp (getProp blockData ''extrinsics'') ''length'')
                                          (JNum 0))
                       in case timestamp2 of
                            None \<Rightarrow> None
                          | Some timestamp \<Rightarrow>
                              Some \<lparr> b_height = height, b_hash = hash,
                                     b_timestamp = timestamp, b_txCount = txCount \<rparr>))))"

definition txDataOf :: "json \<Rightarrow> js_error + json" where
  "txDataOf tx =
     (case readProp tx ''transaction'' of
        Inl e \<Rightarrow> Inl e
      | Inr inner \<Rightarrow> Inr (js_or (js_or inner (getProp tx ''extrinsic'')) tx))"

definition mapTransaction :: "json \<Rightarrow> Transaction option" where
  "mapTransaction tx =
     (case txDataOf tx of
        Inl e \<Rightarrow> None
      | Inr txData \<Rightarrow>
          (let hash = js_or (js_or (getProp txData ''hash'') (getProp txData ''txHash''))
                        (getProp txData ''id'')
           in if \<not> truthy hash then None
              else
                (let st = getProp txData ''status'';
                     ok = getProp txData ''success'';
                     status =
                       (if st = JBool True \<or> ok = JBool True \<or> st = JStr ''success''
                        then Success
                        else if st = JBool False \<or> ok = JBool False \<or> st = JStr ''failed''
                        then Failed
                        else Pending);
                     blk = getProp txData ''block'';
                     blockHeight = js_or (js_or (getProp txData ''blockHeight'')
                                            (getProp txData ''blockNumber''))
                                     (js_coalesce (optProp blk ''height'') JUndefined);
                     timestamp0 = js_or (js_or (getProp txData ''timestamp'')
                                           (getProp txData ''time''))
                                    (getProp txData ''datetime'');
                     timestamp = (if \<not> truthy timestamp0 \<and> truthy (optProp blk ''timestamp'')
                                  then getProp blk ''timestamp'' else timestamp0);
                     size = js_or (js_or (getProp txData ''size'') (getProp txData ''length''))
                              JUndefined
                 in Some \<lparr> tx_hash = hash, tx_status = status, tx_blockHeight = blockHeight,
                            tx_timestamp = timestamp, tx_size = size \<rparr>)))"

text \<open>
  \<open>data.map(f).filter(x => x !== null)\<close>: calling \<open>map\<close> on anything but an array is a
  TypeError, which the \<open>catch\<close> of the operation turns into the mock answer.
\<close>

definition mapFiltered :: "(json \<Rightarrow> 'a option) \<Rightarrow> json \<Rightarrow> js_error + 'a list" where
  "mapFiltered f sourceData =
     (case sourceData of
        JArr xs \<Rightarrow> Inr (List.map_filter f xs)
      | _ \<Rightarrow> Inl TypeError)"

definition orMock :: "js_error + 'a \<Rightarrow> 'a \<Rightarrow> 'a" where
  "orMock body fallback = (case body of Inl e \<Rightarrow> fallback | Inr r \<Rightarrow> r)"

record HttpProvider =
  mockProvider :: MockProvider

definition blocksOf :: "json \<Rightarrow> json" where
  "blocksOf result =
     js_or (js_or (getProp result ''blocks'') (optProp (getProp result ''data'') ''blocks''))
       (JArr [])"

definition transactionsOf :: "json \<Rightarrow> json" where
  "transactionsOf result =
     js_or (js_or (js_or (js_or (getProp result ''transactions'') (getProp result ''extrinsics''))
                     (optProp (getProp result ''data'') ''transactions''))
              (optProp (getProp result ''data'') ''extrinsics''))
       (JArr [])"

definition getLatestBlocks_queries :: "int \<Rightarrow> query list" where
  "getLatestBlocks_queries limit =
     [\<lparr> q_text = ''query GetLatestBlocks($limit: Int!) { blocks(orderBy: HEIGHT_DESC, limit: $limit) { height hash timestamp extrinsicsCount } }'',
         q_vars = [(''limit'', JNum limit)] \<rparr>,
      \<lparr> q_text = ''query GetLatestBlocks($limit: Int!) { blocks(orderBy: {height: DESC}, limit: $limit) { height hash timestamp transactionCount } }'',
         q_vars = [(''limit'', JNum limit)] \<rparr>,
      \<lparr> q_text = ''query GetLatestBlocks($limit: Int!) { blocks(first: $limit, orderBy: height, orderDirection: desc) { id number timestamp transactionsCount } }'',
         q_vars = [(''limit'', JNum limit)] \<rparr>]"

definition HttpProvider_getLatestBlocks_body ::
  "world \<Rightarrow> HttpProvider \<Rightarrow> int \<Rightarrow> js_error + Block list" where
  "HttpProvider_getLatestBlocks_body w p limit =
     (let result = tryQueries w (getLatestBlocks_queries limit)
      in if \<not> truthy result then Inr (MockProvider_getLatestBlocks (mockProvider p) limit)
         else case mapFiltered (mapBlock (w_dates w)) (blocksOf result) of
                Inl e \<Rightarrow> Inl e
              | Inr blocks \<Rightarrow>
                  Inr (if length blocks > 0 then blocks
                       else MockProvider_getLatestBlocks (mockProvider p) limit))"

definition HttpProvider_getLatestBlocks :: "world \<Rightarrow> HttpProvider \<Rightarrow> int \<Rightarrow> Block list" where
  "HttpProvider_getLatestBlocks w p limit =
     orMock (HttpProvider_getLatestBlocks_body w p limit)
       (MockProvider_getLatestBlocks (mockProvider p) limit)"

definition getLatestTransactions_queries :: "int \<Rightarrow> query list" where
  "getLatestTransactions_queries limit =
     [\<lparr> q_text = ''query GetLatestTransactions($limit: Int!) { transactions(orderBy: TIMESTAMP_DESC, limit: $limit) { hash status blockHeight timestamp size } }'',
         q_vars = [(''limit'', JNum limit)] \<rparr>,
      \<lparr> q_text = ''query GetLatestTransactions($limit: Int!) { extrinsics(orderBy: {timestamp: DESC}, limit: $limit) { hash success block { height timestamp } length } }'',
         q_vars = [(''limit'', JNum limit)] \<rparr>,
      \<lparr> q_text = ''query GetLatestTransactions($limit: Int!) { transactions(first: $limit, orderBy: blockNumber, orderDirection: desc) { id hash status blockNumber timestamp } }'',
         q_vars = [(''limit'', JNum limit)] \<rparr>]"

definition HttpProvider_getLatestTransactions_body ::
  "world \<Rightarrow> HttpProvider \<Rightarrow> int \<Rightarrow> js_error + Transaction list" where
  "HttpProvider_getLatestTransactions_body w p limit =
     (let result = tryQueries w (getLatestTransactions_queries limit)
      in if \<not> truthy result then Inr (MockProvider_getLatestTransactions (mockProvider p) limit)
         else case mapFiltered mapTransaction (transactionsOf result) of
                Inl e \<Rightarrow> Inl e
              | Inr txs \<Rightarrow>
                  Inr (if length txs > 0 then txs
                       else MockProvider_getLatestTransactions (mockProvider p) limit))"

definition HttpProvider_getLatestTransactions ::
  "world \<Rightarrow> HttpProvider \<Rightarrow> int \<Rightarrow> Transaction list" where
  "HttpProvider_getLatestTransactions w p limit =
     orMock (HttpProvider_getLatestTransactions_body w p limit)
       (MockProvider_getLatestTransactions (mockProvider p) limit)"

definition cursorJson :: "string option \<Rightarrow> json" where
  "cursorJson cursor = (case cursor of None \<Rightarrow> JUndefined | Some c \<Rightarrow> JStr c)"

text \<open>
  The next cursor of an indexer page:
  \<open>items.length === limit ? (offset + limit).toString() : undefined\<close>. The sum is the
  integer sum and its print the decimal digits, as in the code while \<open>offset + limit\<close>
  does not exceed \<open>2 ^ 53\<close>.
\<close>

definition indexerPage :: "'a list \<Rightarrow> int option \<Rightarrow> 'a Page" where
  "indexerPage its offset =
     \<lparr> items = its,
       nextCursor = (if int (length its) = pageSize
                     then Some (numToString (map_option (\<lambda>off. off + pageSize) offset))
                     else None) \<rparr>"

definition getBlocksPage_queries :: "string option \<Rightarrow> query list" where
  "getBlocksPage_queries cursor =
     [\<lparr> q_text = ''query GetBlocksPage($offset: Int!, $limit: Int!) { blocks(orderBy: HEIGHT_DESC, offset: $offset, limit: $limit) { height hash timestamp extrinsicsCount } }'',
         q_vars = [(''offset'', numJson (cursorOffset cursor)), (''limit'', JNum pageSize)] \<rparr>,
      \<lparr> q_text = ''query GetBlocksPage($offset: Int!, $limit: Int!) { blocks(orderBy: {height: DESC}, skip: $offset, limit: $limit) { height hash timestamp transactionCount } }'',
         q_vars = [(''offset'', numJson (cursorOffset cursor)), (''limit'', JNum pageSize)] \<rparr>,
      \<lparr> q_text = ''query GetBlocksPage($cursor: String, $limit: Int!) { blocks(after: $cursor, first: $limit, orderBy: height, orderDirection: desc) { id number timestamp transactionsCount } }'',
         q_vars = [(''cursor'', cursorJson cursor), (''limit'', JNum pageSize)] \<rparr>]"

definition HttpProvider_getBlocksPage_body ::
  "world \<Rightarrow> HttpProvider \<Rightarrow> string option \<Rightarrow> js_error + Block Page" where
  "HttpProvider_getBlocksPage_body w p cursor =
     (let offset = cursorOffset cursor;
          result = tryQueries w (getBlocksPage_queries cursor)
      in if \<not> truthy result then Inr (MockProvider_getBlocksPage (mockProvider p) cursor)
         else case mapFiltered (mapBlock (w_dates w)) (blocksOf result) of
                Inl e \<Rightarrow> Inl e
              | Inr its \<Rightarrow>
                  Inr (if length its = 0 then MockProvider_getBlocksPage (mockProvider p) cursor
                       else indexerPage its offset))"

definition HttpProvider_getBlocksPage :: "world \<Rightarrow> HttpProvider \<Rightarrow> string option \<Rightarrow> Block Page" where
  "HttpProvider_getBlocksPage w p cursor =
     orMock (HttpProvider_getBlocksPage_body w p cursor)
       (MockProvider_getBlocksPage (mockProvider p) cursor)"

text \<open>
  The id of a lookup: digits only (\<open>/^\d+$/\<close>) make it a height, anything else a hash.
\<close>

definition idHeight :: "string \<Rightarrow> json" where
  "idHeight ident = (if allDigits ident then numJson (parseInt10 ident) else JUndefined)"

definition idHash :: "string \<Rightarrow> json" where
  "idHash ident = (if allDigits ident then JUndefined else JStr ident)"

definition getBlock_queries :: "string \<Rightarrow> query list" where
  "getBlock_queries ident =
     [\<lparr> q_text = ''query GetBlock($height: Int) { block(height: $height) { height hash timestamp extrinsicsCount } }'',
         q_vars = [(''height'', idHeight ident)] \<rparr>,
      \<lparr> q_text = ''query GetBlock($hash: String) { block(hash: $hash) { height hash timestamp transactionCount } }'',
         q_vars = [(''hash'', idHash ident)] \<rparr>,
      \<lparr> q_text = ''query GetBlock($height: Int, $hash: String) { block(number: $height, id: $hash) { number id timestamp transactionsCount } }'',
         q_vars = [(''height'', idHeight ident), (''hash'', idHash ident)] \<rparr>]"

definition blockOf :: "json \<Rightarrow> json" where
  "blockOf result = js_or (getProp result ''block'') (optProp (getProp result ''data'') ''block'')"

definition HttpProvider_getBlockByHashOrHeight_body ::
  "world \<Rightarrow> HttpProvider \<Rightarrow> string \<Rightarrow> js_error + Block option" where
  "HttpProvider_getBlockByHashOrHeight_body w p ident =
     (let result = tryQueries w (getBlock_queries ident)
      in if \<not> truthy result
         then Inr (MockProvider_getBlockByHashOrHeight (mockProvider p) ident)
         else
           (let blockData = blockOf result
            in if \<not> truthy blockData
               then Inr (MockProvider_getBlockByHashOrHeight (mockProvider p) ident)
               else case mapBlock (w_dates w) blockData of
                      Some block \<Rightarrow> Inr (Some block)
                    | None \<Rightarrow> Inr (MockProvider_getBlockByHashOrHeight (mockProvider p) ident)))"

definition HttpProvider_getBlockByHashOrHeight ::
  "world \<Rightarrow> HttpProvider \<Rightarrow> string \<Rightarrow> Block option" where
  "HttpProvider_getBlockByHashOrHeight w p ident =
     orMock (HttpProvider_getBlockByHashOrHeight_body w p ident)
       (MockProvider_getBlockByHashOrHeight (mockProvider p) ident)"

definition getTransactionsPage_queries :: "string option \<Rightarrow> query list" where
  "getTransactionsPage_queries cursor =
     [\<lparr> q_text = ''query GetTransactionsPage($offset: Int!, $limit: Int!) { transactions(orderBy: TIMESTAMP_DESC, offset: $offset, limit: $limit) { hash status blockHeight timestamp size } }'',
         q_vars = [(''offset'', numJson (cursorOffset cursor)), (''limit'', JNum pageSize)] \<rparr>,
      \<lparr> q_text = ''query GetTransactionsPage($offset: Int!, $limit: Int!) { extrinsics(orderBy: {timestamp: DESC}, skip: $offset, limit: $limit) { hash success block { height timestamp } length } }'',
         q_vars = [(''offset'', numJson (cursorOffset cursor)), (''limit'', JNum pageSize)] \<rparr>,
      \<lparr> q_text = ''query GetTransactionsPage($cursor: String, $limit: Int!) { transactions(after: $cursor, first: $limit, orderBy: blockNumber, orderDirection: desc) { id hash status blockNumber timestamp } }'',
         q_vars = [(''cursor'', cursorJson cursor), (''limit'', JNum pageSize)] \<rparr>]"

definition HttpProvider_getTransactionsPage_body ::
  "world \<Rightarrow> HttpProvider \<Rightarrow> string option \<Rightarrow> js_error + Transaction Page" where
  "HttpProvider_getTransactionsPage_body w p cursor =
     (let offset = cursorOffset cursor;
          result = tryQueries w (getTransactionsPage_queries cursor)
      in if \<not> truthy result then Inr (MockProvider_getTransactionsPage (mockProvider p) cursor)
         else case mapFiltered mapTransaction (transactionsOf result) of
                Inl e \<Rightarrow> Inl e
              | Inr its \<Rightarrow>
                  Inr (if length its = 0
                       then MockProvider_getTransactionsPage (mockProvider p) cursor
                       else indexerPage its offset))"

definition HttpProvider_getTransactionsPage ::
  "world \<Rightarrow> HttpProvider \<Rightarrow> string option \<Rightarrow> Transaction Page" where
  "HttpProvider_getTransactionsPage w p cursor =
     orMock (HttpProvider_getTransactionsPage_body w p cursor)
       (MockProvider_getTransactionsPage (mockProvider p) cursor)"

definition getTransaction_queries :: "string \<Rightarrow> query list" where
  "getTransaction_queries hash =
     [\<lparr> q_text = ''query GetTransaction($hash: String!) { transaction(hash: $hash) { hash status blockHeight timestamp size } }'',
         q_vars = [(''hash'', JStr hash)] \<rparr>,
      \<lparr> q_text = ''query GetTransaction($hash: String!) { extrinsic(hash: $hash) { hash success block { height timestamp } length } }'',
         q_vars = [(''hash'', JStr hash)] \<rparr>,
      \<lparr> q_text = ''query GetTransaction($hash: String!) { transaction(id: $hash) { id hash status blockNumber timestamp } }'',
         q_vars = [(''hash'', JStr hash)] \<rparr>]"

definition transactionOf :: "json \<Rightarrow> json" where
  "transactionOf result =
     js_or (js_or (js_or (getProp result ''transaction'') (getProp result ''extrinsic''))
              (optProp (getProp result ''data'') ''transaction''))
       (optProp (getProp result ''data'') ''extrinsic'')"

definition HttpProvider_getTransactionByHash_body ::
  "world \<Rightarrow> HttpProvider \<Rightarrow> string \<Rightarrow> js_error + Transaction option" where
  "HttpProvider_getTransactionByHash_body w p hash =
     (let result = tryQueries w (getTransaction_queries hash)
      in if \<not> truthy result
         then Inr (MockProvider_getTransactionByHash (mockProvider p) hash)
         else
           (let txData = transactionOf result
            in if \<not> truthy txData
               then Inr (MockProvider_getTransactionByHash (mockProvider p) hash)
               else case mapTransaction txData of
                      Some tx \<Rightarrow> Inr (Some tx)
                    | None \<Rightarrow> Inr (MockProvider_getTransactionByHash (mockProvider p) hash)))"

definition HttpProvider_getTransactionByHash ::
  "world \<Rightarrow> HttpProvider \<Rightarrow> string \<Rightarrow> Transaction option" where
  "HttpProvider_getTransactionByHash w p hash =
     orMock (HttpProvider_getTransactionByHash_body w p hash)
       (MockProvider_getTransactionByHash (mockProvider p) hash)"

text \<open>
  ToString of a value, for \<open>balance.toString()\<close>: an array joins its elements with
  commas, \<open>undefined\<close> and \<open>null\<close> elements printing as nothing.
\<close>

fun joinComma :: "string list \<Rightarrow> string" where
  "joinComma [] = []"
| "joinComma [s] = s"
| "joinComma (s # t # rest) = s @ '','' @ joinComma (t # rest)"

fun jsToString :: "json \<Rightarrow> string" where
  "jsToString JUndefined = ''undefined''"
| "jsToString JNull = ''null''"
| "jsToString (JBool b) = (if b then ''true'' else ''false'')"
| "jsToString (JNum n) = toString10 n"
| "jsToString JNaN = ''NaN''"
| "jsToString (JStr s) = s"
| "jsToString (JObj kvs) = ''[object Object]''"
| "jsToString (JArr xs) =
     joinComma (map (\<lambda>x. if x = JUndefined \<or> x = JNull then [] else jsToString x) xs)"

definition isNumber :: "json \<Rightarrow> bool" where
  "isNumber v = (case v of JNum n \<Rightarrow> True | JNaN \<Rightarrow> True | _ \<Rightarrow> False)"

definition getAddress_queries :: "string \<Rightarrow> query list" where
  "getAddress_queries addr =
     [\<lparr> q_text = ''query GetAddress($address: String!) { address(address: $address) { address balance txCount } }'',
         q_vars = [(''address'', JStr addr)] \<rparr>,
      \<lparr> q_text = ''query GetAddress($address: String!) { account(address: $address) { address balance transactionCount } }'',
         q_vars = [(''address'', JStr addr)] \<rparr>,
      \<lparr> q_text = ''query GetAddress($address: String!) { account(id: $address) { id balances { free } transactionsCount } }'',
         q_vars = [(''address'', JStr addr)] \<rparr>]"

definition addressOf :: "json \<Rightarrow> json" where
  "addressOf result =
     js_or (js_or (js_or (getProp result ''address'') (getProp result ''account''))
              (optProp (getProp result ''data'') ''address''))
       (optProp (getProp result ''data'') ''account'')"

definition HttpProvider_getAddressSummary_body ::
  "world \<Rightarrow> HttpProvider \<Rightarrow> string \<Rightarrow> js_error + AddressSummary option" where
  "HttpProvider_getAddressSummary_body w p addr =
     (let result = tryQueries w (getAddress_queries addr)
      in if \<not> truthy result
         then Inr (MockProvider_getAddressSummary (mockProvider p) addr)
         else
           (let addressData = addressOf result
            in if \<not> truthy addressData
               then Inr (MockProvider_getAddressSummary (mockProvider p) addr)
               else
                 (let address = js_or (js_or (getProp addressData ''address'')
                                         (getProp addressData ''id''))
                                  (JStr addr);
                      bal = getProp addressData ''balance'';
                      free = optProp (getProp addressData ''balances'') ''free'';
                      balance = (if isString bal \<or> isNumber bal then JStr (jsToString bal)
                                 else if truthy free then JStr (jsToString free)
                                 else JUndefined);
                      txCount = js_or (js_or (getProp addressData ''txCount'')
                                         (getProp addressData ''transactionCount''))
                                  (getProp addressData ''transactionsCount'')
                  in Inr (Some \<lparr> as_address = address, as_balance = balance,
                                  as_txCount = txCount \<rparr>))))"

definition HttpProvider_getAddressSummary ::
  "world \<Rightarrow> HttpProvider \<Rightarrow> string \<Rightarrow> AddressSummary option" where
  "HttpProvider_getAddressSummary w p addr =
     orMock (HttpProvider_getAddressSummary_body w p addr)
       (MockProvider_getAddressSummary (mockProvider p) addr)"

definition blockTransactionsOf :: "json \<Rightarrow> json" where
  "blockTransactionsOf result =
     js_or (js_or (js_or (js_or (getProp result ''blockTransactions'')
                            (getProp result ''extrinsics''))
                     (optProp (getProp result ''data'') ''blockTransactions''))
              (optProp (getProp result ''data'') ''extrinsics''))
       (JArr [])"

definition getBlockTransactions_queries :: "string \<Rightarrow> string option \<Rightarrow> query list" where
  "getBlockTransactions_queries ident cursor =
     [\<lparr> q_text = ''query GetBlockTransactions($height: Int!, $offset: Int!, $limit: Int!) { blockTransactions(blockHeight: $height, offset: $offset, limit: $limit) { hash status blockHeight timestamp size } }'',
         q_vars = [(''height'', idHeight ident), (''offset'', numJson (cursorOffset cursor)),
                   (''limit'', JNum pageSize)] \<rparr>,
      \<lparr> q_text = ''query GetBlockTransactions($hash: String!, $offset: Int!, $limit: Int!) { blockTransactions(blockHash: $hash, offset: $offset, limit: $limit) { hash status blockHeight timestamp size } }'',
         q_vars = [(''hash'', idHash ident), (''offset'', numJson (cursorOffset cursor)),
                   (''limit'', JNum pageSize)] \<rparr>,
      \<lparr> q_text = ''query GetBlockTransactions($height: Int, $hash: String, $offset: Int!, $limit: Int!) { extrinsics( where: { block: { height: $height, hash: $hash } } skip: $offset limit: $limit ) { hash success block { height timestamp } length } }'',
         q_vars = [(''height'', idHeight ident), (''hash'', idHash ident),
                   (''offset'', numJson (cursorOffset cursor)), (''limit'', JNum pageSize)] \<rparr>]"

text \<open>
  \<open>getBlockTransactions\<close> falls back in two steps: it first looks the block up with its
  own \<open>getBlockByHashOrHeight\<close> and answers the empty page when there is none; only then
  does it hand over to the mock provider. An exception goes to the mock provider directly.
\<close>

definition verifiedMockTransactions ::
  "world \<Rightarrow> HttpProvider \<Rightarrow> string \<Rightarrow> string option \<Rightarrow> Transaction Page" where
  "verifiedMockTransactions w p ident cursor =
     (case HttpProvider_getBlockByHashOrHeight w p ident of
        None \<Rightarrow> emptyPage
      | Some block \<Rightarrow> MockProvider_getBlockTransactions (mockProvider p) ident cursor)"

definition HttpProvider_getBlockTransactions_body ::
  "world \<Rightarrow> HttpProvider \<Rightarrow> string \<Rightarrow> string option \<Rightarrow> js_error + Transaction Page" where
  "HttpProvider_getBlockTransactions_body w p ident cursor =
     (let offset = cursorOffset cursor;
          result = tryQueries w (getBlockTransactions_queries ident cursor)
      in if \<not> truthy result then Inr (verifiedMockTransactions w p ident cursor)
         else case mapFiltered mapTransaction (blockTransactionsOf result) of
                Inl e \<Rightarrow> Inl e
              | Inr its \<Rightarrow>
                  Inr (if length its = 0 then verifiedMockTransactions w p ident cursor
                       else indexerPage its offset))"

definition HttpProvider_getBlockTransactions ::
  "world \<Rightarrow> HttpProvider \<Rightarrow> string \<Rightarrow> string option \<Rightarrow> Transaction Page" where
  "HttpProvider_getBlockTransactions w p ident cursor =
     orMock (HttpProvider_getBlockTransactions_body w p ident cursor)
       (MockProvider_getBlockTransactions (mockProvider p) ident cursor)"

text \<open>
  Construction. The constructor throws when both endpoints are empty; \<open>getProvider\<close>
  builds the \<open>HttpProvider\<close> when an endpoint is set, inside a \<open>try\<close> whose \<open>catch\<close>
  returns a \<open>MockProvider\<close>, and a \<open>MockProvider\<close> otherwise.
\<close>

definition HttpProvider_new ::
  "config \<Rightarrow> timeZone \<Rightarrow> (nat \<Rightarrow> int) \<Rightarrow> js_error + HttpProvider" where
  "HttpProvider_new cfg zone clock =
     (if INDEXER_URL cfg = [] \<and> RPC_URL cfg = []
      then Inl (Error ''Missing Midnight network endpoints. Please set NEXT_PUBLIC_INDEXER_URL and/or NEXT_PUBLIC_RPC_URL in your environment variables.'')
      else Inr \<lparr> mockProvider = MockProvider_new zone clock \<rparr>)"

datatype ExplorerProvider = UsesMock MockProvider | UsesHttp HttpProvider

definition getProvider ::
  "config \<Rightarrow> timeZone \<Rightarrow> (nat \<Rightarrow> int) \<Rightarrow> js_error + ExplorerProvider" where
  "getProvider cfg zone clock =
     (if INDEXER_URL cfg \<noteq> [] \<or> RPC_URL cfg \<noteq> []
      then (case HttpProvider_new cfg zone clock of
              Inr p \<Rightarrow> Inr (UsesHttp p)
            | Inl e \<Rightarrow> Inr (UsesMock (MockProvider_new zone clock)))
      else Inr (UsesMock (MockProvider_new zone clock)))"

text \<open>The extrinsics a page of the scanner's \<open>getBlockTransactions\<close> is cut from.\<close>

definition rpcTransactionsOfBlock :: "chain \<Rightarrow> string \<Rightarrow> Transaction list" where
  "rpcTransactionsOfBlock ch ident =
     mapExtrinsicsForBlock ch (fst (resolveId ch ident)) (snd (resolveId ch ident))"

section \<open>A small chain for the examples\<close>

text \<open>
  Three blocks. The tip, at height 2, holds the time stamp inherent and three more
  extrinsics; its log marks extrinsic 0 as successful, 1 as failed, 2 not at all and 3
  both ways. The block at height 1 holds one extrinsic besides the inherent and the
  query for its events fails. The block at height 0 is empty.
\<close>

definition demoExtrinsics :: "extrinsic list" where
  "demoExtrinsics =
     [\<lparr> ext_hash = ''0xa0'', ext_section = ''timestamp'', ext_args = [''1700000000000''],
         ext_encodedLength = 11 \<rparr>,
      \<lparr> ext_hash = ''0xa1'', ext_section = ''balances'', ext_args = [''5''],
         ext_encodedLength = 140 \<rparr>,
      \<lparr> ext_hash = ''0xa2'', ext_section = ''balances'', ext_args = [''6''],
         ext_encodedLength = 141 \<rparr>,
      \<lparr> ext_hash = ''0xa3'', ext_section = ''midnight'', ext_args = [],
         ext_encodedLength = 900 \<rparr>]"

definition demoEvents :: "event_record list" where
  "demoEvents =
     [\<lparr> ev_phase = Some (ApplyExtrinsic 0), ev_section = ''system'',
         ev_method = ''ExtrinsicSuccess'' \<rparr>,
      \<lparr> ev_phase = Some (ApplyExtrinsic 1), ev_section = ''balances'',
         ev_method = ''Withdraw'' \<rparr>,
      \<lparr> ev_phase = Some (ApplyExtrinsic 1), ev_section = ''system'',
         ev_method = ''ExtrinsicFailed'' \<rparr>,
      \<lparr> ev_phase = Some (ApplyExtrinsic 3), ev_section = ''system'',
         ev_method = ''ExtrinsicFailed'' \<rparr>,
      \<lparr> ev_phase = Some (ApplyExtrinsic 3), ev_section = ''system'',
         ev_method = ''ExtrinsicSuccess'' \<rparr>,
      \<lparr> ev_phase = Some Finalization, ev_section = ''system'',
         ev_method = ''ExtrinsicSuccess'' \<rparr>]"

definition demoChain :: chain where
  "demoChain =
     \<lparr> tipHeight = 2,
       blockHashAt = (\<lambda>h. if h = JNum 2 then ''0xb2'' else if h = JNum 1 then ''0xb1''
                           else ''0xb0''),
       blockByHash =
         (\<lambda>s. if s = ''0xb2'' then \<lparr> blk_number = 2, blk_extrinsics = demoExtrinsics \<rparr>
               else if s = ''0xb1''
               then \<lparr> blk_number = 1,
                      blk_extrinsics =
                        [\<lparr> ext_hash = ''0xc0'', ext_section = ''timestamp'',
                            ext_args = [''1699999994000''], ext_encodedLength = 11 \<rparr>,
                         \<lparr> ext_hash = ''0xBEEF'', ext_section = ''balances'',
                            ext_args = [''7''], ext_encodedLength = 139 \<rparr>] \<rparr>
               else \<lparr> blk_number = 0, blk_extrinsics = [] \<rparr>),
       eventsAt = (\<lambda>s. if s = ''0xb2'' then Some demoEvents else None) \<rparr>"

section \<open>Indexer records for the examples\<close>

definition demoDates :: js_dates where
  "demoDates = \<lparr> headerTimestampISO = (\<lambda>v. None), estimatedTimestampISO = (\<lambda>v. None) \<rparr>"

definition demoGenesisRecord :: json where
  "demoGenesisRecord =
     JObj [(''height'', JNum 0), (''hash'', JStr ''0x00aa''),
           (''timestamp'', JStr ''2024-01-01T00:00:00.000Z''), (''extrinsicsCount'', JNum 1)]"

definition demoBlockRecord :: json where
  "demoBlockRecord =
     JObj [(''height'', JNum 7), (''hash'', JStr ''0x07aa''),
           (''timestamp'', JStr ''2024-01-01T00:14:00.000Z''), (''txCount'', JNum 0),
           (''transactionCount'', JNum 3)]"

text \<open>
  A record that wraps its block: the wrapper says height 0 and names no other height, the
  block inside says height 5.
\<close>

definition demoWrappedRecord :: json where
  "demoWrappedRecord =
     JObj [(''height'', JNum 0), (''hash'', JStr ''0x00aa''),
           (''timestamp'', JStr ''2024-01-01T00:00:00.000Z''),
           (''block'', JObj [(''height'', JNum 5), (''hash'', JStr ''0x05aa''),
                             (''timestamp'', JStr ''2024-01-01T00:10:00.000Z''),
                             (''txCount'', JNum 2)])]"

text \<open>
  An indexer that answers no query, and the providers built at a fixed clock in a process
  whose local time is UTC.
\<close>

definition utcZone :: timeZone where
  "utcZone = \<lparr> tzaOfUTC = (\<lambda>t. 0), tzaOfLocal = (\<lambda>t. 0) \<rparr>"

definition deadWorld :: world where
  "deadWorld =
     \<lparr> w_config = \<lparr> INDEXER_URL = ''https://indexer.example/graphql'', RPC_URL = [] \<rparr>,
       w_net = (\<lambda>q. None),
       w_dates = demoDates \<rparr>"

definition demoClock :: "nat \<Rightarrow> int" where
  "demoClock k = 1700000000000 + int k"

text \<open>The same construction an hour later, and another one some three years later.\<close>

definition hourLaterClock :: "nat \<Rightarrow> int" where
  "hourLaterClock k = 1700003600000 + int k"

definition laterClock :: "nat \<Rightarrow> int" where
  "laterClock k = 1800000000000 + int k"

text \<open>
  A zone of central Europe around the end of summer time on 29 October 2023, at 01:00 UTC:
  local time is two hours ahead of UTC before that instant and one hour ahead from it on,
  and a local time before 03:00 of that day is read back as summer time. The clock reads
  half an hour after the change.
\<close>

definition autumnZone :: timeZone where
  "autumnZone =
     \<lparr> tzaOfUTC = (\<lambda>t. if t < 1698541200000 then 7200000 else 3600000),
       tzaOfLocal = (\<lambda>t. if t < 1698548400000 then 7200000 else 3600000) \<rparr>"

definition autumnClock :: "nat \<Rightarrow> int" where
  "autumnClock k = 1698543000000 + int k"

definition demoHttpProvider :: HttpProvider where
  "demoHttpProvider = \<lparr> mockProvider = MockProvider_new utcZone demoClock \<rparr>"

text \<open>
  The conditions of the fallback policy, for an operation that maps a list and for one
  that maps a single record: every candidate query fails; or the result of the query
  layer is unusable; or the mapped result is empty; or mapping throws.
\<close>

definition everyQueryFails :: "world \<Rightarrow> query list \<Rightarrow> bool" where
  "everyQueryFails w queries = list_all (\<lambda>q. graphQL w q = JNull) queries"

definition listFallback :: "world \<Rightarrow> query list \<Rightarrow> (json \<Rightarrow> js_error + 'a list) \<Rightarrow> bool" where
  "listFallback w queries mapped =
     (everyQueryFails w queries \<or> \<not> truthy (tryQueries w queries)
      \<or> mapped (tryQueries w queries) = Inr [] \<or> isl (mapped (tryQueries w queries)))"

definition singleFallback :: "world \<Rightarrow> query list \<Rightarrow> (json \<Rightarrow> 'a option) \<Rightarrow> bool" where
  "singleFallback w queries mapped =
     (everyQueryFails w queries \<or> \<not> truthy (tryQueries w queries)
      \<or> mapped (tryQueries w queries) = None)"

text \<open>A chain of twenty blocks, heights 0 to 19, each like the empty block of the small chain.\<close>

definition twentyBlockChain :: chain where
  "twentyBlockChain = demoChain \<lparr> tipHeight := 19 \<rparr>"

text \<open>An indexer that answers every query with one block record and one transaction record.\<close>

definition demoTransactionRecord :: json where
  "demoTransactionRecord =
     JObj [(''hash'', JStr ''0x7e57''), (''status'', JStr ''success''),
           (''blockHeight'', JNum 7), (''timestamp'', JStr ''2024-01-01T00:14:00.000Z''),
           (''size'', JNum 212)]"

definition liveWorld :: world where
  "liveWorld =
     \<lparr> w_config = \<lparr> INDEXER_URL = ''https://indexer.example/graphql'', RPC_URL = [] \<rparr>,
       w_net = (\<lambda>q. Some (JObj [(''data'',
                  JObj [(''blocks'', JArr [demoBlockRecord]),
                        (''transactions'', JArr [demoTransactionRecord])])])),
       w_dates = demoDates \<rparr>"

text \<open>
  The same indexer in a configuration that names the node and leaves the indexer endpoint
  empty.
\<close>

definition nodeOnlyConfig :: config where
  "nodeOnlyConfig = \<lparr> INDEXER_URL = [], RPC_URL = ''wss://rpc.testnet-02.midnight.network'' \<rparr>"

definition nodeOnlyWorld :: world where
  "nodeOnlyWorld = liveWorld \<lparr> w_config := nodeOnlyConfig \<rparr>"

section \<open>Evaluation lemmas\<close>

lemma replicate_numeral: "replicate (numeral k) x = x # replicate (pred_numeral k) x"
  by (simp add: numeral_eq_Suc)

lemma parseInt10_20: "parseInt10 ''20'' = Some 20"
  unfolding parseInt10_def Let_def
  by (simp add: isWhite_def isDigit_def digitsValue_def digitVal_def)

lemma parseInt10_80: "parseInt10 ''80'' = Some 80"
  unfolding parseInt10_def Let_def
  by (simp add: isWhite_def isDigit_def digitsValue_def digitVal_def)

lemma toString10_20: "toString10 20 = ''20''"
  unfolding toString10_def toStringRadix_def
  by (simp add: digitsRadix.simps digitChar_def)

lemma toString10_40: "toString10 40 = ''40''"
  unfolding toString10_def toStringRadix_def
  by (simp add: digitsRadix.simps digitChar_def)

lemma map_slice: "map f (slice xs s e) = slice (map f xs) s e"
  by (simp add: slice_def Let_def take_map drop_map)

lemma slice_upt:
  "0 \<le> a \<Longrightarrow> a \<le> b \<Longrightarrow> b \<le> int n \<Longrightarrow>
   slice (map f [0..<n]) (Some a) (Some b) = map f [nat a..<nat b]"
  unfolding slice_def relIndex_def Let_def
  by (simp add: take_map drop_map drop_upt take_upt nat_diff_distrib)

section \<open>The mock corpus\<close>

lemma b_height_generateMockBlock: "b_height (generateMockBlock zone now h) = JNum h"
  by (simp add: generateMockBlock_def Let_def)

lemma mockBlocks_heights:
  "map b_height (mockBlocks (MockProvider_new zone clock)) =
   map (\<lambda>i. JNum (12345 - int i)) [0..<100]"
  by (simp add: MockProvider_new_def latestHeight_def b_height_generateMockBlock)

lemma length_mockBlocks: "length (mockBlocks (MockProvider_new zone clock)) = 100"
  by (simp add: MockProvider_new_def confirmedHeight_def)

lemma length_mockTransactions: "length (mockTransactions (MockProvider_new zone clock)) = 200"
  by (simp add: MockProvider_new_def confirmedHeight_def)

lemma mock_first_page_heights:
  "map b_height (items (MockProvider_getBlocksPage (MockProvider_new zone clock) None)) =
   map JNum (rev [12326..12345])"
  unfolding MockProvider_getBlocksPage_def mockPage_def Let_def cursorOffset_def pageSize_def
  apply (simp add: map_slice mockBlocks_heights slice_upt)
  apply (simp add: upt_rec)
  done

lemma mock_second_page_heights:
  "map b_height (items (MockProvider_getBlocksPage (MockProvider_new zone clock) (Some ''20''))) =
   map JNum (rev [12306..12325])"
  unfolding MockProvider_getBlocksPage_def mockPage_def Let_def cursorOffset_def pageSize_def
  by (simp add: parseInt10_20 map_slice mockBlocks_heights slice_upt)

lemma mock_last_page_length:
  "length (items (MockProvider_getBlocksPage (MockProvider_new zone clock) (Some ''80''))) = 20"
  unfolding MockProvider_getBlocksPage_def mockPage_def Let_def cursorOffset_def pageSize_def
  by (simp add: parseInt10_80 slice_def relIndex_def length_mockBlocks)

lemma mock_page_cursors:
  "nextCursor (MockProvider_getBlocksPage (MockProvider_new zone clock) None) = Some ''20''"
  "nextCursor (MockProvider_getBlocksPage (MockProvider_new zone clock) (Some ''20'')) = Some ''40''"
  "nextCursor (MockProvider_getBlocksPage (MockProvider_new zone clock) (Some ''80'')) = None"
  unfolding MockProvider_getBlocksPage_def mockPage_def Let_def cursorOffset_def pageSize_def
  by (simp_all add: parseInt10_20 parseInt10_80 toString10_20 toString10_40 length_mockBlocks)

text \<open>
  Claim C5. On the corpus of 100 mock blocks below tip height 12345, whatever the time
  zone and whatever the clock read during construction: the page for the absent cursor
  holds the blocks of heights 12345 down to 12326 and its next cursor is \<open>"20"\<close>; the
  page for cursor \<open>"20"\<close> holds heights 12325 down to 12306 and its next cursor is
  \<open>"40"\<close>; the page for cursor \<open>"80"\<close> holds 20 items and has no next cursor.
\<close>

theorem mock_getBlocksPage_scenario:
  "length (mockBlocks (MockProvider_new zone clock)) = 100
   \<and> map b_height (items (MockProvider_getBlocksPage (MockProvider_new zone clock) None)) =
       map JNum (rev [12326..12345])
   \<and> nextCursor (MockProvider_getBlocksPage (MockProvider_new zone clock) None) = Some ''20''
   \<and> map b_height (items (MockProvider_getBlocksPage (MockProvider_new zone clock) (Some ''20''))) =
       map JNum (rev [12306..12325])
   \<and> nextCursor (MockProvider_getBlocksPage (MockProvider_new zone clock) (Some ''20'')) = Some ''40''
   \<and> length (items (MockProvider_getBlocksPage (MockProvider_new zone clock) (Some ''80''))) = 20
   \<and> nextCursor (MockProvider_getBlocksPage (MockProvider_new zone clock) (Some ''80'')) = None"
  using length_mockBlocks mock_first_page_heights mock_second_page_heights
    mock_last_page_length mock_page_cursors
  by blast

lemma generateMockTransaction_confirmed:
  "h \<noteq> 0 \<Longrightarrow>
   tx_status (generateMockTransaction zone now i (Some h)) = Success
   \<and> tx_blockHeight (generateMockTransaction zone now i (Some h)) = JNum h
   \<and> tx_timestamp (generateMockTransaction zone now i (Some h)) \<noteq> JUndefined"
  by (simp add: generateMockTransaction_def heightJson_def Let_def)

lemma generateMockTransaction_unconfirmed:
  "tx_status (generateMockTransaction zone now i None) \<noteq> Success
   \<and> tx_blockHeight (generateMockTransaction zone now i None) = JUndefined
   \<and> tx_timestamp (generateMockTransaction zone now i None) = JUndefined"
  by (simp add: generateMockTransaction_def heightJson_def Let_def)

lemma mockTransactions_nth:
  "i < 200 \<Longrightarrow>
   mockTransactions (MockProvider_new zone clock) ! i =
   generateMockTransaction zone (clock (100 + i)) (int i)
     (if i < 160 then Some (latestHeight - int i div 4) else None)"
  by (simp add: MockProvider_new_def confirmedHeight_def)

lemma mockTransactions_cases:
  assumes "tx \<in> set (mockTransactions (MockProvider_new zone clock))"
  shows "(tx_status tx = Success \<and> tx_blockHeight tx \<noteq> JUndefined \<and> tx_timestamp tx \<noteq> JUndefined)
       \<or> (tx_status tx \<noteq> Success \<and> tx_blockHeight tx = JUndefined \<and> tx_timestamp tx = JUndefined)"
proof -
  from assms obtain i where i: "i < 200"
    and tx: "tx = generateMockTransaction zone (clock (100 + i)) (int i)
                (if i < 160 then Some (latestHeight - int i div 4) else None)"
    by (auto simp: MockProvider_new_def confirmedHeight_def)
  show ?thesis
  proof (cases "i < 160")
    case True
    then have "latestHeight - int i div 4 \<noteq> 0"
      by (simp add: latestHeight_def)
    from generateMockTransaction_confirmed [OF this] tx True show ?thesis
      by simp
  next
    case False
    with generateMockTransaction_unconfirmed tx show ?thesis
      by simp
  qed
qed

text \<open>
  Claim C10. In the transaction corpus of the mock generator, every transaction with a
  defined block height has status success and a defined time stamp, and every transaction
  whose status is failed or pending has neither a block height nor a time stamp; so no
  confirmed mock transaction is failed.
\<close>

theorem mock_transactions_confirmed_iff_success:
  "\<forall>tx \<in> set (mockTransactions (MockProvider_new zone clock)).
     (tx_blockHeight tx \<noteq> JUndefined \<longrightarrow>
        tx_status tx = Success \<and> tx_timestamp tx \<noteq> JUndefined)
     \<and> (tx_status tx = Failed \<or> tx_status tx = Pending \<longrightarrow>
        tx_blockHeight tx = JUndefined \<and> tx_timestamp tx = JUndefined)"
  using mockTransactions_cases by fastforce

theorem mock_transactions_confirmed_iff_success_witness:
  "tx_blockHeight (mockTransactions (MockProvider_new utcZone (\<lambda>k. 1700000000000 + int k)) ! 7) = JNum 12344
   \<and> tx_status (mockTransactions (MockProvider_new utcZone (\<lambda>k. 1700000000000 + int k)) ! 7) = Success
   \<and> tx_timestamp (mockTransactions (MockProvider_new utcZone (\<lambda>k. 1700000000000 + int k)) ! 7) \<noteq> JUndefined
   \<and> tx_status (mockTransactions (MockProvider_new utcZone (\<lambda>k. 1700000000000 + int k)) ! 170) \<noteq> Success
   \<and> tx_blockHeight (mockTransactions (MockProvider_new utcZone (\<lambda>k. 1700000000000 + int k)) ! 170) = JUndefined
   \<and> tx_timestamp (mockTransactions (MockProvider_new utcZone (\<lambda>k. 1700000000000 + int k)) ! 170) = JUndefined"
proof -
  let ?c = "\<lambda>k::nat. 1700000000000 + int k"
  let ?p = "MockProvider_new utcZone ?c"
  have m7: "mockTransactions ?p ! 7 \<in> set (mockTransactions ?p)"
    and m170: "mockTransactions ?p ! 170 \<in> set (mockTransactions ?p)"
    by (simp_all add: length_mockTransactions)
  have "mockTransactions ?p ! 7 =
        generateMockTransaction utcZone (?c (100 + 7)) (int 7)
          (if (7::nat) < 160 then Some (latestHeight - int 7 div 4) else None)"
    by (rule mockTransactions_nth) simp
  then have e7: "mockTransactions ?p ! 7 = generateMockTransaction utcZone (?c 107) 7 (Some 12344)"
    by (simp add: latestHeight_def)
  have "(12344::int) \<noteq> 0"
    by simp
  from generateMockTransaction_confirmed [OF this, of utcZone "?c 107" 7] e7
  have h7: "tx_blockHeight (mockTransactions ?p ! 7) = JNum 12344"
    by simp
  have "mockTransactions ?p ! 170 =
        generateMockTransaction utcZone (?c (100 + 170)) (int 170)
          (if (170::nat) < 160 then Some (latestHeight - int 170 div 4) else None)"
    by (rule mockTransactions_nth) simp
  then have e170: "mockTransactions ?p ! 170 = generateMockTransaction utcZone (?c 270) 170 None"
    by simp
  from generateMockTransaction_unconfirmed [of utcZone "?c 270" 170] e170
  have s170: "tx_status (mockTransactions ?p ! 170) \<noteq> Success"
    by simp
  have "tx_blockHeight (mockTransactions ?p ! 7) \<noteq> JUndefined"
    unfolding h7 by simp
  with mock_transactions_confirmed_iff_success [of utcZone ?c] m7
  have a: "tx_status (mockTransactions ?p ! 7) = Success
           \<and> tx_timestamp (mockTransactions ?p ! 7) \<noteq> JUndefined"
    by blast
  from s170 have "tx_status (mockTransactions ?p ! 170) = Failed
                  \<or> tx_status (mockTransactions ?p ! 170) = Pending"
    by (cases "tx_status (mockTransactions ?p ! 170)") simp_all
  with mock_transactions_confirmed_iff_success [of utcZone ?c] m170
  have b: "tx_blockHeight (mockTransactions ?p ! 170) = JUndefined
           \<and> tx_timestamp (mockTransactions ?p ! 170) = JUndefined"
    by blast
  from a b h7 s170 show ?thesis by blast
qed

section \<open>Rounding to doubles\<close>

lemma float64Pos_nonpos: "x \<le> 0 \<Longrightarrow> float64Pos x = 0"
  by (simp add: float64Pos.simps)

lemma float64Pos_double: "float64Pos (2 * x) = 2 * float64Pos x"
proof (cases "x \<le> 0")
  case True
  then show ?thesis
    by (simp add: float64Pos_nonpos)
next
  case False
  show ?thesis
  proof (cases "x < 2 ^ 52")
    case True
    with False show ?thesis
      by (subst (2) float64Pos.simps) simp
  next
    case False
    with \<open>\<not> x \<le> 0\<close> show ?thesis
      by (subst float64Pos.simps) simp
  qed
qed

lemma float64Pos_half: "float64Pos (x / 2) = float64Pos x / 2"
  using float64Pos_double [of "x / 2"] by simp

lemma roundHalfEven_of_int: "roundHalfEven (of_int n) = n"
  by (simp add: roundHalfEven_def)

lemma roundHalfEven_error: "\<bar>of_int (roundHalfEven q) - q\<bar> \<le> 1 / 2"
proof -
  have "of_int \<lfloor>q\<rfloor> \<le> q" and "q < of_int \<lfloor>q\<rfloor> + 1"
    by linarith+
  then show ?thesis
    unfolding roundHalfEven_def Let_def by (auto simp: abs_le_iff) 
qed

lemma float64Pos_of_int:
  "0 \<le> n \<Longrightarrow> n \<le> 2 ^ 53 \<Longrightarrow> float64Pos (of_int n) = of_int n"
proof (induction "of_int n :: rat" arbitrary: n rule: float64Pos.induct)
  case 1
  show ?case
  proof (cases "n = 0")
    case True
    then show ?thesis
      by (simp add: float64Pos_nonpos)
  next
    case False
    with 1(3) have pos: "0 < n"
      by simp
    show ?thesis
    proof (cases "2 ^ 53 \<le> n")
      case True
      with 1(4) have n: "n = 2 ^ 53"
        by simp
      have "(of_int n :: rat) / 2 = of_int (2 ^ 52)"
        by (simp add: n)
      moreover have "\<not> (of_int n :: rat) \<le> 0" and "(2::rat) ^ 53 \<le> of_int n"
        by (simp_all add: n)
      ultimately have "float64Pos (of_int (2 ^ 52)) = of_int (2 ^ 52)"
        using 1(1) [of "2 ^ 52"] by simp
      then have "float64Pos (2 * of_int (2 ^ 52)) = 2 * of_int (2 ^ 52)"
        by (simp only: float64Pos_double)
      then show ?thesis
        by (simp add: n)
    next
      case False
      then have lt: "n < 2 ^ 53"
        by simp
      show ?thesis
      proof (cases "n < 2 ^ 52")
        case True
        have c: "\<not> (of_int n :: rat) \<le> 0" "\<not> (2::rat) ^ 53 \<le> of_int n"
          "(of_int n :: rat) < 2 ^ 52"
          using pos lt True by (simp_all add: not_le)
        have "2 * (of_int n :: rat) = of_int (2 * n)"
          by simp
        moreover from True have "2 * n \<le> 2 ^ 53"
          by simp
        moreover from pos have "0 \<le> 2 * n"
          by simp
        ultimately have "float64Pos (of_int (2 * n)) = of_int (2 * n)"
          using 1(2) [OF c, of "2 * n"] by simp
        then have "2 * float64Pos (of_int n) = 2 * of_int n"
          using float64Pos_double [of "of_int n"] by simp
        then show ?thesis
          by simp
      next
        case False
        then have "(2::rat) ^ 52 \<le> of_int n"
          by (metis not_less of_int_le_iff of_int_numeral of_int_power)
        moreover from lt have "(of_int n :: rat) < 2 ^ 53"
          by (metis of_int_less_iff of_int_numeral of_int_power)
        ultimately show ?thesis
          by (subst float64Pos.simps) (simp add: roundHalfEven_of_int not_le)
      qed
    qed
  qed
qed

lemma float64Pos_nonneg: "0 \<le> float64Pos x"
proof (induction x rule: float64Pos.induct)
  case (1 x)
  show ?case
  proof (cases "x \<le> 0")
    case True
    then show ?thesis
      by (simp add: float64Pos_nonpos)
  next
    case False
    show ?thesis
    proof (cases "2 ^ 53 \<le> x")
      case True
      with False 1(1) show ?thesis
        by (subst float64Pos.simps) simp
    next
      case big: False
      show ?thesis
      proof (cases "x < 2 ^ 52")
        case True
        with False big 1(2) show ?thesis
          by (subst float64Pos.simps) simp
      next
        case mid: False
        then have "0 \<le> \<lfloor>x\<rfloor>"
          by (simp add: not_less le_floor_iff)
        then have "0 \<le> roundHalfEven x"
          by (simp add: roundHalfEven_def Let_def)
        with False big mid show ?thesis
          by (subst float64Pos.simps) simp
      qed
    qed
  qed
qed

lemma float64Pos_error: "0 < x \<Longrightarrow> \<bar>float64Pos x - x\<bar> \<le> x / 2 ^ 53"
proof (induction x rule: float64Pos.induct)
  case (1 x)
  then have pos: "\<not> x \<le> 0"
    by simp
  show ?case
  proof (cases "2 ^ 53 \<le> x")
    case True
    from 1(3) have "0 < x / 2"
      by simp
    from 1(1) [OF pos True this] have "2 * \<bar>float64Pos (x / 2) - x / 2\<bar> \<le> x / 2 ^ 53"
      by simp
    moreover have "2 * \<bar>float64Pos (x / 2) - x / 2\<bar> = \<bar>2 * float64Pos (x / 2) - x\<bar>"
      by (simp add: abs_if)
    ultimately have "\<bar>2 * float64Pos (x / 2) - x\<bar> \<le> x / 2 ^ 53"
      by simp
    with pos True show ?thesis
      by (subst float64Pos.simps) simp
  next
    case big: False
    show ?thesis
    proof (cases "x < 2 ^ 52")
      case True
      from 1(3) have "0 < 2 * x"
        by simp
      from 1(2) [OF pos big True this] have "\<bar>float64Pos (2 * x) - 2 * x\<bar> / 2 \<le> x / 2 ^ 53"
        by simp
      moreover have "\<bar>float64Pos (2 * x) - 2 * x\<bar> / 2 = \<bar>float64Pos (2 * x) / 2 - x\<bar>"
        by (simp add: abs_if)
      ultimately have "\<bar>float64Pos (2 * x) / 2 - x\<bar> \<le> x / 2 ^ 53"
        by simp
      with pos big True show ?thesis
        by (subst float64Pos.simps) simp
    next
      case mid: False
      then have "1 / 2 \<le> x / 2 ^ 53"
        by (simp add: not_less)
      with roundHalfEven_error [of x] have "\<bar>of_int (roundHalfEven x) - x\<bar> \<le> x / 2 ^ 53"
        by linarith
      with pos big mid show ?thesis
        by (subst float64Pos.simps) simp
    qed
  qed
qed

lemma float64Pos_idem: "float64Pos (float64Pos x) = float64Pos x"
proof (induction x rule: float64Pos.induct)
  case (1 x)
  show ?case
  proof (cases "x \<le> 0")
    case True
    then show ?thesis
      by (simp add: float64Pos_nonpos)
  next
    case pos: False
    show ?thesis
    proof (cases "2 ^ 53 \<le> x")
      case True
      have e: "float64Pos x = 2 * float64Pos (x / 2)"
        using pos True by (subst float64Pos.simps) simp
      have "float64Pos (2 * float64Pos (x / 2)) = 2 * float64Pos (float64Pos (x / 2))"
        by (rule float64Pos_double)
      also have "\<dots> = 2 * float64Pos (x / 2)"
        by (simp only: 1(1) [OF pos True])
      finally show ?thesis
        by (simp only: e)
    next
      case big: False
      show ?thesis
      proof (cases "x < 2 ^ 52")
        case True
        have e: "float64Pos x = float64Pos (2 * x) / 2"
          using pos big True by (subst float64Pos.simps) simp
        have "float64Pos (float64Pos (2 * x) / 2) = float64Pos (float64Pos (2 * x)) / 2"
          by (rule float64Pos_half)
        also have "\<dots> = float64Pos (2 * x) / 2"
          by (simp only: 1(2) [OF pos big True])
        finally show ?thesis
          by (simp only: e)
      next
        case mid: False
        have e: "float64Pos x = of_int (roundHalfEven x)"
          using pos big mid by (subst float64Pos.simps) simp
        from mid have lo: "2 ^ 52 \<le> x"
          by simp
        from big have hi: "x < 2 ^ 53"
          by simp
        have "of_int (2 ^ 52) \<le> x"
          using lo by simp
        then have "2 ^ 52 \<le> \<lfloor>x\<rfloor>"
          by (simp only: le_floor_iff)
        then have n0: "0 \<le> roundHalfEven x"
          by (simp add: roundHalfEven_def Let_def)
        have "x < of_int (2 ^ 53)"
          using hi by simp
        then have "\<lfloor>x\<rfloor> < 2 ^ 53"
          by (simp only: floor_less_iff)
        then have n1: "roundHalfEven x \<le> 2 ^ 53"
          by (simp add: roundHalfEven_def Let_def)
        from float64Pos_of_int [OF n0 n1] show ?thesis
          by (simp add: e)
      qed
    qed
  qed
qed

lemma float64_of_int: "\<bar>n\<bar> \<le> 2 ^ 53 \<Longrightarrow> float64 (of_int n) = of_int n"
  using float64Pos_of_int [of n] float64Pos_of_int [of "- n"]
  by (auto simp: float64_def)

lemma float64_zero: "float64 0 = 0"
  by (simp add: float64_def float64Pos_nonpos)


lemma float64Pos_sixteen: "float64Pos (y * 16) = float64Pos y * 16"
proof -
  have "y * 16 = 2 * (2 * (2 * (2 * y)))"
    by simp
  then show ?thesis
    by (simp only: float64Pos_double)
qed

lemma floor_float64_sixteenths:
  assumes "0 \<le> k" and "k < 1000000"
  shows "\<lfloor>float64 (float64 (of_int k / 1000000) * 16)\<rfloor> = k * 16 div 1000000"
proof -
  define r :: rat where "r = of_int k / 1000000"
  define a where "a = float64Pos r"
  define j where "j = k * 16 div 1000000"
  define m where "m = k * 16 mod 1000000"
  from assms have r0: "0 \<le> r" and r1: "r < 1"
    by (simp_all add: r_def)
  have a0: "0 \<le> a"
    by (simp add: a_def float64Pos_nonneg)
  have "float64 (float64 r * 16) = float64Pos (a * 16)"
    using r0 a0 by (simp add: float64_def a_def not_less)
  also have "\<dots> = a * 16"
    by (simp only: float64Pos_sixteen a_def float64Pos_idem)
  finally have v: "float64 (float64 r * 16) = a * 16" .
  have km: "k * 16 = j * 1000000 + m"
    unfolding j_def m_def by (rule div_mult_mod_eq [symmetric])
  have m0: "0 \<le> m" and m1: "m < 1000000"
    unfolding m_def by (rule pos_mod_sign, simp) (rule pos_mod_bound, simp)
  from assms km m0 have j0: "0 \<le> j" and j1: "j \<le> 16"
    by (simp_all add: j_def pos_imp_zdiv_nonneg_iff) 
  have "of_int (k * 16) = (of_int (j * 1000000 + m) :: rat)"
    by (simp only: km)
  then have rm: "r * 16000000 = of_int j * 1000000 + of_int m"
    by (simp add: r_def)
  have bounds: "of_int j \<le> a * 16 \<and> a * 16 < of_int j + 1"
  proof (cases "m = 0")
    case True
    with rm have e: "r * 16 = of_int j"
      by simp
    have "a * 16 = float64Pos (r * 16)"
      by (simp only: a_def float64Pos_sixteen)
    also have "\<dots> = float64Pos (of_int j)"
      by (simp only: e)
    also have "\<dots> = of_int j"
      using j0 j1 by (intro float64Pos_of_int) simp_all
    finally show ?thesis
      by simp
  next
    case False
    with m0 m1 have "1 \<le> m" and "m \<le> 999999"
      by simp_all
    then have m': "(1::rat) \<le> of_int m" "(of_int m :: rat) \<le> 999999"
      by (simp_all add: of_int_le_iff [of m 999999, where ?'a = rat, simplified])
    from False rm m0 have "0 < r"
      using j0 by (cases "r = 0") (auto simp: less_le r0)
    have p: "(2::rat) ^ 53 = 9007199254740992"
      by simp
    from float64Pos_error [OF \<open>0 < r\<close>] have "\<bar>a - r\<bar> \<le> r / 9007199254740992"
      unfolding a_def p .
    then have "a - r \<le> r / 9007199254740992" and "r - a \<le> r / 9007199254740992"
      by linarith+
    with rm m' r1 show ?thesis
      by linarith
  qed
  then have "\<lfloor>a * 16\<rfloor> = j"
    by (intro floor_unique) simp_all
  with v show ?thesis
    by (simp add: r_def j_def)
qed

section \<open>Local time\<close>

lemma time_fields:
  "MakeDate (Day t) (MakeTime (HourFromTime t) (MinFromTime t) (SecFromTime t) (msFromTime t)) = t"
proof -
  have a: "t div 60000 = t div 1000 div 60" and b: "t div 3600000 = t div 1000 div 60 div 60"
    and c: "t div 86400000 = t div 1000 div 60 div 60 div 24"
    by (simp_all add: zdiv_zmult2_eq [symmetric])
  define s where "s = t div 1000"
  define m where "m = s div 60"
  define h where "h = m div 60"
  have 1: "t = s * 1000 + t mod 1000"
    by (simp add: s_def)
  have 2: "s = m * 60 + s mod 60"
    by (simp add: m_def)
  have 3: "m = h * 60 + m mod 60"
    by (simp add: h_def)
  have 4: "h = (h div 24) * 24 + h mod 24"
    by simp
  have "(h div 24) * 86400000 + (h mod 24 * 3600000 + m mod 60 * 60000 + s mod 60 * 1000 + t mod 1000) = t"
    using 1 2 3 4 by linarith
  then show ?thesis
    unfolding MakeDate_def MakeTime_def Day_def HourFromTime_def MinFromTime_def SecFromTime_def
      msFromTime_def a b c s_def [symmetric] m_def [symmetric] h_def [symmetric] .
qed

lemma setMinutes_shift:
  "setMinutes z t (getMinutes z t + k) = UTC z (LocalTime z t + k * 60000)"
proof -
  have "MakeDate d (MakeTime h (m + k) s ms) = MakeDate d (MakeTime h m s ms) + k * 60000"
    for d h m s ms
    by (simp add: MakeDate_def MakeTime_def algebra_simps)
  then show ?thesis
    by (simp only: setMinutes_def Let_def getMinutes_def time_fields)
qed

section \<open>The seeded hash and the clock\<close>

lemma floor_seededRandom_16:
  "\<lfloor>float64 (seededRandom seed * 16)\<rfloor> =
   (\<bar>sint (stringHash seed)\<bar> mod 1000000) * 16 div 1000000"
  unfolding seededRandom_def by (rule floor_float64_sixteenths) simp_all

lemma hexDigit_range:
  "0 \<le> (\<bar>x\<bar> mod 1000000) * 16 div (1000000::int)"
  "(\<bar>x\<bar> mod 1000000) * 16 div (1000000::int) < 16"
proof -
  have "0 \<le> \<bar>x\<bar> mod 1000000" and "\<bar>x\<bar> mod 1000000 < 1000000"
    by simp_all
  then show "0 \<le> (\<bar>x\<bar> mod 1000000) * 16 div (1000000::int)"
    and "(\<bar>x\<bar> mod 1000000) * 16 div (1000000::int) < 16"
    by (simp_all add: div_less_iff_less_mult pos_imp_zdiv_nonneg_iff)
qed

lemma toStringRadix_digit:
  "0 \<le> n \<Longrightarrow> n < 16 \<Longrightarrow> toStringRadix 16 n = [digitChar (nat n)]"
  by (simp add: toStringRadix_def digitsRadix.simps)

lemma concat_singletons: "concat (map (\<lambda>i. [f i]) xs) = map f xs"
  by (induction xs) simp_all

lemma stringHash_append: "stringHash (a @ b) = foldl hashStep (stringHash a) b"
  by (simp add: stringHash_def)

lemma fakeHash_chars:
  "fakeHash seed =
   map (\<lambda>i. digitChar (nat ((\<bar>sint (foldl hashStep (stringHash (seed @ ''-''))
                                       (toString10 (int i)))\<bar> mod 1000000)
                              * 16 div 1000000)))
     [0..<64]"
proof -
  have "seed @ ''-'' @ s = (seed @ ''-'') @ s" for s
    by simp
  then show ?thesis
    unfolding fakeHash_def floor_seededRandom_16
    by (simp only: toStringRadix_digit [OF hexDigit_range] concat_singletons stringHash_append)
qed

lemma length_fakeHash: "length (fakeHash seed) = 64"
  by (simp add: fakeHash_chars)

lemma upt_64:
  "[0..<64] = [0..<12] @ [12..<24] @ [24..<36] @ [36..<48] @ [48..<60] @ [60..<64]"
  by (simp add: upt_add_eq_append [of 0 12 12, simplified] upt_add_eq_append [of 0 24 12, simplified]
      upt_add_eq_append [of 0 36 12, simplified] upt_add_eq_append [of 0 48 12, simplified]
      upt_add_eq_append [of 0 60 4, simplified])

lemma upt_chunks:
  "[0..<12] = [0, 1, 2, 3, 4, 5, 6, 7, 8, 9, 10, 11]"
  "[12..<24] = [12, 13, 14, 15, 16, 17, 18, 19, 20, 21, 22, 23]"
  "[24..<36] = [24, 25, 26, 27, 28, 29, 30, 31, 32, 33, 34, 35]"
  "[36..<48] = [36, 37, 38, 39, 40, 41, 42, 43, 44, 45, 46, 47]"
  "[48..<60] = [48, 49, 50, 51, 52, 53, 54, 55, 56, 57, 58, 59]"
  "[60..<64] = [60, 61, 62, 63]"
  by (simp_all add: upt_rec)

lemma prefix_hashes:
  "stringHash (''block-12345-2023-10-28'' @ ''-'') = 3821205165"
  "stringHash (''block-12345-2026-12-29'' @ ''-'') = 461548651"
  "stringHash (''block-12343-2023-10-28'' @ ''-'') = 113043883"
  by (simp_all add: stringHash_def hashStep_def)

lemma fakeHash_2023_10_28_at_12345:
  "fakeHash ''block-12345-2023-10-28'' =
   ''bbbbbbbbbbdddddddddddddddddddddddddddddddddddddddddddddddddddddd''"
  unfolding fakeHash_chars upt_64 prefix_hashes
  apply (simp only: upt_chunks map_append list.map)
  apply (simp add: hashStep_def digitChar_def toString10_def toStringRadix_def digitsRadix.simps)
  done

lemma fakeHash_2026_12_29_at_12345:
  "fakeHash ''block-12345-2026-12-29'' =
   ''1111111111999999999999999999999999999999999999999999999999999999''"
  unfolding fakeHash_chars upt_64 prefix_hashes
  apply (simp only: upt_chunks map_append list.map)
  apply (simp add: hashStep_def digitChar_def toString10_def toStringRadix_def digitsRadix.simps)
  done

lemma fakeHash_2023_10_28_at_12343:
  "fakeHash ''block-12343-2023-10-28'' =
   ''9999999999ffffffffffffffffffffffffffffffffffffffffffffffffffffff''"
  unfolding fakeHash_chars upt_64 prefix_hashes
  apply (simp only: upt_chunks map_append list.map)
  apply (simp add: hashStep_def digitChar_def toString10_def toStringRadix_def digitsRadix.simps)
  done

lemma blockDate_local: "blockDate zone now h = UTC zone (LocalTime zone now - h * 120000)"
  using setMinutes_shift [of zone now "- (h * 2)"] by (simp add: blockDate_def algebra_simps)

lemma blockDate_eq: "blockDate utcZone now h = now - h * 120000"
  by (simp add: blockDate_local UTC_def LocalTime_def utcZone_def)

lemma civil_steps:
  assumes "z = days + 719468" and "era = z div 146097" and "doe = z - era * 146097"
    and "yoe = (doe - doe div 1460 + doe div 36524 - doe div 146096) div 365"
    and "doy = doe - (365 * yoe + yoe div 4 - yoe div 100)"
    and "mp = (5 * doy + 2) div 153"
    and "d = doy - (153 * mp + 2) div 5 + 1"
    and "m = (if mp < 10 then mp + 3 else mp - 9)"
    and "y = yoe + era * 400 + (if m \<le> 2 then 1 else 0)"
  shows "civil days = (y, nat m, nat d)"
  unfolding civil_def Let_def assms ..

lemma civil_19658: "civil 19658 = (2023, nat 10, nat 28)"
  by (rule civil_steps [where z = 739126 and era = 5 and doe = 8641 and yoe = 23
        and doy = 241 and mp = 7]) simp_all

lemma civil_20816: "civil 20816 = (2026, nat 12, nat 29)"
  by (rule civil_steps [where z = 740284 and era = 5 and doe = 9799 and yoe = 26
        and doy = 303 and mp = 9]) simp_all

lemma toISOString_parts:
  assumes "civil (ms div 86400000) = (y, m, d)" and "r = nat (ms mod 86400000)"
  shows "toISOString ms =
         isoYear y @ ''-'' @ pad 2 m @ ''-'' @ pad 2 d @ ''T''
         @ pad 2 (r div 3600000) @ '':'' @ pad 2 (r div 60000 mod 60) @ '':''
         @ pad 2 (r div 1000 mod 60) @ ''.'' @ pad 3 (r mod 1000) @ ''Z''"
  using assms by (simp add: toISOString_def Let_def)

lemma pad_eval:
  "pad 2 0 = ''00''" "pad 2 4 = ''04''" "pad 2 10 = ''10''" "pad 2 12 = ''12''"
  "pad 2 18 = ''18''" "pad 2 19 = ''19''" "pad 2 20 = ''20''" "pad 2 28 = ''28''"
  "pad 2 29 = ''29''" "pad 2 30 = ''30''" "pad 2 43 = ''43''" "pad 2 47 = ''47''"
  "pad 3 0 = ''000''" "pad 3 2 = ''002''" "pad 3 100 = ''100''"
  "pad 4 2023 = ''2023''" "pad 4 2026 = ''2026''"
  unfolding pad_def Let_def
  by (simp_all add: digitsRadix.simps digitChar_def replicate_numeral)

lemma toISOString_demo_12345: "toISOString 1698518600000 = ''2023-10-28T18:43:20.000Z''"
  using toISOString_parts [of 1698518600000 2023 "nat 10" "nat 28" 67400000]
  by (simp add: civil_19658 isoYear_def pad_eval)

lemma toISOString_hour_later_12345: "toISOString 1698522200000 = ''2023-10-28T19:43:20.000Z''"
  using toISOString_parts [of 1698522200000 2023 "nat 10" "nat 28" 71000000]
  by (simp add: civil_19658 isoYear_def pad_eval)

lemma toISOString_later_12345: "toISOString 1798518600000 = ''2026-12-29T04:30:00.000Z''"
  using toISOString_parts [of 1798518600000 2026 "nat 12" "nat 29" 16200000]
  by (simp add: civil_20816 isoYear_def pad_eval)

lemma toISOString_demo_12343: "toISOString 1698518840002 = ''2023-10-28T18:47:20.002Z''"
  using toISOString_parts [of 1698518840002 2023 "nat 10" "nat 28" 67640002]
  by (simp add: civil_19658 isoYear_def pad_eval)

lemma isoDate_demo:
  "isoDate 1698518600000 = ''2023-10-28''" "isoDate 1698522200000 = ''2023-10-28''"
  "isoDate 1798518600000 = ''2026-12-29''" "isoDate 1698518840002 = ''2023-10-28''"
  unfolding isoDate_def toISOString_demo_12345 toISOString_hour_later_12345
    toISOString_later_12345 toISOString_demo_12343
  by simp_all

lemma toString10_heights: "toString10 12345 = ''12345''" "toString10 12343 = ''12343''"
  unfolding toString10_def toStringRadix_def
  by (simp_all add: digitsRadix.simps digitChar_def)

lemma mockBlocks_nth:
  "i < 100 \<Longrightarrow>
   mockBlocks (MockProvider_new zone clock) ! i =
   generateMockBlock zone (clock i) (latestHeight - int i)"
  by (simp add: MockProvider_new_def)

lemma b_hash_generateMockBlock:
  "b_hash (generateMockBlock zone now h) =
   JStr (fakeHash (''block-'' @ toString10 h @ ''-'' @ isoDate (blockDate zone now h)))"
  by (simp add: generateMockBlock_def Let_def)

text \<open>
  Claim C3 fails as stated: two constructions some three years apart, in a process whose
  local time is UTC, give the block at height 12345 different hashes.
\<close>

theorem mock_hash_depends_on_clock_counterexample:
  "b_height (mockBlocks (MockProvider_new utcZone demoClock) ! 0) = JNum 12345
   \<and> b_hash (mockBlocks (MockProvider_new utcZone demoClock) ! 0) =
       JStr ''bbbbbbbbbbdddddddddddddddddddddddddddddddddddddddddddddddddddddd''
   \<and> b_height (mockBlocks (MockProvider_new utcZone laterClock) ! 0) = JNum 12345
   \<and> b_hash (mockBlocks (MockProvider_new utcZone laterClock) ! 0) =
       JStr ''1111111111999999999999999999999999999999999999999999999999999999''
   \<and> MockProvider_new utcZone demoClock \<noteq> MockProvider_new utcZone laterClock"
proof -
  have d: "mockBlocks (MockProvider_new utcZone demoClock) ! 0 =
           generateMockBlock utcZone 1700000000000 12345"
    using mockBlocks_nth [of 0 utcZone demoClock] by (simp add: demoClock_def latestHeight_def)
  have l: "mockBlocks (MockProvider_new utcZone laterClock) ! 0 =
           generateMockBlock utcZone 1800000000000 12345"
    using mockBlocks_nth [of 0 utcZone laterClock] by (simp add: laterClock_def latestHeight_def)
  have hd: "b_hash (generateMockBlock utcZone 1700000000000 12345) =
            JStr ''bbbbbbbbbbdddddddddddddddddddddddddddddddddddddddddddddddddddddd''"
    unfolding b_hash_generateMockBlock blockDate_eq
    by (simp add: isoDate_demo toString10_heights fakeHash_2023_10_28_at_12345)
  have hl: "b_hash (generateMockBlock utcZone 1800000000000 12345) =
            JStr ''1111111111999999999999999999999999999999999999999999999999999999''"
    unfolding b_hash_generateMockBlock blockDate_eq
    by (simp add: isoDate_demo toString10_heights fakeHash_2026_12_29_at_12345)
  have "b_hash (mockBlocks (MockProvider_new utcZone demoClock) ! 0) \<noteq>
        b_hash (mockBlocks (MockProvider_new utcZone laterClock) ! 0)"
    unfolding d l hd hl by simp
  then have "MockProvider_new utcZone demoClock \<noteq> MockProvider_new utcZone laterClock"
    by auto
  with d l hd hl show ?thesis
    by (simp add: b_height_generateMockBlock)
qed

lemma MockProvider_new_cong:
  assumes "\<forall>k<300. c1 k = c2 k"
  shows "MockProvider_new zone c1 = MockProvider_new zone c2"
proof -
  have "map (\<lambda>i. generateMockBlock zone (c1 i) (latestHeight - int i)) [0..<100] =
        map (\<lambda>i. generateMockBlock zone (c2 i) (latestHeight - int i)) [0..<100]"
    using assms by (intro map_cong) simp_all
  moreover
  have "map (\<lambda>i. generateMockTransaction zone (c1 (100 + i)) (int i) (confirmedHeight i))
          [0..<200] =
        map (\<lambda>i. generateMockTransaction zone (c2 (100 + i)) (int i) (confirmedHeight i))
          [0..<200]"
    using assms by (intro map_cong) simp_all
  ultimately show ?thesis
    by (simp add: MockProvider_new_def)
qed

lemma generateMockBlock_same_day:
  assumes "isoDate (blockDate z1 n1 h) = isoDate (blockDate z2 n2 h)"
  shows "b_height (generateMockBlock z1 n1 h) = b_height (generateMockBlock z2 n2 h)
       \<and> b_hash (generateMockBlock z1 n1 h) = b_hash (generateMockBlock z2 n2 h)
       \<and> b_txCount (generateMockBlock z1 n1 h) = b_txCount (generateMockBlock z2 n2 h)"
  using assms by (simp add: generateMockBlock_def Let_def)

lemma generateMockTransaction_same_day:
  assumes "isoDate (txDate z1 n1 i bh) = isoDate (txDate z2 n2 i bh)"
  shows "tx_hash (generateMockTransaction z1 n1 i bh) =
         tx_hash (generateMockTransaction z2 n2 i bh)
       \<and> tx_status (generateMockTransaction z1 n1 i bh) =
           tx_status (generateMockTransaction z2 n2 i bh)
       \<and> tx_blockHeight (generateMockTransaction z1 n1 i bh) =
           tx_blockHeight (generateMockTransaction z2 n2 i bh)
       \<and> tx_size (generateMockTransaction z1 n1 i bh) =
           tx_size (generateMockTransaction z2 n2 i bh)"
  using assms by (simp add: generateMockTransaction_def Let_def)

lemma mockTransactions_nth':
  "j < 200 \<Longrightarrow>
   mockTransactions (MockProvider_new zone clock) ! j =
   generateMockTransaction zone (clock (100 + j)) (int j) (confirmedHeight j)"
  by (simp add: MockProvider_new_def)

text \<open>
  Claim C3, as amended. The corpus is a function of the time zone of the process and of
  the clock readings that the generator calls take: two constructions in one zone whose
  readings agree give identical corpora. Every generator call derives a date from its
  reading; for a block that is the reading moved back, in local time, by two minutes per
  unit of height. The height, and through the seed the hash and the count of a block, and
  the hash, status, height and size of a transaction, depend on zone and reading only by
  the UTC calendar day of the derived date, so they agree in two constructions, in whatever
  zones, whenever those days agree. The time stamp of a block is the derived date, printed. Every
  block hash has 64 characters, and the first block has height 12345.
\<close>

theorem mock_corpus_determined_by_clock_days:
  "((\<forall>k<300. c1 k = c2 k) \<longrightarrow> MockProvider_new z1 c1 = MockProvider_new z1 c2)
   \<and> (i < 100
       \<and> isoDate (blockDate z1 (c1 i) (latestHeight - int i)) =
           isoDate (blockDate z2 (c2 i) (latestHeight - int i)) \<longrightarrow>
       b_height (mockBlocks (MockProvider_new z1 c1) ! i) =
         b_height (mockBlocks (MockProvider_new z2 c2) ! i)
       \<and> b_hash (mockBlocks (MockProvider_new z1 c1) ! i) =
           b_hash (mockBlocks (MockProvider_new z2 c2) ! i)
       \<and> b_txCount (mockBlocks (MockProvider_new z1 c1) ! i) =
           b_txCount (mockBlocks (MockProvider_new z2 c2) ! i))
   \<and> (i < 100 \<longrightarrow>
       (\<exists>s. b_hash (mockBlocks (MockProvider_new z1 c1) ! i) = JStr s \<and> length s = 64)
       \<and> b_timestamp (mockBlocks (MockProvider_new z1 c1) ! i) =
           JStr (toISOString (blockDate z1 (c1 i) (latestHeight - int i)))
       \<and> blockDate z1 (c1 i) (latestHeight - int i) =
           UTC z1 (LocalTime z1 (c1 i) - (latestHeight - int i) * 120000))
   \<and> (j < 200
       \<and> isoDate (txDate z1 (c1 (100 + j)) (int j) (confirmedHeight j)) =
           isoDate (txDate z2 (c2 (100 + j)) (int j) (confirmedHeight j)) \<longrightarrow>
       tx_hash (mockTransactions (MockProvider_new z1 c1) ! j) =
         tx_hash (mockTransactions (MockProvider_new z2 c2) ! j)
       \<and> tx_status (mockTransactions (MockProvider_new z1 c1) ! j) =
           tx_status (mockTransactions (MockProvider_new z2 c2) ! j)
       \<and> tx_blockHeight (mockTransactions (MockProvider_new z1 c1) ! j) =
           tx_blockHeight (mockTransactions (MockProvider_new z2 c2) ! j)
       \<and> tx_size (mockTransactions (MockProvider_new z1 c1) ! j) =
           tx_size (mockTransactions (MockProvider_new z2 c2) ! j))
   \<and> b_height (mockBlocks (MockProvider_new z1 c1) ! 0) = JNum 12345"
proof -
  have a: "(\<forall>k<300. c1 k = c2 k) \<longrightarrow> MockProvider_new z1 c1 = MockProvider_new z1 c2"
    using MockProvider_new_cong by blast
  have b: "i < 100
       \<and> isoDate (blockDate z1 (c1 i) (latestHeight - int i)) =
           isoDate (blockDate z2 (c2 i) (latestHeight - int i)) \<longrightarrow>
       b_height (mockBlocks (MockProvider_new z1 c1) ! i) =
         b_height (mockBlocks (MockProvider_new z2 c2) ! i)
       \<and> b_hash (mockBlocks (MockProvider_new z1 c1) ! i) =
           b_hash (mockBlocks (MockProvider_new z2 c2) ! i)
       \<and> b_txCount (mockBlocks (MockProvider_new z1 c1) ! i) =
           b_txCount (mockBlocks (MockProvider_new z2 c2) ! i)"
    using generateMockBlock_same_day [of z1 "c1 i" "latestHeight - int i" z2 "c2 i"]
    by (simp add: mockBlocks_nth)
  have c: "i < 100 \<longrightarrow>
       (\<exists>s. b_hash (mockBlocks (MockProvider_new z1 c1) ! i) = JStr s \<and> length s = 64)
       \<and> b_timestamp (mockBlocks (MockProvider_new z1 c1) ! i) =
           JStr (toISOString (blockDate z1 (c1 i) (latestHeight - int i)))
       \<and> blockDate z1 (c1 i) (latestHeight - int i) =
           UTC z1 (LocalTime z1 (c1 i) - (latestHeight - int i) * 120000)"
    using blockDate_local [of z1 "c1 i" "latestHeight - int i"]
    by (simp add: mockBlocks_nth b_hash_generateMockBlock length_fakeHash
        generateMockBlock_def Let_def)
  have d: "j < 200
       \<and> isoDate (txDate z1 (c1 (100 + j)) (int j) (confirmedHeight j)) =
           isoDate (txDate z2 (c2 (100 + j)) (int j) (confirmedHeight j)) \<longrightarrow>
       tx_hash (mockTransactions (MockProvider_new z1 c1) ! j) =
         tx_hash (mockTransactions (MockProvider_new z2 c2) ! j)
       \<and> tx_status (mockTransactions (MockProvider_new z1 c1) ! j) =
           tx_status (mockTransactions (MockProvider_new z2 c2) ! j)
       \<and> tx_blockHeight (mockTransactions (MockProvider_new z1 c1) ! j) =
           tx_blockHeight (mockTransactions (MockProvider_new z2 c2) ! j)
       \<and> tx_size (mockTransactions (MockProvider_new z1 c1) ! j) =
           tx_size (mockTransactions (MockProvider_new z2 c2) ! j)"
    using generateMockTransaction_same_day
            [of z1 "c1 (100 + j)" "int j" "confirmedHeight j" z2 "c2 (100 + j)"]
    by (simp add: mockTransactions_nth')
  have e: "b_height (mockBlocks (MockProvider_new z1 c1) ! 0) = JNum 12345"
    using mockBlocks_nth [of 0 z1 c1]
    by (simp add: b_height_generateMockBlock latestHeight_def)
  from a b c d e show ?thesis
    by blast
qed

lemma toISOString_demo_tx0: "toISOString 1698518600100 = ''2023-10-28T18:43:20.100Z''"
  using toISOString_parts [of 1698518600100 2023 "nat 10" "nat 28" 67400100]
  by (simp add: civil_19658 isoYear_def pad_eval)

lemma toISOString_hour_later_tx0: "toISOString 1698522200100 = ''2023-10-28T19:43:20.100Z''"
  using toISOString_parts [of 1698522200100 2023 "nat 10" "nat 28" 71000100]
  by (simp add: civil_19658 isoYear_def pad_eval)

lemma toInteger_of_int: "toInteger (of_int n) = n"
  by (simp add: toInteger_def)

lemma MinFromTime_range: "0 \<le> MinFromTime t" "MinFromTime t < 60"
  by (simp_all add: MinFromTime_def)

lemma txDate_first:
  "txDate zone now 0 (Some 12345) = UTC zone (LocalTime zone now - 1481400000)"
proof -
  define g where "g = getMinutes zone now"
  have "0 \<le> g" and "g < 60"
    by (simp_all add: g_def getMinutes_def MinFromTime_range)
  then have "\<bar>g - 24690\<bar> \<le> 2 ^ 53"
    by simp
  then have "float64 (of_int (g - 24690)) = of_int (g - 24690)"
    by (rule float64_of_int)
  then have "toInteger (float64 (of_int (g - 12345 * 2) - float64 (of_int 0 * float64 (1 / 10)))) =
             g - 24690"
    by (simp add: float64_zero toInteger_of_int del: of_int_diff)
  then have "txDate zone now 0 (Some 12345) = setMinutes zone now (g + (- 24690))"
    by (simp add: txDate_def heightJson_def js_or_def g_def Let_def)
  also have "\<dots> = UTC zone (LocalTime zone now + (- 24690) * 60000)"
    unfolding g_def by (rule setMinutes_shift)
  finally show ?thesis
    by simp
qed

lemma txDate_demo:
  "txDate utcZone 1700000000100 0 (Some 12345) = 1698518600100"
  "txDate utcZone 1700003600100 0 (Some 12345) = 1698522200100"
  by (simp_all add: txDate_first UTC_def LocalTime_def utcZone_def)

theorem mock_corpus_determined_by_clock_days_witness:
  "demoClock 299 = 1700000000000 + int 299
   \<and> MockProvider_new utcZone demoClock = MockProvider_new utcZone (\<lambda>k. 1700000000000 + int k)
   \<and> isoDate (blockDate utcZone (demoClock 0) (latestHeight - int 0)) = ''2023-10-28''
   \<and> isoDate (blockDate utcZone (hourLaterClock 0) (latestHeight - int 0)) = ''2023-10-28''
   \<and> b_hash (mockBlocks (MockProvider_new utcZone demoClock) ! 0) =
       b_hash (mockBlocks (MockProvider_new utcZone hourLaterClock) ! 0)
   \<and> b_txCount (mockBlocks (MockProvider_new utcZone demoClock) ! 0) =
       b_txCount (mockBlocks (MockProvider_new utcZone hourLaterClock) ! 0)
   \<and> b_timestamp (mockBlocks (MockProvider_new utcZone demoClock) ! 0) =
       JStr ''2023-10-28T18:43:20.000Z''
   \<and> b_timestamp (mockBlocks (MockProvider_new utcZone hourLaterClock) ! 0) =
       JStr ''2023-10-28T19:43:20.000Z''
   \<and> isoDate (txDate utcZone (demoClock (100 + 0)) (int 0) (confirmedHeight 0)) =
       ''2023-10-28''
   \<and> isoDate (txDate utcZone (hourLaterClock (100 + 0)) (int 0) (confirmedHeight 0)) =
       ''2023-10-28''
   \<and> tx_hash (mockTransactions (MockProvider_new utcZone demoClock) ! 0) =
       tx_hash (mockTransactions (MockProvider_new utcZone hourLaterClock) ! 0)
   \<and> autumnClock 0 - (latestHeight - int 0) * 120000 = 1697061600000
   \<and> blockDate autumnZone (autumnClock 0) (latestHeight - int 0) = 1697058000000"
proof -
  have r: "\<forall>k<300. demoClock k = 1700000000000 + int k"
    by (simp add: demoClock_def)
  have bd: "isoDate (blockDate utcZone (demoClock 0) (latestHeight - int 0)) = ''2023-10-28''"
    "isoDate (blockDate utcZone (hourLaterClock 0) (latestHeight - int 0)) = ''2023-10-28''"
    by (simp_all add: blockDate_eq demoClock_def hourLaterClock_def latestHeight_def isoDate_demo)
  have td: "isoDate (txDate utcZone (demoClock (100 + 0)) (int 0) (confirmedHeight 0)) =
            ''2023-10-28''"
    "isoDate (txDate utcZone (hourLaterClock (100 + 0)) (int 0) (confirmedHeight 0)) =
     ''2023-10-28''"
    unfolding isoDate_def
    by (simp_all add: demoClock_def hourLaterClock_def confirmedHeight_def latestHeight_def
        txDate_demo toISOString_demo_tx0 toISOString_hour_later_tx0)
  have ts: "toISOString (blockDate utcZone (demoClock 0) (latestHeight - int 0)) =
            ''2023-10-28T18:43:20.000Z''"
    "toISOString (blockDate utcZone (hourLaterClock 0) (latestHeight - int 0)) =
            ''2023-10-28T19:43:20.000Z''"
    by (simp_all add: blockDate_eq demoClock_def hourLaterClock_def latestHeight_def
        toISOString_demo_12345 toISOString_hour_later_12345)
  have i: "(0::nat) < 100" and j: "(0::nat) < 200"
    by simp_all
  from mock_corpus_determined_by_clock_days
         [of demoClock "\<lambda>k. 1700000000000 + int k" utcZone 0 utcZone 0] r
  have 1: "MockProvider_new utcZone demoClock =
           MockProvider_new utcZone (\<lambda>k. 1700000000000 + int k)"
    by blast
  from mock_corpus_determined_by_clock_days [of demoClock hourLaterClock utcZone 0 utcZone 0]
    i j bd td
  have 2: "b_hash (mockBlocks (MockProvider_new utcZone demoClock) ! 0) =
             b_hash (mockBlocks (MockProvider_new utcZone hourLaterClock) ! 0)
           \<and> b_txCount (mockBlocks (MockProvider_new utcZone demoClock) ! 0) =
               b_txCount (mockBlocks (MockProvider_new utcZone hourLaterClock) ! 0)
           \<and> tx_hash (mockTransactions (MockProvider_new utcZone demoClock) ! 0) =
               tx_hash (mockTransactions (MockProvider_new utcZone hourLaterClock) ! 0)
           \<and> b_timestamp (mockBlocks (MockProvider_new utcZone demoClock) ! 0) =
               JStr (toISOString (blockDate utcZone (demoClock 0) (latestHeight - int 0)))"
    by simp
  from mock_corpus_determined_by_clock_days [of hourLaterClock demoClock utcZone 0 utcZone 0] i
  have 3: "b_timestamp (mockBlocks (MockProvider_new utcZone hourLaterClock) ! 0) =
             JStr (toISOString (blockDate utcZone (hourLaterClock 0) (latestHeight - int 0)))"
    by blast
  have r': "demoClock 299 = 1700000000000 + int 299"
    by (simp add: demoClock_def)
  have 4: "autumnClock 0 - (latestHeight - int 0) * 120000 = 1697061600000"
    by (simp add: autumnClock_def latestHeight_def)
  from mock_corpus_determined_by_clock_days [of autumnClock autumnClock autumnZone 0 autumnZone 0]
    i
  have "blockDate autumnZone (autumnClock 0) (latestHeight - int 0) =
        UTC autumnZone (LocalTime autumnZone (autumnClock 0) - (latestHeight - int 0) * 120000)"
    by blast
  then have 5: "blockDate autumnZone (autumnClock 0) (latestHeight - int 0) = 1697058000000"
    by (simp add: UTC_def LocalTime_def autumnZone_def autumnClock_def latestHeight_def)
  from r' 1 2 3 4 5 bd td ts show ?thesis
    by simp
qed

section \<open>Id resolution in the mock provider\<close>

lemma parseInt10_12345abc: "parseInt10 ''12345abc'' = Some 12345"
  unfolding parseInt10_def Let_def
  by (simp add: isWhite_def isDigit_def digitsValue_def digitVal_def)

lemma parseInt10_nines:
  "parseInt10 ''9999999999ffffffffffffffffffffffffffffffffffffffffffffffffffffff'' =
   Some 9999999999"
  unfolding parseInt10_def Let_def
  by (simp add: isWhite_def isDigit_def digitsValue_def digitVal_def)

lemma mock_find_height_12345:
  "find (\<lambda>b. b_height b = JNum 12345) (mockBlocks (MockProvider_new zone clock)) =
   Some (generateMockBlock zone (clock 0) 12345)"
proof -
  have "[0..<100] = 0 # [1..<100]"
    by (simp add: upt_conv_Cons)
  then have "mockBlocks (MockProvider_new zone clock) =
             generateMockBlock zone (clock 0) 12345 #
             map (\<lambda>i. generateMockBlock zone (clock i) (latestHeight - int i)) [1..<100]"
    by (simp add: MockProvider_new_def latestHeight_def)
  then show ?thesis
    by (simp add: b_height_generateMockBlock)
qed

lemma mock_find_short_hash:
  "length s \<noteq> 64 \<Longrightarrow>
   find (\<lambda>b. b_hash b = JStr s) (mockBlocks (MockProvider_new zone clock)) = None"
  by (auto simp: find_None_iff MockProvider_new_def b_hash_generateMockBlock length_fakeHash)

text \<open>
  Claim C4 against the mock provider. The id \<open>12345abc\<close> is not purely numeric and is
  the hash of no block, yet the lookup answers with the block at height 12345, because
  \<open>parseInt\<close> reads the leading digits. And a block of the corpus whose hash starts with
  a digit is not found by its own hash: in the corpus built at \<open>demoClock\<close>, local time
  being UTC, the block at index 2 has the hash \<open>9999999999ff...\<close>, and the lookup of
  that hash answers \<open>null\<close>.
\<close>

theorem mock_lookup_reads_leading_digits_as_height:
  "\<not> allDigits ''12345abc''
   \<and> find (\<lambda>b. b_hash b = JStr ''12345abc'') (mockBlocks (MockProvider_new zone clock)) = None
   \<and> MockProvider_getBlockByHashOrHeight (MockProvider_new zone clock) ''12345abc'' =
       Some (generateMockBlock zone (clock 0) 12345)
   \<and> \<not> allDigits ''9999999999ffffffffffffffffffffffffffffffffffffffffffffffffffffff''
   \<and> b_hash (mockBlocks (MockProvider_new utcZone demoClock) ! 2) =
       JStr ''9999999999ffffffffffffffffffffffffffffffffffffffffffffffffffffff''
   \<and> MockProvider_getBlockByHashOrHeight (MockProvider_new utcZone demoClock)
         ''9999999999ffffffffffffffffffffffffffffffffffffffffffffffffffffff'' = None"
proof -
  have a: "\<not> allDigits ''12345abc''"
    "\<not> allDigits ''9999999999ffffffffffffffffffffffffffffffffffffffffffffffffffffff''"
    by (simp_all add: allDigits_def isDigit_def)
  have b: "find (\<lambda>b. b_hash b = JStr ''12345abc'') (mockBlocks (MockProvider_new zone clock)) =
           None"
    by (rule mock_find_short_hash) simp
  have c: "MockProvider_getBlockByHashOrHeight (MockProvider_new zone clock) ''12345abc'' =
           Some (generateMockBlock zone (clock 0) 12345)"
    by (simp add: MockProvider_getBlockByHashOrHeight_def parseInt10_12345abc
        mock_find_height_12345)
  have "mockBlocks (MockProvider_new utcZone demoClock) ! 2 =
        generateMockBlock utcZone 1700000000002 12343"
    using mockBlocks_nth [of 2 utcZone demoClock] by (simp add: demoClock_def latestHeight_def)
  moreover
  have "b_hash (generateMockBlock utcZone 1700000000002 12343) =
        JStr ''9999999999ffffffffffffffffffffffffffffffffffffffffffffffffffffff''"
    unfolding b_hash_generateMockBlock blockDate_eq
    by (simp add: isoDate_demo toString10_heights fakeHash_2023_10_28_at_12343)
  ultimately
  have d: "b_hash (mockBlocks (MockProvider_new utcZone demoClock) ! 2) =
           JStr ''9999999999ffffffffffffffffffffffffffffffffffffffffffffffffffffff''"
    by simp
  have e: "MockProvider_getBlockByHashOrHeight (MockProvider_new utcZone demoClock)
             ''9999999999ffffffffffffffffffffffffffffffffffffffffffffffffffffff'' = None"
    by (simp add: MockProvider_getBlockByHashOrHeight_def parseInt10_nines find_None_iff
        MockProvider_new_def b_height_generateMockBlock latestHeight_def)
  from a b c d e show ?thesis
    by blast
qed
section \<open>The RPC scanner\<close>

lemma length_pushExtrinsics:
  "length (pushExtrinsics events bh ts idx exts) = length exts"
  by (induction exts arbitrary: idx) simp_all

lemma nth_pushExtrinsics:
  "i < length exts \<Longrightarrow>
   pushExtrinsics events bh ts idx exts ! i =
   \<lparr> tx_hash = JStr (ext_hash (exts ! i)),
     tx_status = extrinsicStatus events (idx + int i),
     tx_blockHeight = bh,
     tx_timestamp = ts,
     tx_size = JNum (ext_encodedLength (exts ! i)) \<rparr>"
proof (induction exts arbitrary: idx i)
  case Nil
  then show ?case by simp
next
  case (Cons ext rest)
  show ?case
  proof (cases i)
    case 0
    then show ?thesis by simp
  next
    case (Suc j)
    with Cons.prems have "j < length rest" by simp
    from Cons.IH [OF this, of "idx + 1"] Suc show ?thesis
      by (simp add: algebra_simps)
  qed
qed

lemma extrinsicStatus_cases:
  "extrinsicStatus events idx =
   (if successMarker events idx then Success
    else if failureMarker events idx then Failed else Pending)"
  by (auto simp: extrinsicStatus_def relatedEvents_def successMarker_def failureMarker_def
      Let_def list_ex_iff)

text \<open>
  Claim C6. For every block and every index \<open>i\<close> of an extrinsic in it, the scanner
  gives the transaction at \<open>i\<close> the status success when the event log holds a success
  marker whose phase is \<open>i\<close>, failed when it holds a failure marker for \<open>i\<close> and no
  success marker, and pending when it holds neither; with both markers success wins.
\<close>

theorem rpc_status_correlation:
  assumes "i < length (blk_extrinsics (blockByHash ch blockHashHex))"
  shows "(successMarker (eventLog ch blockHashHex) (int i) \<longrightarrow>
            tx_status (mapExtrinsicsForBlock ch blockHeight blockHashHex ! i) = Success)
       \<and> (failureMarker (eventLog ch blockHashHex) (int i)
            \<and> \<not> successMarker (eventLog ch blockHashHex) (int i) \<longrightarrow>
            tx_status (mapExtrinsicsForBlock ch blockHeight blockHashHex ! i) = Failed)
       \<and> (\<not> successMarker (eventLog ch blockHashHex) (int i)
            \<and> \<not> failureMarker (eventLog ch blockHashHex) (int i) \<longrightarrow>
            tx_status (mapExtrinsicsForBlock ch blockHeight blockHashHex ! i) = Pending)
       \<and> (successMarker (eventLog ch blockHashHex) (int i)
            \<and> failureMarker (eventLog ch blockHashHex) (int i) \<longrightarrow>
            tx_status (mapExtrinsicsForBlock ch blockHeight blockHashHex ! i) = Success)"
  using assms
  by (simp add: mapExtrinsicsForBlock_def Let_def nth_pushExtrinsics extrinsicStatus_cases)

lemma find_append:
  "find P (xs @ ys) = (case find P xs of None \<Rightarrow> find P ys | Some x \<Rightarrow> Some x)"
  by (induction xs) simp_all

lemma find_Some_member: "find P xs = Some x \<Longrightarrow> P x \<and> x \<in> set xs"
  by (induction xs) (auto split: if_splits)

lemma length_scanWindow: "length (scanWindow h n) \<le> n"
  by (induction n arbitrary: h) simp_all

lemma length_upToFirst: "length (upToFirst P xs) \<le> length xs"
  by (induction xs) simp_all

lemma scanWindow_closed:
  "scanWindow h n = map (\<lambda>k. h - int k) [0..<min n (nat (h + 1))]"
proof (induction n arbitrary: h)
  case 0
  then show ?case by simp
next
  case (Suc n)
  show ?case
  proof (cases "h \<ge> 0")
    case True
    then have m: "min (Suc n) (nat (h + 1)) = Suc (min n (nat h))"
      by (simp add: min_def nat_add_distrib)
    have "map (\<lambda>k. h - int k) [0..<Suc (min n (nat h))] =
          h # map (\<lambda>k. h - int (Suc k)) [0..<min n (nat h)]"
      by (simp add: upt_conv_Cons map_Suc_upt [symmetric] del: upt_Suc)
    with True Suc [of "h - 1"] m show ?thesis
      by (simp add: algebra_simps)
  next
    case False
    then show ?thesis by simp
  qed
qed

lemma scanForTransaction_spec:
  "scanned \<le> 500 \<Longrightarrow>
   scanForTransaction ch hash h scanned fetched =
   (find (hashMatches hash) (concat (map (transactionsAt ch) (scanWindow h (500 - scanned)))),
    fetched @ upToFirst (\<lambda>k. find (hashMatches hash) (transactionsAt ch k) \<noteq> None)
                (scanWindow h (500 - scanned)))"
proof (induction ch hash h scanned fetched rule: scanForTransaction.induct)
  case (1 ch hash h scanned fetched)
  show ?case
  proof (cases "h \<ge> 0 \<and> scanned < 500")
    case True
    then obtain n where n: "500 - scanned = Suc n"
      by (cases "500 - scanned") auto
    then have n': "500 - (scanned + 1) = n"
      by simp
    show ?thesis
    proof (cases "find (hashMatches hash) (transactionsAt ch h)")
      case None
      then have "find (hashMatches hash)
                   (mapExtrinsicsForBlock ch (JNum h) (blockHashAt ch (JNum h))) = None"
        by (simp add: transactionsAt_def)
      from "1.IH" [OF True this] True
      have "scanForTransaction ch hash (h - 1) (scanned + 1) (fetched @ [h]) =
            (find (hashMatches hash)
               (concat (map (transactionsAt ch) (scanWindow (h - 1) (500 - (scanned + 1))))),
             (fetched @ [h]) @ upToFirst (\<lambda>k. find (hashMatches hash) (transactionsAt ch k) \<noteq> None)
                (scanWindow (h - 1) (500 - (scanned + 1))))"
        by simp
      with True None n n' show ?thesis
        by (subst scanForTransaction.simps) (simp add: transactionsAt_def find_append)
    next
      case (Some found)
      with True n show ?thesis
        by (subst scanForTransaction.simps) (simp add: transactionsAt_def find_append)
    qed
  next
    case False
    then have "scanWindow h (500 - scanned) = []"
      using "1.prems" by (cases "500 - scanned") auto
    with False show ?thesis
      by (subst scanForTransaction.simps) auto
  qed
qed

lemma hashMatches_iff:
  "hashMatches hash tx = (\<exists>s. tx_hash tx = JStr s \<and> toLowerCase s = toLowerCase hash)"
  by (cases "tx_hash tx") (simp_all add: hashMatches_def)

text \<open>
  Claim C7. For every hash, \<open>getTransactionByHash\<close> under the RPC scanner walks the
  heights \<open>tip, tip - 1, ...\<close>, fetching at most 500 blocks and none below height 0; it
  compares hashes after lowering their case; it returns the first transaction of that
  walk that matches, and \<open>null\<close> exactly when no transaction of the blocks in the bound
  matches. The blocks fetched are the walk up to the first block holding a match.
\<close>

theorem rpc_getTransactionByHash_bounded_scan:
  "RpcHttpProvider_getTransactionByHash ch hash =
     find (hashMatches hash) (concat (map (transactionsAt ch) (scanWindow (tipHeight ch) 500)))
   \<and> scanWindow (tipHeight ch) 500 =
       map (\<lambda>k. tipHeight ch - int k) [0..<min 500 (nat (tipHeight ch + 1))]
   \<and> snd (scanForTransaction ch hash (tipHeight ch) 0 []) =
       upToFirst (\<lambda>k. find (hashMatches hash) (transactionsAt ch k) \<noteq> None)
         (scanWindow (tipHeight ch) 500)
   \<and> length (snd (scanForTransaction ch hash (tipHeight ch) 0 [])) \<le> 500
   \<and> (RpcHttpProvider_getTransactionByHash ch hash = None) =
       (\<forall>k \<in> set (scanWindow (tipHeight ch) 500). \<forall>tx \<in> set (transactionsAt ch k).
          \<not> hashMatches hash tx)
   \<and> (\<forall>tx. RpcHttpProvider_getTransactionByHash ch hash = Some tx \<longrightarrow>
        (\<exists>s. tx_hash tx = JStr s \<and> toLowerCase s = toLowerCase hash)
        \<and> (\<exists>k \<in> set (scanWindow (tipHeight ch) 500). tx \<in> set (transactionsAt ch k)))"
proof -
  let ?w = "scanWindow (tipHeight ch) 500"
  let ?P = "\<lambda>k. find (hashMatches hash) (transactionsAt ch k) \<noteq> None"
  have spec: "scanForTransaction ch hash (tipHeight ch) 0 [] =
      (find (hashMatches hash) (concat (map (transactionsAt ch) ?w)), upToFirst ?P ?w)"
    using scanForTransaction_spec [of 0 ch hash "tipHeight ch" "[]"] by simp
  then have r: "RpcHttpProvider_getTransactionByHash ch hash =
      find (hashMatches hash) (concat (map (transactionsAt ch) ?w))"
    by (simp add: RpcHttpProvider_getTransactionByHash_def)
  have len: "length (snd (scanForTransaction ch hash (tipHeight ch) 0 [])) \<le> 500"
    using spec length_upToFirst [of ?P ?w] length_scanWindow [of "tipHeight ch" 500]
    by simp
  have none: "(RpcHttpProvider_getTransactionByHash ch hash = None) =
       (\<forall>k \<in> set ?w. \<forall>tx \<in> set (transactionsAt ch k). \<not> hashMatches hash tx)"
    unfolding r by (auto simp: find_None_iff)
  have some: "\<forall>tx. RpcHttpProvider_getTransactionByHash ch hash = Some tx \<longrightarrow>
        (\<exists>s. tx_hash tx = JStr s \<and> toLowerCase s = toLowerCase hash)
        \<and> (\<exists>k \<in> set ?w. tx \<in> set (transactionsAt ch k))"
  proof (intro allI impI)
    fix tx
    assume "RpcHttpProvider_getTransactionByHash ch hash = Some tx"
    with r have f: "find (hashMatches hash) (concat (map (transactionsAt ch) ?w)) = Some tx"
      by simp
    then have "hashMatches hash tx" and "tx \<in> set (concat (map (transactionsAt ch) ?w))"
      by (auto dest: find_Some_member)
    then show "(\<exists>s. tx_hash tx = JStr s \<and> toLowerCase s = toLowerCase hash)
        \<and> (\<exists>k \<in> set ?w. tx \<in> set (transactionsAt ch k))"
      by (auto simp: hashMatches_iff)
  qed
  from r scanWindow_closed [of "tipHeight ch" 500] spec len none some show ?thesis
    by simp
qed

theorem rpc_status_correlation_witness:
  "3 < length (blk_extrinsics (blockByHash demoChain ''0xb2''))
   \<and> successMarker (eventLog demoChain ''0xb2'') 0
   \<and> tx_status (mapExtrinsicsForBlock demoChain (JNum 2) ''0xb2'' ! 0) = Success
   \<and> failureMarker (eventLog demoChain ''0xb2'') 1
   \<and> \<not> successMarker (eventLog demoChain ''0xb2'') 1
   \<and> tx_status (mapExtrinsicsForBlock demoChain (JNum 2) ''0xb2'' ! 1) = Failed
   \<and> \<not> successMarker (eventLog demoChain ''0xb2'') 2
   \<and> \<not> failureMarker (eventLog demoChain ''0xb2'') 2
   \<and> tx_status (mapExtrinsicsForBlock demoChain (JNum 2) ''0xb2'' ! 2) = Pending
   \<and> successMarker (eventLog demoChain ''0xb2'') 3
   \<and> failureMarker (eventLog demoChain ''0xb2'') 3
   \<and> tx_status (mapExtrinsicsForBlock demoChain (JNum 2) ''0xb2'' ! 3) = Success"
proof -
  have len: "length (blk_extrinsics (blockByHash demoChain ''0xb2'')) = 4"
    by (simp add: demoChain_def demoExtrinsics_def)
  have log: "eventLog demoChain ''0xb2'' = demoEvents"
    by (simp add: eventLog_def demoChain_def)
  have m: "successMarker demoEvents 0" "failureMarker demoEvents 1"
    "\<not> successMarker demoEvents 1" "\<not> successMarker demoEvents 2"
    "\<not> failureMarker demoEvents 2" "successMarker demoEvents 3" "failureMarker demoEvents 3"
    by (simp_all add: successMarker_def failureMarker_def demoEvents_def)
  have i: "(0::nat) < 4" "(1::nat) < 4" "(2::nat) < 4" "(3::nat) < 4"
    by simp_all
  from rpc_status_correlation [of 0 demoChain "''0xb2''" "JNum 2"]
    rpc_status_correlation [of 1 demoChain "''0xb2''" "JNum 2"]
    rpc_status_correlation [of 2 demoChain "''0xb2''" "JNum 2"]
    rpc_status_correlation [of 3 demoChain "''0xb2''" "JNum 2"]
    m i
  show ?thesis
    unfolding len log by simp
qed

lemma upt_3: "[0..<3] = [0, 1, 2]"
  by (simp add: upt_rec)

lemma demo_transactionsAt_hashes:
  "map tx_hash (transactionsAt demoChain 2) =
     [JStr ''0xa0'', JStr ''0xa1'', JStr ''0xa2'', JStr ''0xa3'']"
  "map tx_hash (transactionsAt demoChain 1) = [JStr ''0xc0'', JStr ''0xBEEF'']"
  "transactionsAt demoChain 0 = []"
  by (simp_all add: transactionsAt_def mapExtrinsicsForBlock_def demoChain_def
      demoExtrinsics_def Let_def)

lemma find_hashMatches_map:
  "map_option tx_hash (find (hashMatches hash) txs) =
   find (\<lambda>h. case h of JStr s \<Rightarrow> toLowerCase s = toLowerCase hash | _ \<Rightarrow> False)
     (map tx_hash txs)"
  by (induction txs) (simp_all add: hashMatches_def)

lemma toLowerCase_demo:
  "toLowerCase ''0xBEEF'' = ''0xbeef''" "toLowerCase ''0xbeef'' = ''0xbeef''"
  "toLowerCase ''0xdead'' = ''0xdead''" "toLowerCase ''0xa0'' = ''0xa0''"
  "toLowerCase ''0xa1'' = ''0xa1''" "toLowerCase ''0xa2'' = ''0xa2''"
  "toLowerCase ''0xa3'' = ''0xa3''" "toLowerCase ''0xc0'' = ''0xc0''"
  by code_simp+

theorem rpc_getTransactionByHash_bounded_scan_witness:
  "map_option tx_hash (RpcHttpProvider_getTransactionByHash demoChain ''0xbeef'') =
     Some (JStr ''0xBEEF'')
   \<and> snd (scanForTransaction demoChain ''0xbeef'' (tipHeight demoChain) 0 []) = [2, 1]
   \<and> RpcHttpProvider_getTransactionByHash demoChain ''0xdead'' = None
   \<and> snd (scanForTransaction demoChain ''0xdead'' (tipHeight demoChain) 0 []) = [2, 1, 0]"
proof -
  have tip: "tipHeight demoChain = 2"
    by (simp add: demoChain_def)
  have w: "map (\<lambda>k. (2::int) - int k) [0..<min 500 (nat (2 + 1))] = [2, 1, 0]"
    by (simp add: upt_3)
  have f: "find (hashMatches h) txs \<noteq> None \<longleftrightarrow>
           map_option tx_hash (find (hashMatches h) txs) \<noteq> None" for h txs
    by simp
  have a: "map_option tx_hash
             (find (hashMatches ''0xbeef'')
                (concat (map (transactionsAt demoChain) [2, 1, 0]))) = Some (JStr ''0xBEEF'')"
    unfolding find_hashMatches_map
    by (simp add: demo_transactionsAt_hashes toLowerCase_demo)
  have b: "find (hashMatches ''0xdead'')
             (concat (map (transactionsAt demoChain) [2, 1, 0])) = None"
    using find_hashMatches_map [of "''0xdead''" "concat (map (transactionsAt demoChain) [2, 1, 0])"]
    by (simp add: demo_transactionsAt_hashes toLowerCase_demo)
  have c: "upToFirst (\<lambda>k. find (hashMatches ''0xbeef'') (transactionsAt demoChain k) \<noteq> None)
             [2, 1, 0] = [2, 1]"
    unfolding f find_hashMatches_map
    by (simp add: demo_transactionsAt_hashes toLowerCase_demo)
  have d: "upToFirst (\<lambda>k. find (hashMatches ''0xdead'') (transactionsAt demoChain k) \<noteq> None)
             [2, 1, 0] = [2, 1, 0]"
    unfolding f find_hashMatches_map
    by (simp add: demo_transactionsAt_hashes toLowerCase_demo)
  from rpc_getTransactionByHash_bounded_scan [of demoChain "''0xbeef''"]
    rpc_getTransactionByHash_bounded_scan [of demoChain "''0xdead''"]
  show ?thesis
    unfolding tip w using a b c d by simp
qed

section \<open>The indexer mapping\<close>

lemma mapFiltered_drop:
  "f x = None \<Longrightarrow> mapFiltered f (JArr (xs @ x # ys)) = mapFiltered f (JArr (xs @ ys))"
  by (simp add: mapFiltered_def map_filter_def)

lemma blockDataOf_cases:
  "readProp block ''block'' = Inr inner \<Longrightarrow>
   blockDataOf block = Inr (if truthy inner then inner else block)"
  by (simp add: blockDataOf_def js_or_def)

lemma mapBlock_height_zero:
  assumes "blockDataOf block = Inr d"
    and "getProp d ''height'' = JNum 0"
    and "getProp d ''number'' = JUndefined"
    and "optProp (getProp d ''header'') ''number'' = JUndefined"
  shows "mapBlock dates block = None"
  using assms by (simp add: mapBlock_def Let_def js_or_def isString_def)

lemma mapBlock_txCount_zero:
  assumes "blockDataOf block = Inr d"
    and "getProp d ''txCount'' = JNum 0"
    and "mapBlock dates block = Some b"
  shows "b_txCount b =
         js_or (js_or (getProp d ''transactionCount'') (getProp d ''extrinsicsCount''))
           (js_coalesce (optProp (getProp d ''extrinsics'') ''length'') (JNum 0))"
proof -
  have z: "js_or (JNum 0) x = x" for x
    by (simp add: js_or_def)
  from assms show ?thesis
    by (auto simp: mapBlock_def Let_def z split: if_splits option.splits)
qed

lemma mapBlock_demoWrappedRecord:
  "mapBlock demoDates demoWrappedRecord =
   Some \<lparr> b_height = JNum 5, b_hash = JStr ''0x05aa'',
          b_timestamp = JStr ''2024-01-01T00:10:00.000Z'', b_txCount = JNum 2 \<rparr>"
  by (simp add: mapBlock_def demoWrappedRecord_def blockDataOf_def getProp_def optProp_def
      member_def js_or_def js_coalesce_def nullish_def isString_def Let_def)

text \<open>
  Claim C9 fails as stated: the record \<open>demoWrappedRecord\<close> has the height 0 and neither
  a \<open>number\<close> nor a \<open>header.number\<close>, yet \<open>mapBlock\<close> does not answer \<open>null\<close> and
  the record is not dropped: the record carries a \<open>block\<close> member, \<open>mapBlock\<close> probes
  that member in place of the record, and the page holds the block of height 5.
\<close>

theorem mapBlock_wrapped_record_counterexample:
  "getProp demoWrappedRecord ''height'' = JNum 0
   \<and> getProp demoWrappedRecord ''number'' = JUndefined
   \<and> optProp (getProp demoWrappedRecord ''header'') ''number'' = JUndefined
   \<and> mapBlock demoDates demoWrappedRecord =
       Some \<lparr> b_height = JNum 5, b_hash = JStr ''0x05aa'',
              b_timestamp = JStr ''2024-01-01T00:10:00.000Z'', b_txCount = JNum 2 \<rparr>
   \<and> mapFiltered (mapBlock demoDates) (JArr [demoWrappedRecord]) =
       Inr [\<lparr> b_height = JNum 5, b_hash = JStr ''0x05aa'',
               b_timestamp = JStr ''2024-01-01T00:10:00.000Z'', b_txCount = JNum 2 \<rparr>]"
proof -
  have "getProp demoWrappedRecord ''height'' = JNum 0"
    and "getProp demoWrappedRecord ''number'' = JUndefined"
    and "optProp (getProp demoWrappedRecord ''header'') ''number'' = JUndefined"
    by (simp_all add: demoWrappedRecord_def getProp_def optProp_def member_def nullish_def)
  moreover
  have "mapFiltered (mapBlock demoDates) (JArr [demoWrappedRecord]) =
        Inr [\<lparr> b_height = JNum 5, b_hash = JStr ''0x05aa'',
                b_timestamp = JStr ''2024-01-01T00:10:00.000Z'', b_txCount = JNum 2 \<rparr>]"
    by (simp add: mapFiltered_def map_filter_def mapBlock_demoWrappedRecord)
  ultimately show ?thesis
    using mapBlock_demoWrappedRecord by simp
qed

text \<open>
  Claim C9, as amended. \<open>mapBlock\<close> probes the \<open>block\<close> member of a record when that
  member is truthy, and the record itself otherwise, and it probes by truthiness. When the
  probed data has the height 0 and neither a \<open>number\<close> nor a \<open>header.number\<close>, the
  record is mapped to \<open>null\<close> and dropped from the mapped page; so is, in particular,
  every record without a truthy \<open>block\<close> member that has the height 0 and neither a
  \<open>number\<close> nor a \<open>header.number\<close>. And when the probed data has a \<open>txCount\<close> of 0,
  that is passed over for \<open>transactionCount\<close>, then \<open>extrinsicsCount\<close>, then the
  length of \<open>extrinsics\<close>, then 0.
\<close>

theorem mapBlock_probes_by_truthiness:
  "(readProp block ''block'' = Inr inner \<longrightarrow>
      blockDataOf block = Inr (if truthy inner then inner else block))
   \<and> (blockDataOf block = Inr d \<and> getProp d ''height'' = JNum 0
      \<and> getProp d ''number'' = JUndefined
      \<and> optProp (getProp d ''header'') ''number'' = JUndefined
      \<longrightarrow> mapBlock dates block = None
          \<and> mapFiltered (mapBlock dates) (JArr (xs @ block # ys)) =
              mapFiltered (mapBlock dates) (JArr (xs @ ys)))
   \<and> (readProp block ''block'' = Inr inner \<and> \<not> truthy inner
      \<and> getProp block ''height'' = JNum 0
      \<and> getProp block ''number'' = JUndefined
      \<and> optProp (getProp block ''header'') ''number'' = JUndefined
      \<longrightarrow> mapBlock dates block = None
          \<and> mapFiltered (mapBlock dates) (JArr (xs @ block # ys)) =
              mapFiltered (mapBlock dates) (JArr (xs @ ys)))
   \<and> (blockDataOf block = Inr d \<and> getProp d ''txCount'' = JNum 0
      \<and> mapBlock dates block = Some b
      \<longrightarrow> b_txCount b =
          js_or (js_or (getProp d ''transactionCount'') (getProp d ''extrinsicsCount''))
            (js_coalesce (optProp (getProp d ''extrinsics'') ''length'') (JNum 0)))"
proof -
  have 1: "readProp block ''block'' = Inr inner \<longrightarrow>
           blockDataOf block = Inr (if truthy inner then inner else block)"
    using blockDataOf_cases by blast
  have 2: "blockDataOf block = Inr d \<and> getProp d ''height'' = JNum 0
      \<and> getProp d ''number'' = JUndefined
      \<and> optProp (getProp d ''header'') ''number'' = JUndefined
      \<longrightarrow> mapBlock dates block = None
          \<and> mapFiltered (mapBlock dates) (JArr (xs @ block # ys)) =
              mapFiltered (mapBlock dates) (JArr (xs @ ys))"
    using mapBlock_height_zero [of block d dates]
      mapFiltered_drop [of "mapBlock dates" block xs ys]
    by blast
  have 3: "readProp block ''block'' = Inr inner \<and> \<not> truthy inner
      \<and> getProp block ''height'' = JNum 0
      \<and> getProp block ''number'' = JUndefined
      \<and> optProp (getProp block ''header'') ''number'' = JUndefined
      \<longrightarrow> mapBlock dates block = None
          \<and> mapFiltered (mapBlock dates) (JArr (xs @ block # ys)) =
              mapFiltered (mapBlock dates) (JArr (xs @ ys))"
    using blockDataOf_cases [of block inner] mapBlock_height_zero [of block block dates]
      mapFiltered_drop [of "mapBlock dates" block xs ys]
    by simp
  have 4: "blockDataOf block = Inr d \<and> getProp d ''txCount'' = JNum 0
      \<and> mapBlock dates block = Some b
      \<longrightarrow> b_txCount b =
          js_or (js_or (getProp d ''transactionCount'') (getProp d ''extrinsicsCount''))
            (js_coalesce (optProp (getProp d ''extrinsics'') ''length'') (JNum 0))"
    using mapBlock_txCount_zero [of block d dates b] by blast
  from 1 2 3 4 show ?thesis
    by blast
qed

theorem mapBlock_probes_by_truthiness_witness:
  "readProp demoGenesisRecord ''block'' = Inr JUndefined
   \<and> \<not> truthy JUndefined
   \<and> blockDataOf demoGenesisRecord = Inr demoGenesisRecord
   \<and> getProp demoGenesisRecord ''height'' = JNum 0
   \<and> getProp demoGenesisRecord ''number'' = JUndefined
   \<and> optProp (getProp demoGenesisRecord ''header'') ''number'' = JUndefined
   \<and> mapBlock demoDates demoGenesisRecord = None
   \<and> mapFiltered (mapBlock demoDates) (JArr [demoBlockRecord, demoGenesisRecord]) =
       mapFiltered (mapBlock demoDates) (JArr [demoBlockRecord])
   \<and> blockDataOf demoBlockRecord = Inr demoBlockRecord
   \<and> getProp demoBlockRecord ''txCount'' = JNum 0
   \<and> map_option b_txCount (mapBlock demoDates demoBlockRecord) = Some (JNum 3)"
proof -
  have r: "readProp demoGenesisRecord ''block'' = Inr JUndefined"
    by (simp add: demoGenesisRecord_def member_def)
  have g: "getProp demoGenesisRecord ''height'' = JNum 0"
    "getProp demoGenesisRecord ''number'' = JUndefined"
    "optProp (getProp demoGenesisRecord ''header'') ''number'' = JUndefined"
    by (simp_all add: demoGenesisRecord_def getProp_def optProp_def member_def nullish_def)
  have b: "blockDataOf demoBlockRecord = Inr demoBlockRecord"
    "getProp demoBlockRecord ''txCount'' = JNum 0"
    "getProp demoBlockRecord ''transactionCount'' = JNum 3"
    by (simp_all add: demoBlockRecord_def blockDataOf_def getProp_def member_def js_or_def)
  have m: "mapBlock demoDates demoBlockRecord =
           Some \<lparr> b_height = JNum 7, b_hash = JStr ''0x07aa'',
                  b_timestamp = JStr ''2024-01-01T00:14:00.000Z'', b_txCount = JNum 3 \<rparr>"
    by (simp add: mapBlock_def demoBlockRecord_def blockDataOf_def getProp_def optProp_def
        member_def js_or_def js_coalesce_def nullish_def isString_def Let_def)
  note th = mapBlock_probes_by_truthiness
              [of demoGenesisRecord JUndefined demoGenesisRecord demoDates "[demoBlockRecord]"
                 "[]"]
  from th r have d: "blockDataOf demoGenesisRecord = Inr demoGenesisRecord"
    by simp
  from th r g
  have "mapBlock demoDates demoGenesisRecord = None
        \<and> mapFiltered (mapBlock demoDates) (JArr [demoBlockRecord, demoGenesisRecord]) =
            mapFiltered (mapBlock demoDates) (JArr [demoBlockRecord])"
    by simp
  with r d g b m show ?thesis
    by simp
qed

section \<open>The fallback of the indexer client\<close>

lemma tryQueries_all_fail: "everyQueryFails w queries \<Longrightarrow> tryQueries w queries = JNull"
  by (induction queries) (simp_all add: everyQueryFails_def Let_def)

lemma listFallback_cases:
  "listFallback w queries mapped \<Longrightarrow>
   \<not> truthy (tryQueries w queries) \<or> mapped (tryQueries w queries) = Inr []
   \<or> isl (mapped (tryQueries w queries))"
  by (auto simp: listFallback_def dest: tryQueries_all_fail)

lemma singleFallback_cases:
  "singleFallback w queries mapped \<Longrightarrow>
   \<not> truthy (tryQueries w queries) \<or> mapped (tryQueries w queries) = None"
  by (auto simp: singleFallback_def dest: tryQueries_all_fail)

lemma getLatestBlocks_fallback:
  "listFallback w (getLatestBlocks_queries limit)
     (\<lambda>result. mapFiltered (mapBlock (w_dates w)) (blocksOf result)) \<Longrightarrow>
   HttpProvider_getLatestBlocks w p limit = MockProvider_getLatestBlocks (mockProvider p) limit"
  by (drule listFallback_cases)
    (auto simp: HttpProvider_getLatestBlocks_def HttpProvider_getLatestBlocks_body_def
      orMock_def Let_def isl_def split: sum.splits)

lemma getLatestTransactions_fallback:
  "listFallback w (getLatestTransactions_queries limit)
     (\<lambda>result. mapFiltered mapTransaction (transactionsOf result)) \<Longrightarrow>
   HttpProvider_getLatestTransactions w p limit =
   MockProvider_getLatestTransactions (mockProvider p) limit"
  by (drule listFallback_cases)
    (auto simp: HttpProvider_getLatestTransactions_def HttpProvider_getLatestTransactions_body_def
      orMock_def Let_def isl_def split: sum.splits)

lemma getBlocksPage_fallback:
  "listFallback w (getBlocksPage_queries cursor)
     (\<lambda>result. mapFiltered (mapBlock (w_dates w)) (blocksOf result)) \<Longrightarrow>
   HttpProvider_getBlocksPage w p cursor = MockProvider_getBlocksPage (mockProvider p) cursor"
  by (drule listFallback_cases)
    (auto simp: HttpProvider_getBlocksPage_def HttpProvider_getBlocksPage_body_def
      orMock_def Let_def isl_def split: sum.splits)

lemma getTransactionsPage_fallback:
  "listFallback w (getTransactionsPage_queries cursor)
     (\<lambda>result. mapFiltered mapTransaction (transactionsOf result)) \<Longrightarrow>
   HttpProvider_getTransactionsPage w p cursor =
   MockProvider_getTransactionsPage (mockProvider p) cursor"
  by (drule listFallback_cases)
    (auto simp: HttpProvider_getTransactionsPage_def HttpProvider_getTransactionsPage_body_def
      orMock_def Let_def isl_def split: sum.splits)

lemma getBlockByHashOrHeight_fallback:
  "singleFallback w (getBlock_queries ident)
     (\<lambda>result. if truthy (blockOf result) then mapBlock (w_dates w) (blockOf result) else None)
   \<Longrightarrow>
   HttpProvider_getBlockByHashOrHeight w p ident =
   MockProvider_getBlockByHashOrHeight (mockProvider p) ident"
  by (drule singleFallback_cases)
    (auto simp: HttpProvider_getBlockByHashOrHeight_def
      HttpProvider_getBlockByHashOrHeight_body_def orMock_def Let_def
      split: option.splits if_splits)

lemma getTransactionByHash_fallback:
  "singleFallback w (getTransaction_queries hash)
     (\<lambda>result. if truthy (transactionOf result) then mapTransaction (transactionOf result)
                else None)
   \<Longrightarrow>
   HttpProvider_getTransactionByHash w p hash =
   MockProvider_getTransactionByHash (mockProvider p) hash"
  by (drule singleFallback_cases)
    (auto simp: HttpProvider_getTransactionByHash_def
      HttpProvider_getTransactionByHash_body_def orMock_def Let_def
      split: option.splits if_splits)

lemma getAddressSummary_fallback:
  "singleFallback w (getAddress_queries addr)
     (\<lambda>result. if truthy (addressOf result) then Some (addressOf result) else None)
   \<Longrightarrow>
   HttpProvider_getAddressSummary w p addr =
   MockProvider_getAddressSummary (mockProvider p) addr"
  by (drule singleFallback_cases)
    (auto simp: HttpProvider_getAddressSummary_def
      HttpProvider_getAddressSummary_body_def orMock_def Let_def
      split: option.splits if_splits)

lemma getBlockTransactions_fallback:
  "listFallback w (getBlockTransactions_queries ident cursor)
     (\<lambda>result. mapFiltered mapTransaction (blockTransactionsOf result)) \<Longrightarrow>
   HttpProvider_getBlockTransactions w p ident cursor =
   (if truthy (tryQueries w (getBlockTransactions_queries ident cursor))
       \<and> isl (mapFiltered mapTransaction
                 (blockTransactionsOf (tryQueries w (getBlockTransactions_queries ident cursor))))
    then MockProvider_getBlockTransactions (mockProvider p) ident cursor
    else case HttpProvider_getBlockByHashOrHeight w p ident of
           None \<Rightarrow> emptyPage
         | Some block \<Rightarrow> MockProvider_getBlockTransactions (mockProvider p) ident cursor)"
  by (drule listFallback_cases)
    (auto simp: HttpProvider_getBlockTransactions_def HttpProvider_getBlockTransactions_body_def
      verifiedMockTransactions_def orMock_def Let_def isl_def split: sum.splits option.splits)

lemma http_block_none:
  "HttpProvider_getBlockByHashOrHeight w p ident = None \<Longrightarrow>
   MockProvider_getBlockByHashOrHeight (mockProvider p) ident = None"
  by (auto simp: HttpProvider_getBlockByHashOrHeight_def
      HttpProvider_getBlockByHashOrHeight_body_def orMock_def Let_def
      split: option.splits if_splits)

lemma mock_find_height_none:
  assumes "find (\<lambda>b. b_height b = JNum n) (mockBlocks (MockProvider_new zone clock)) = None"
  shows "filter (\<lambda>tx. tx_blockHeight tx = JNum n) (mockTransactions (MockProvider_new zone clock)) = []"
proof -
  have no: "\<And>i. i < 100 \<Longrightarrow> latestHeight - int i \<noteq> n"
    using assms
    by (auto simp: find_None_iff MockProvider_new_def b_height_generateMockBlock)
  have "tx_blockHeight tx \<noteq> JNum n"
    if "tx \<in> set (mockTransactions (MockProvider_new zone clock))" for tx
  proof -
    from that obtain i where i: "i < 200"
      and tx: "tx = generateMockTransaction zone (clock (100 + i)) (int i)
                  (if i < 160 then Some (latestHeight - int i div 4) else None)"
      by (auto simp: MockProvider_new_def confirmedHeight_def)
    show ?thesis
    proof (cases "i < 160")
      case True
      then have "i div 4 < 100" by simp
      from no [OF this] have "latestHeight - int (i div 4) \<noteq> n" .
      then have "latestHeight - int i div 4 \<noteq> n"
        by (simp add: zdiv_int)
      with tx True show ?thesis
        by (simp add: generateMockTransaction_def heightJson_def Let_def)
    next
      case False
      with tx show ?thesis
        by (simp add: generateMockTransaction_def heightJson_def Let_def)
    qed
  qed
  then show ?thesis
    by (simp add: filter_empty_conv)
qed

lemma slice_Nil: "slice [] s e = []"
  by (simp add: slice_def Let_def)

lemma strictEquals_JNum: "strictEquals a (JNum n) = (a = JNum n)"
  by (auto simp: strictEquals_def)

lemma mock_no_block_no_transactions:
  assumes "MockProvider_getBlockByHashOrHeight (MockProvider_new zone clock) ident = None"
  shows "items (MockProvider_getBlockTransactions (MockProvider_new zone clock) ident cursor) = []
       \<and> nextCursor (MockProvider_getBlockTransactions (MockProvider_new zone clock) ident cursor) =
           (case (parseInt10 ident, cursorOffset cursor) of
              (Some n, Some off) \<Rightarrow> if off + 20 < 0 then Some (toString10 (off + 20)) else None
            | _ \<Rightarrow> None)"
proof (cases "parseInt10 ident")
  case None
  with assms show ?thesis
    by (simp add: MockProvider_getBlockByHashOrHeight_def MockProvider_getBlockTransactions_def
        mockResolveHeight_def emptyPage_def Let_def split: option.splits)
next
  case (Some n)
  with assms
  have "find (\<lambda>b. b_height b = JNum n) (mockBlocks (MockProvider_new zone clock)) = None"
    by (simp add: MockProvider_getBlockByHashOrHeight_def)
  from mock_find_height_none [OF this] Some show ?thesis
    by (simp add: MockProvider_getBlockTransactions_def mockResolveHeight_def mockPage_def
        strictEquals_JNum slice_Nil pageSize_def Let_def split: option.splits)
qed

lemma page_eqI: "items pg = its \<Longrightarrow> nextCursor pg = c \<Longrightarrow> pg = \<lparr> items = its, nextCursor = c \<rparr>"
  by (cases pg) simp

lemma getBlockTransactions_fallback_corpus:
  assumes fb: "listFallback w (getBlockTransactions_queries ident cursor)
                 (\<lambda>result. mapFiltered mapTransaction (blockTransactionsOf result))"
    and corpus: "mockProvider p = MockProvider_new zone clock"
  shows "items (HttpProvider_getBlockTransactions w p ident cursor) =
         items (MockProvider_getBlockTransactions (mockProvider p) ident cursor)"
    and "(case cursorOffset cursor of None \<Rightarrow> True | Some off \<Rightarrow> - 20 \<le> off) \<Longrightarrow>
         HttpProvider_getBlockTransactions w p ident cursor =
         MockProvider_getBlockTransactions (mockProvider p) ident cursor"
proof -
  let ?http = "HttpProvider_getBlockTransactions w p ident cursor"
  let ?mock = "MockProvider_getBlockTransactions (mockProvider p) ident cursor"
  note eq = getBlockTransactions_fallback [OF fb, of p]
  show "items ?http = items ?mock"
  proof (cases "HttpProvider_getBlockByHashOrHeight w p ident")
    case None
    from http_block_none [OF this] corpus
    have "MockProvider_getBlockByHashOrHeight (MockProvider_new zone clock) ident = None"
      by simp
    from mock_no_block_no_transactions [OF this, of cursor] corpus None eq show ?thesis
      by (simp add: emptyPage_def)
  next
    case (Some block)
    with eq show ?thesis by simp
  qed
  show "?http = ?mock"
    if off: "case cursorOffset cursor of None \<Rightarrow> True | Some off \<Rightarrow> - 20 \<le> off"
  proof (cases "HttpProvider_getBlockByHashOrHeight w p ident")
    case None
    from http_block_none [OF this] corpus
    have "MockProvider_getBlockByHashOrHeight (MockProvider_new zone clock) ident = None"
      by simp
    from mock_no_block_no_transactions [OF this, of cursor] corpus off
    have "items ?mock = []" and "nextCursor ?mock = None"
      by (auto split: option.splits)
    then have "?mock = emptyPage"
      unfolding emptyPage_def by (rule page_eqI)
    with None eq show ?thesis
      by simp
  next
    case (Some block)
    with eq show ?thesis by simp
  qed
qed

text \<open>
  Claim C2, as amended. Whenever every candidate query fails, or the result of the query
  layer is unusable, or the mapped result is empty, or mapping throws, each operation of
  the indexer client other than \<open>getBlockTransactions\<close> returns what the mock provider
  it holds returns for the same arguments. Under the same conditions
  \<open>getBlockTransactions\<close> returns the mock provider's page when mapping threw or when
  its own \<open>getBlockByHashOrHeight\<close> finds the block, and the empty page without a next
  cursor when it finds none; on the generated corpus its items are then still those of the
  mock provider's page, and the two pages are equal whenever the cursor offset is not
  below -20. The operations return values only; no error reaches the caller.
\<close>

theorem indexer_fallback_returns_mock_result:
  "(listFallback w (getLatestBlocks_queries limit)
       (\<lambda>result. mapFiltered (mapBlock (w_dates w)) (blocksOf result)) \<longrightarrow>
     HttpProvider_getLatestBlocks w p limit =
     MockProvider_getLatestBlocks (mockProvider p) limit)
   \<and> (listFallback w (getLatestTransactions_queries limit)
       (\<lambda>result. mapFiltered mapTransaction (transactionsOf result)) \<longrightarrow>
     HttpProvider_getLatestTransactions w p limit =
     MockProvider_getLatestTransactions (mockProvider p) limit)
   \<and> (listFallback w (getBlocksPage_queries cursor)
       (\<lambda>result. mapFiltered (mapBlock (w_dates w)) (blocksOf result)) \<longrightarrow>
     HttpProvider_getBlocksPage w p cursor =
     MockProvider_getBlocksPage (mockProvider p) cursor)
   \<and> (singleFallback w (getBlock_queries ident)
       (\<lambda>result. if truthy (blockOf result) then mapBlock (w_dates w) (blockOf result)
                  else None) \<longrightarrow>
     HttpProvider_getBlockByHashOrHeight w p ident =
     MockProvider_getBlockByHashOrHeight (mockProvider p) ident)
   \<and> (listFallback w (getTransactionsPage_queries cursor)
       (\<lambda>result. mapFiltered mapTransaction (transactionsOf result)) \<longrightarrow>
     HttpProvider_getTransactionsPage w p cursor =
     MockProvider_getTransactionsPage (mockProvider p) cursor)
   \<and> (singleFallback w (getTransaction_queries hash)
       (\<lambda>result. if truthy (transactionOf result) then mapTransaction (transactionOf result)
                  else None) \<longrightarrow>
     HttpProvider_getTransactionByHash w p hash =
     MockProvider_getTransactionByHash (mockProvider p) hash)
   \<and> (singleFallback w (getAddress_queries addr)
       (\<lambda>result. if truthy (addressOf result) then Some (addressOf result) else None) \<longrightarrow>
     HttpProvider_getAddressSummary w p addr =
     MockProvider_getAddressSummary (mockProvider p) addr)
   \<and> (listFallback w (getBlockTransactions_queries ident cursor)
       (\<lambda>result. mapFiltered mapTransaction (blockTransactionsOf result)) \<longrightarrow>
     HttpProvider_getBlockTransactions w p ident cursor =
     (if truthy (tryQueries w (getBlockTransactions_queries ident cursor))
         \<and> isl (mapFiltered mapTransaction
                   (blockTransactionsOf
                      (tryQueries w (getBlockTransactions_queries ident cursor))))
      then MockProvider_getBlockTransactions (mockProvider p) ident cursor
      else case HttpProvider_getBlockByHashOrHeight w p ident of
             None \<Rightarrow> emptyPage
           | Some block \<Rightarrow> MockProvider_getBlockTransactions (mockProvider p) ident cursor))
   \<and> (listFallback w (getBlockTransactions_queries ident cursor)
       (\<lambda>result. mapFiltered mapTransaction (blockTransactionsOf result))
       \<and> mockProvider p = MockProvider_new zone clock \<longrightarrow>
     items (HttpProvider_getBlockTransactions w p ident cursor) =
     items (MockProvider_getBlockTransactions (mockProvider p) ident cursor)
     \<and> ((case cursorOffset cursor of None \<Rightarrow> True | Some off \<Rightarrow> - 20 \<le> off) \<longrightarrow>
        HttpProvider_getBlockTransactions w p ident cursor =
        MockProvider_getBlockTransactions (mockProvider p) ident cursor))"
  using getLatestBlocks_fallback [of w limit p] getLatestTransactions_fallback [of w limit p]
    getBlocksPage_fallback [of w cursor p] getBlockByHashOrHeight_fallback [of w ident p]
    getTransactionsPage_fallback [of w cursor p] getTransactionByHash_fallback [of w hash p]
    getAddressSummary_fallback [of w addr p] getBlockTransactions_fallback [of w ident cursor p]
    getBlockTransactions_fallback_corpus [of w ident cursor p zone clock]
  by blast

lemma graphQL_deadWorld: "graphQL deadWorld q = JNull"
  by (simp add: graphQL_def deadWorld_def)

lemma everyQueryFails_deadWorld: "everyQueryFails deadWorld queries"
  by (simp add: everyQueryFails_def graphQL_deadWorld list_all_iff)

lemma listFallback_deadWorld: "listFallback deadWorld queries mapped"
  by (simp add: listFallback_def everyQueryFails_deadWorld)

lemma singleFallback_deadWorld: "singleFallback deadWorld queries mapped"
  by (simp add: singleFallback_def everyQueryFails_deadWorld)

lemma parseInt10_1: "parseInt10 ''1'' = Some 1"
  unfolding parseInt10_def Let_def
  by (simp add: isWhite_def isDigit_def digitsValue_def digitVal_def)

lemma parseInt10_minus30: "parseInt10 ''-30'' = Some (- 30)"
  unfolding parseInt10_def Let_def
  by (simp add: isWhite_def isDigit_def digitsValue_def digitVal_def)

lemma toString10_minus10: "toString10 (- 10) = ''-10''"
  unfolding toString10_def toStringRadix_def
  by (simp add: digitsRadix.simps digitChar_def)

lemma mock_no_block_at_height_1:
  "MockProvider_getBlockByHashOrHeight (MockProvider_new zone clock) ''1'' = None"
  by (simp add: MockProvider_getBlockByHashOrHeight_def parseInt10_1 find_None_iff
      MockProvider_new_def b_height_generateMockBlock latestHeight_def)

text \<open>
  Claim C2 fails as stated: with an indexer that answers no query, the id \<open>1\<close>, which
  is the height of no mock block, and the cursor \<open>-30\<close>, \<open>getBlockTransactions\<close>
  returns the empty page without a next cursor, while the mock provider returns an empty
  page with the next cursor \<open>-10\<close>.
\<close>

theorem indexer_fallback_differs_from_mock_counterexample:
  "everyQueryFails deadWorld (getBlockTransactions_queries ''1'' (Some ''-30''))
   \<and> HttpProvider_getBlockTransactions deadWorld demoHttpProvider ''1'' (Some ''-30'') =
       \<lparr> items = [], nextCursor = None \<rparr>
   \<and> MockProvider_getBlockTransactions (mockProvider demoHttpProvider) ''1'' (Some ''-30'') =
       \<lparr> items = [], nextCursor = Some ''-10'' \<rparr>"
proof -
  have mp: "mockProvider demoHttpProvider = MockProvider_new utcZone demoClock"
    by (simp add: demoHttpProvider_def)
  have "HttpProvider_getBlockByHashOrHeight deadWorld demoHttpProvider ''1'' =
        MockProvider_getBlockByHashOrHeight (mockProvider demoHttpProvider) ''1''"
    by (rule getBlockByHashOrHeight_fallback) (rule singleFallback_deadWorld)
  then have none: "HttpProvider_getBlockByHashOrHeight deadWorld demoHttpProvider ''1'' = None"
    by (simp add: mp mock_no_block_at_height_1)
  have t: "tryQueries deadWorld (getBlockTransactions_queries ''1'' (Some ''-30'')) = JNull"
    by (rule tryQueries_all_fail) (rule everyQueryFails_deadWorld)
  have http: "HttpProvider_getBlockTransactions deadWorld demoHttpProvider ''1'' (Some ''-30'') =
              \<lparr> items = [], nextCursor = None \<rparr>"
    using getBlockTransactions_fallback [of deadWorld "''1''" "Some ''-30''" demoHttpProvider,
        OF listFallback_deadWorld] none t
    by (simp add: emptyPage_def)
  from mock_no_block_no_transactions [OF mock_no_block_at_height_1, of utcZone demoClock "Some ''-30''"]
  have "items (MockProvider_getBlockTransactions (MockProvider_new utcZone demoClock) ''1''
                 (Some ''-30'')) = []"
    and "nextCursor (MockProvider_getBlockTransactions (MockProvider_new utcZone demoClock) ''1''
                 (Some ''-30'')) = Some ''-10''"
    by (simp_all add: parseInt10_1 cursorOffset_def parseInt10_minus30 toString10_minus10)
  then have mock: "MockProvider_getBlockTransactions (MockProvider_new utcZone demoClock) ''1''
                 (Some ''-30'') = \<lparr> items = [], nextCursor = Some ''-10'' \<rparr>"
    by (rule page_eqI)
  from http mock mp everyQueryFails_deadWorld show ?thesis
    by simp
qed

theorem indexer_fallback_returns_mock_result_witness:
  "everyQueryFails deadWorld (getLatestBlocks_queries 5)
   \<and> HttpProvider_getLatestBlocks deadWorld demoHttpProvider 5 =
       MockProvider_getLatestBlocks (mockProvider demoHttpProvider) 5
   \<and> HttpProvider_getLatestTransactions deadWorld demoHttpProvider 5 =
       MockProvider_getLatestTransactions (mockProvider demoHttpProvider) 5
   \<and> HttpProvider_getBlocksPage deadWorld demoHttpProvider (Some ''20'') =
       MockProvider_getBlocksPage (mockProvider demoHttpProvider) (Some ''20'')
   \<and> HttpProvider_getBlockByHashOrHeight deadWorld demoHttpProvider ''12345'' =
       MockProvider_getBlockByHashOrHeight (mockProvider demoHttpProvider) ''12345''
   \<and> HttpProvider_getTransactionsPage deadWorld demoHttpProvider (Some ''20'') =
       MockProvider_getTransactionsPage (mockProvider demoHttpProvider) (Some ''20'')
   \<and> HttpProvider_getTransactionByHash deadWorld demoHttpProvider ''0xabc'' =
       MockProvider_getTransactionByHash (mockProvider demoHttpProvider) ''0xabc''
   \<and> HttpProvider_getAddressSummary deadWorld demoHttpProvider ''mn_addr1'' =
       MockProvider_getAddressSummary (mockProvider demoHttpProvider) ''mn_addr1''
   \<and> mockProvider demoHttpProvider = MockProvider_new utcZone demoClock
   \<and> cursorOffset (Some ''20'') = Some 20
   \<and> HttpProvider_getBlockTransactions deadWorld demoHttpProvider ''12345'' (Some ''20'') =
       MockProvider_getBlockTransactions (mockProvider demoHttpProvider) ''12345'' (Some ''20'')"
proof -
  have mp: "mockProvider demoHttpProvider = MockProvider_new utcZone demoClock"
    by (simp add: demoHttpProvider_def)
  have c: "cursorOffset (Some ''20'') = Some 20"
    by (simp add: cursorOffset_def parseInt10_20)
  then have off: "case cursorOffset (Some ''20'') of None \<Rightarrow> True | Some off \<Rightarrow> - 20 \<le> off"
    by simp
  note fb = listFallback_deadWorld
    [of "getLatestBlocks_queries 5"
        "\<lambda>result. mapFiltered (mapBlock (w_dates deadWorld)) (blocksOf result)"]
    listFallback_deadWorld
    [of "getLatestTransactions_queries 5"
        "\<lambda>result. mapFiltered mapTransaction (transactionsOf result)"]
    listFallback_deadWorld
    [of "getBlocksPage_queries (Some ''20'')"
        "\<lambda>result. mapFiltered (mapBlock (w_dates deadWorld)) (blocksOf result)"]
    singleFallback_deadWorld
    [of "getBlock_queries ''12345''"
        "\<lambda>result. if truthy (blockOf result) then mapBlock (w_dates deadWorld) (blockOf result)
                   else None"]
    listFallback_deadWorld
    [of "getTransactionsPage_queries (Some ''20'')"
        "\<lambda>result. mapFiltered mapTransaction (transactionsOf result)"]
    singleFallback_deadWorld
    [of "getTransaction_queries ''0xabc''"
        "\<lambda>result. if truthy (transactionOf result) then mapTransaction (transactionOf result)
                   else None"]
    singleFallback_deadWorld
    [of "getAddress_queries ''mn_addr1''"
        "\<lambda>result. if truthy (addressOf result) then Some (addressOf result) else None"]
    listFallback_deadWorld
    [of "getBlockTransactions_queries ''12345'' (Some ''20'')"
        "\<lambda>result. mapFiltered mapTransaction (blockTransactionsOf result)"]
  from indexer_fallback_returns_mock_result
         [of deadWorld 5 demoHttpProvider "Some ''20''" "''12345''" "''0xabc''" "''mn_addr1''"
            utcZone demoClock]
    fb mp c off everyQueryFails_deadWorld [of "getLatestBlocks_queries 5"]
  show ?thesis
    by blast
qed

section \<open>The next cursor\<close>

lemma slice_window:
  assumes "0 \<le> off"
  shows "slice xs (Some off) (Some (off + 20)) = take 20 (drop (nat off) xs)"
proof (cases "off + 20 \<le> int (length xs)")
  case True
  with assms have "nat (off + 20) - nat off = 20"
    by (simp add: nat_add_distrib)
  with True assms show ?thesis
    unfolding slice_def relIndex_def Let_def by (simp add: min_def nat_diff_distrib)
next
  case False
  show ?thesis
  proof (cases "off \<le> int (length xs)")
    case True
    with False assms have "nat (int (length xs) - off) = length xs - nat off"
      and "length xs - nat off \<le> 20"
      by (simp_all add: nat_diff_distrib)
    with True False assms show ?thesis
      unfolding slice_def relIndex_def Let_def by (simp add: min_def)
  next
    case False
    with assms show ?thesis
      unfolding slice_def relIndex_def Let_def by (simp add: min_def)
  qed
qed

lemma mockPage_nonneg:
  assumes "cursorOffset cursor = Some off" and "0 \<le> off"
  shows "items (mockPage xs cursor) = take 20 (drop (nat off) xs)"
    and "nextCursor (mockPage xs cursor) =
         (if off + 20 < int (length xs) then Some (toString10 (off + 20)) else None)"
  using assms
  by (simp_all add: mockPage_def pageSize_def Let_def slice_window)

lemma mock_getBlockTransactions_page:
  "MockProvider_getBlockTransactions p ident cursor =
   (if mockResolveHeight p ident = JUndefined then emptyPage
    else mockPage (mockTransactionsOfBlock p ident) cursor)"
  by (simp add: MockProvider_getBlockTransactions_def mockTransactionsOfBlock_def Let_def)

lemma mock_getBlockTransactions_nonneg:
  assumes "cursorOffset cursor = Some off" and "0 \<le> off"
  shows "items (MockProvider_getBlockTransactions p ident cursor) =
         take 20 (drop (nat off) (mockTransactionsOfBlock p ident))"
    and "nextCursor (MockProvider_getBlockTransactions p ident cursor) =
         (if off + 20 < int (length (mockTransactionsOfBlock p ident))
          then Some (toString10 (off + 20)) else None)"
proof -
  show "items (MockProvider_getBlockTransactions p ident cursor) =
        take 20 (drop (nat off) (mockTransactionsOfBlock p ident))"
  proof (cases "mockResolveHeight p ident = JUndefined")
    case True
    then show ?thesis
      by (simp add: mock_getBlockTransactions_page mockTransactionsOfBlock_def emptyPage_def)
  next
    case False
    with mockPage_nonneg(1) [OF assms, of "mockTransactionsOfBlock p ident"] show ?thesis
      by (simp add: mock_getBlockTransactions_page)
  qed
  show "nextCursor (MockProvider_getBlockTransactions p ident cursor) =
         (if off + 20 < int (length (mockTransactionsOfBlock p ident))
          then Some (toString10 (off + 20)) else None)"
  proof (cases "mockResolveHeight p ident = JUndefined")
    case True
    with assms show ?thesis
      by (simp add: mock_getBlockTransactions_page mockTransactionsOfBlock_def emptyPage_def)
  next
    case False
    with mockPage_nonneg(2) [OF assms, of "mockTransactionsOfBlock p ident"] show ?thesis
      by (simp add: mock_getBlockTransactions_page)
  qed
qed

lemma rpc_getBlockTransactions_nonneg:
  assumes "cursorOffset cursor = Some off" and "0 \<le> off"
  shows "items (RpcHttpProvider_getBlockTransactions ch ident cursor) =
         take 20 (drop (nat off) (rpcTransactionsOfBlock ch ident))"
    and "nextCursor (RpcHttpProvider_getBlockTransactions ch ident cursor) =
         (if off + 20 < int (length (rpcTransactionsOfBlock ch ident))
          then Some (toString10 (off + 20)) else None)"
  using assms
  by (simp_all add: RpcHttpProvider_getBlockTransactions_def rpcTransactionsOfBlock_def
      pageSize_def Let_def slice_window split_beta)

lemma takeWhile_upt_le:
  "takeWhile (\<lambda>i. int i \<le> d) [0..<n] = [0..<min n (nat (d + 1))]"
proof (induction n)
  case 0
  then show ?case by simp
next
  case (Suc n)
  show ?case
  proof (cases "int n \<le> d")
    case True
    then have "\<And>i. i \<in> set [0..<n] \<Longrightarrow> int i \<le> d"
      by auto
    then have "takeWhile (\<lambda>i. int i \<le> d) ([0..<n] @ [n]) =
               [0..<n] @ takeWhile (\<lambda>i. int i \<le> d) [n]"
      by (rule takeWhile_append2)
    with True have "takeWhile (\<lambda>i. int i \<le> d) ([0..<n] @ [n]) = [0..<n] @ [n]"
      by simp
    moreover from True have "min (Suc n) (nat (d + 1)) = Suc n"
      by auto
    ultimately show ?thesis
      by simp
  next
    case False
    then have m: "min (Suc n) (nat (d + 1)) = min n (nat (d + 1))"
      by auto
    show ?thesis
    proof (cases "\<forall>i \<in> set [0..<n]. int i \<le> d")
      case True
      then have all: "\<And>i. i \<in> set [0..<n] \<Longrightarrow> int i \<le> d"
        by blast
      then have "takeWhile (\<lambda>i. int i \<le> d) ([0..<n] @ [n]) =
                 [0..<n] @ takeWhile (\<lambda>i. int i \<le> d) [n]"
        by (rule takeWhile_append2)
      with \<open>\<not> int n \<le> d\<close> have "takeWhile (\<lambda>i. int i \<le> d) ([0..<n] @ [n]) = [0..<n]"
        by simp
      moreover from all have "takeWhile (\<lambda>i. int i \<le> d) [0..<n] = [0..<n]"
        by (simp add: takeWhile_eq_all_conv)
      ultimately show ?thesis
        using Suc m by simp
    next
      case False
      then obtain i where "i \<in> set [0..<n]" and "\<not> int i \<le> d"
        by blast
      then have "takeWhile (\<lambda>i. int i \<le> d) ([0..<n] @ [n]) = takeWhile (\<lambda>i. int i \<le> d) [0..<n]"
        by (simp add: takeWhile_append1)
      with Suc m show ?thesis
        by simp
    qed
  qed
qed

lemma pageHeights_closed:
  "pageHeights tip (Some off) =
   map (\<lambda>i. Some (tip - off - int i)) [0..<min 20 (nat (tip - off + 1))]"
proof -
  have "(\<lambda>i. \<not> tip - off - int i < 0) = (\<lambda>i. int i \<le> tip - off)"
    by auto
  then show ?thesis
    by (simp add: pageHeights_def takeWhile_map comp_def takeWhile_upt_le)
qed

lemma b_height_getBlockByHeight: "b_height (getBlockByHeight ch now h) = h"
  by (simp add: getBlockByHeight_def Let_def)

lemma map_b_height_enumerate:
  "map b_height (map (\<lambda>(i, h). getBlockByHeight ch (clock i) (f h)) (enumerate n hs)) =
   map f hs"
  by (induction hs arbitrary: n) (simp_all add: b_height_getBlockByHeight)

lemma rpc_getBlocksPage_some:
  assumes "cursorOffset cursor = Some off"
  shows "map b_height (items (RpcHttpProvider_getBlocksPage ch clock cursor)) =
         map (\<lambda>i. JNum (tipHeight ch - off - int i))
           [0..<min 20 (nat (tipHeight ch - off + 1))]"
    and "nextCursor (RpcHttpProvider_getBlocksPage ch clock cursor) =
         (if length (items (RpcHttpProvider_getBlocksPage ch clock cursor)) = 20
          then Some (toString10 (off + 20)) else None)"
    and "(length (items (RpcHttpProvider_getBlocksPage ch clock cursor)) = 20) =
         (off + 20 \<le> tipHeight ch + 1)"
proof -
  have h: "map b_height (items (RpcHttpProvider_getBlocksPage ch clock cursor)) =
           map numJson (pageHeights (tipHeight ch) (cursorOffset cursor))"
    by (simp only: RpcHttpProvider_getBlocksPage_def Let_def Page.select_convs
        map_b_height_enumerate)
  from arg_cong [OF h, of length]
  have l: "length (items (RpcHttpProvider_getBlocksPage ch clock cursor)) =
           length (pageHeights (tipHeight ch) (cursorOffset cursor))"
    by simp
  show "map b_height (items (RpcHttpProvider_getBlocksPage ch clock cursor)) =
        map (\<lambda>i. JNum (tipHeight ch - off - int i))
          [0..<min 20 (nat (tipHeight ch - off + 1))]"
    unfolding h assms pageHeights_closed by (simp add: numJson_def comp_def)
  have n: "nextCursor (RpcHttpProvider_getBlocksPage ch clock cursor) =
           (if int (length (pageHeights (tipHeight ch) (cursorOffset cursor))) = pageSize
            then Some (numToString (map_option (\<lambda>off. off + pageSize) (cursorOffset cursor)))
            else None)"
    by (simp only: RpcHttpProvider_getBlocksPage_def Let_def Page.select_convs)
  show "nextCursor (RpcHttpProvider_getBlocksPage ch clock cursor) =
        (if length (items (RpcHttpProvider_getBlocksPage ch clock cursor)) = 20
         then Some (toString10 (off + 20)) else None)"
    unfolding n l assms by (simp add: pageSize_def numToString_def)
  show "(length (items (RpcHttpProvider_getBlocksPage ch clock cursor)) = 20) =
        (off + 20 \<le> tipHeight ch + 1)"
    unfolding l assms pageHeights_closed by (auto simp: min_def)
qed

lemma rpc_getTransactionsPage_some:
  assumes "cursorOffset cursor = Some off"
  shows "nextCursor (RpcHttpProvider_getTransactionsPage ch cursor) = None
       \<or> nextCursor (RpcHttpProvider_getTransactionsPage ch cursor) = Some (toString10 (off + 20))"
  using assms
  by (simp add: RpcHttpProvider_getTransactionsPage_def Let_def pageSize_def)

lemma not_listFallback:
  assumes "\<not> listFallback w queries mapped"
  obtains its where "truthy (tryQueries w queries)"
    and "mapped (tryQueries w queries) = Inr its" and "its \<noteq> []"
proof -
  from assms have t: "truthy (tryQueries w queries)"
    and n: "mapped (tryQueries w queries) \<noteq> Inr []"
    and i: "\<not> isl (mapped (tryQueries w queries))"
    by (simp_all add: listFallback_def)
  from i obtain its where "mapped (tryQueries w queries) = Inr its"
    by (cases "mapped (tryQueries w queries)") simp_all
  with t n that show ?thesis
    by auto
qed

lemma indexerPage_cursor:
  "nextCursor (indexerPage its (Some off)) =
   (if length (items (indexerPage its (Some off))) = 20 then Some (toString10 (off + 20))
    else None)"
  by (simp add: indexerPage_def pageSize_def numToString_def)

lemma http_getBlocksPage_served:
  assumes "\<not> listFallback w (getBlocksPage_queries cursor)
               (\<lambda>result. mapFiltered (mapBlock (w_dates w)) (blocksOf result))"
  shows "\<exists>its. HttpProvider_getBlocksPage w p cursor = indexerPage its (cursorOffset cursor)"
  using assms
  by (rule not_listFallback)
    (auto simp: HttpProvider_getBlocksPage_def HttpProvider_getBlocksPage_body_def orMock_def
      Let_def)

lemma http_getTransactionsPage_served:
  assumes "\<not> listFallback w (getTransactionsPage_queries cursor)
               (\<lambda>result. mapFiltered mapTransaction (transactionsOf result))"
  shows "\<exists>its. HttpProvider_getTransactionsPage w p cursor = indexerPage its (cursorOffset cursor)"
  using assms
  by (rule not_listFallback)
    (auto simp: HttpProvider_getTransactionsPage_def HttpProvider_getTransactionsPage_body_def
      orMock_def Let_def)

lemma http_getBlockTransactions_served:
  assumes "\<not> listFallback w (getBlockTransactions_queries ident cursor)
               (\<lambda>result. mapFiltered mapTransaction (blockTransactionsOf result))"
  shows "\<exists>its. HttpProvider_getBlockTransactions w p ident cursor =
               indexerPage its (cursorOffset cursor)"
  using assms
  by (rule not_listFallback)
    (auto simp: HttpProvider_getBlockTransactions_def HttpProvider_getBlockTransactions_body_def
      orMock_def Let_def)

text \<open>
  Claim C1 fails as stated: on a chain of twenty blocks the scanner's first page of
  blocks holds all twenty, heights 19 down to 0, and still carries the next cursor
  \<open>"20"\<close>, although nothing lies beyond the page: the page for that cursor is empty.
\<close>

theorem rpc_blocks_page_cursor_without_more_counterexample:
  "tipHeight twentyBlockChain = 19
   \<and> map b_height (items (RpcHttpProvider_getBlocksPage twentyBlockChain demoClock None)) =
       map JNum [19, 18, 17, 16, 15, 14, 13, 12, 11, 10, 9, 8, 7, 6, 5, 4, 3, 2, 1, 0]
   \<and> nextCursor (RpcHttpProvider_getBlocksPage twentyBlockChain demoClock None) = Some ''20''
   \<and> items (RpcHttpProvider_getBlocksPage twentyBlockChain demoClock (Some ''20'')) = []"
proof -
  have tip: "tipHeight twentyBlockChain = 19"
    by (simp add: twentyBlockChain_def)
  have c0: "cursorOffset None = Some 0" and c20: "cursorOffset (Some ''20'') = Some 20"
    by (simp_all add: cursorOffset_def parseInt10_20)
  have h: "map b_height (items (RpcHttpProvider_getBlocksPage twentyBlockChain demoClock None)) =
           map JNum [19, 18, 17, 16, 15, 14, 13, 12, 11, 10, 9, 8, 7, 6, 5, 4, 3, 2, 1, 0]"
    unfolding rpc_getBlocksPage_some(1) [OF c0] tip
    by (simp add: upt_rec)
  have "length (items (RpcHttpProvider_getBlocksPage twentyBlockChain demoClock None)) = 20"
    unfolding rpc_getBlocksPage_some(3) [OF c0] tip by simp
  with rpc_getBlocksPage_some(2) [OF c0, of twentyBlockChain demoClock]
  have n: "nextCursor (RpcHttpProvider_getBlocksPage twentyBlockChain demoClock None) = Some ''20''"
    by (simp add: toString10_20)
  have "map b_height (items (RpcHttpProvider_getBlocksPage twentyBlockChain demoClock (Some ''20''))) = []"
    unfolding rpc_getBlocksPage_some(1) [OF c20] tip by simp
  then have e: "items (RpcHttpProvider_getBlocksPage twentyBlockChain demoClock (Some ''20'')) = []"
    by simp
  from tip h n e show ?thesis
    by blast
qed

text \<open>
  Claim C1, as amended. For every paged operation and every cursor whose offset \<open>off\<close>
  is a non-negative integer with \<open>off + 20\<close> at most \<open>2 ^ 53\<close>, the range in which
  the code's numbers hold and print integers exactly, a next cursor, when present, is the
  decimal string of \<open>off + 20\<close>. Under the mock provider, and for \<open>getBlockTransactions\<close> under the RPC
  scanner, the page is the window of 20 items at \<open>off\<close> of the backing list, and the next
  cursor is present if and only if strictly more items lie beyond that window. For
  \<open>getBlocksPage\<close> under the RPC scanner, whose item \<open>i\<close> has height
  \<open>tip - off - i\<close>, and for the three operations of the indexer client when it serves
  the indexer's answer, the next cursor is present if and only if the page holds exactly
  20 items; for the scanner that is when \<open>off + 20 \<le> tip + 1\<close>.
\<close>

theorem next_cursor_of_paged_operations:
  assumes "cursorOffset cursor = Some off" and "0 \<le> off" and "off + 20 \<le> 2 ^ 53"
  shows "items (MockProvider_getBlocksPage p cursor) = take 20 (drop (nat off) (mockBlocks p))
   \<and> nextCursor (MockProvider_getBlocksPage p cursor) =
       (if off + 20 < int (length (mockBlocks p)) then Some (toString10 (off + 20)) else None)
   \<and> items (MockProvider_getTransactionsPage p cursor) =
       take 20 (drop (nat off) (mockTransactions p))
   \<and> nextCursor (MockProvider_getTransactionsPage p cursor) =
       (if off + 20 < int (length (mockTransactions p)) then Some (toString10 (off + 20))
        else None)
   \<and> items (MockProvider_getBlockTransactions p ident cursor) =
       take 20 (drop (nat off) (mockTransactionsOfBlock p ident))
   \<and> nextCursor (MockProvider_getBlockTransactions p ident cursor) =
       (if off + 20 < int (length (mockTransactionsOfBlock p ident))
        then Some (toString10 (off + 20)) else None)
   \<and> items (RpcHttpProvider_getBlockTransactions ch ident cursor) =
       take 20 (drop (nat off) (rpcTransactionsOfBlock ch ident))
   \<and> nextCursor (RpcHttpProvider_getBlockTransactions ch ident cursor) =
       (if off + 20 < int (length (rpcTransactionsOfBlock ch ident))
        then Some (toString10 (off + 20)) else None)
   \<and> map b_height (items (RpcHttpProvider_getBlocksPage ch clock cursor)) =
       map (\<lambda>i. JNum (tipHeight ch - off - int i)) [0..<min 20 (nat (tipHeight ch - off + 1))]
   \<and> nextCursor (RpcHttpProvider_getBlocksPage ch clock cursor) =
       (if length (items (RpcHttpProvider_getBlocksPage ch clock cursor)) = 20
        then Some (toString10 (off + 20)) else None)
   \<and> (length (items (RpcHttpProvider_getBlocksPage ch clock cursor)) = 20) =
       (off + 20 \<le> tipHeight ch + 1)
   \<and> (nextCursor (RpcHttpProvider_getTransactionsPage ch cursor) = None
       \<or> nextCursor (RpcHttpProvider_getTransactionsPage ch cursor) =
           Some (toString10 (off + 20)))
   \<and> (\<not> listFallback w (getBlocksPage_queries cursor)
            (\<lambda>result. mapFiltered (mapBlock (w_dates w)) (blocksOf result)) \<longrightarrow>
       nextCursor (HttpProvider_getBlocksPage w hp cursor) =
       (if length (items (HttpProvider_getBlocksPage w hp cursor)) = 20
        then Some (toString10 (off + 20)) else None))
   \<and> (\<not> listFallback w (getTransactionsPage_queries cursor)
            (\<lambda>result. mapFiltered mapTransaction (transactionsOf result)) \<longrightarrow>
       nextCursor (HttpProvider_getTransactionsPage w hp cursor) =
       (if length (items (HttpProvider_getTransactionsPage w hp cursor)) = 20
        then Some (toString10 (off + 20)) else None))
   \<and> (\<not> listFallback w (getBlockTransactions_queries ident cursor)
            (\<lambda>result. mapFiltered mapTransaction (blockTransactionsOf result)) \<longrightarrow>
       nextCursor (HttpProvider_getBlockTransactions w hp ident cursor) =
       (if length (items (HttpProvider_getBlockTransactions w hp ident cursor)) = 20
        then Some (toString10 (off + 20)) else None))"
proof -
  note mock = mockPage_nonneg [OF assms(1,2)]
  have i1: "\<not> listFallback w (getBlocksPage_queries cursor)
            (\<lambda>result. mapFiltered (mapBlock (w_dates w)) (blocksOf result)) \<longrightarrow>
       nextCursor (HttpProvider_getBlocksPage w hp cursor) =
       (if length (items (HttpProvider_getBlocksPage w hp cursor)) = 20
        then Some (toString10 (off + 20)) else None)"
    using http_getBlocksPage_served [of w cursor hp] assms(1)
    by (auto simp: indexerPage_cursor)
  have i2: "\<not> listFallback w (getTransactionsPage_queries cursor)
            (\<lambda>result. mapFiltered mapTransaction (transactionsOf result)) \<longrightarrow>
       nextCursor (HttpProvider_getTransactionsPage w hp cursor) =
       (if length (items (HttpProvider_getTransactionsPage w hp cursor)) = 20
        then Some (toString10 (off + 20)) else None)"
    using http_getTransactionsPage_served [of w cursor hp] assms(1)
    by (auto simp: indexerPage_cursor)
  have i3: "\<not> listFallback w (getBlockTransactions_queries ident cursor)
            (\<lambda>result. mapFiltered mapTransaction (blockTransactionsOf result)) \<longrightarrow>
       nextCursor (HttpProvider_getBlockTransactions w hp ident cursor) =
       (if length (items (HttpProvider_getBlockTransactions w hp ident cursor)) = 20
        then Some (toString10 (off + 20)) else None)"
    using http_getBlockTransactions_served [of w ident cursor hp] assms(1)
    by (auto simp: indexerPage_cursor)
  from mock [of "mockBlocks p"] mock [of "mockTransactions p"]
    mock_getBlockTransactions_nonneg [OF assms(1,2), of p ident]
    rpc_getBlockTransactions_nonneg [OF assms(1,2), of ch ident]
    rpc_getBlocksPage_some [OF assms(1), of ch clock]
    rpc_getTransactionsPage_some [OF assms(1), of ch]
    i1 i2 i3
  show ?thesis
    unfolding MockProvider_getBlocksPage_def MockProvider_getTransactionsPage_def
    by blast
qed

lemma parseInt10_2: "parseInt10 ''2'' = Some 2"
  unfolding parseInt10_def Let_def
  by (simp add: isWhite_def isDigit_def digitsValue_def digitVal_def)

lemma length_demo_block_transactions: "length (rpcTransactionsOfBlock demoChain ''2'') = 4"
  by (simp add: rpcTransactionsOfBlock_def resolveId_def allDigits_def isDigit_def parseInt10_2
      numJson_def mapExtrinsicsForBlock_def Let_def length_pushExtrinsics demoChain_def
      demoExtrinsics_def)

lemma mapBlock_demoBlockRecord:
  "mapBlock demoDates demoBlockRecord =
   Some \<lparr> b_height = JNum 7, b_hash = JStr ''0x07aa'',
          b_timestamp = JStr ''2024-01-01T00:14:00.000Z'', b_txCount = JNum 3 \<rparr>"
  by (simp add: mapBlock_def demoBlockRecord_def blockDataOf_def getProp_def optProp_def
      member_def js_or_def js_coalesce_def nullish_def isString_def Let_def)

lemma graphQL_liveWorld:
  "graphQL liveWorld q =
   JObj [(''blocks'', JArr [demoBlockRecord]), (''transactions'', JArr [demoTransactionRecord])]"
  by (simp add: graphQL_def liveWorld_def getProp_def member_def)

lemma tryQueries_liveWorld_blocks:
  "tryQueries liveWorld (getBlocksPage_queries cursor) =
   JObj [(''blocks'', JArr [demoBlockRecord]), (''transactions'', JArr [demoTransactionRecord])]"
  by (simp add: getBlocksPage_queries_def graphQL_liveWorld Let_def)

lemma liveWorld_blocks_mapped:
  "mapFiltered (mapBlock (w_dates liveWorld))
     (blocksOf (tryQueries liveWorld (getBlocksPage_queries cursor))) =
   Inr [\<lparr> b_height = JNum 7, b_hash = JStr ''0x07aa'',
           b_timestamp = JStr ''2024-01-01T00:14:00.000Z'', b_txCount = JNum 3 \<rparr>]"
proof -
  have d: "w_dates liveWorld = demoDates"
    by (simp add: liveWorld_def)
  have b: "blocksOf (tryQueries liveWorld (getBlocksPage_queries cursor)) =
           JArr [demoBlockRecord]"
    unfolding tryQueries_liveWorld_blocks
    by (simp add: blocksOf_def getProp_def member_def js_or_def)
  show ?thesis
    unfolding d b
    by (simp add: mapFiltered_def map_filter_def mapBlock_demoBlockRecord)
qed

lemma liveWorld_serves_blocks:
  "\<not> listFallback liveWorld (getBlocksPage_queries cursor)
       (\<lambda>result. mapFiltered (mapBlock (w_dates liveWorld)) (blocksOf result))"
proof -
  have "\<not> everyQueryFails liveWorld (getBlocksPage_queries cursor)"
    by (simp add: everyQueryFails_def getBlocksPage_queries_def graphQL_liveWorld)
  moreover have "truthy (tryQueries liveWorld (getBlocksPage_queries cursor))"
    unfolding tryQueries_liveWorld_blocks by simp
  ultimately show ?thesis
    by (simp add: listFallback_def liveWorld_blocks_mapped)
qed

lemma liveWorld_blocks_page_items:
  "length (items (HttpProvider_getBlocksPage liveWorld hp cursor)) = 1"
proof -
  have "truthy (tryQueries liveWorld (getBlocksPage_queries cursor))"
    unfolding tryQueries_liveWorld_blocks by simp
  then show ?thesis
    by (simp add: HttpProvider_getBlocksPage_def HttpProvider_getBlocksPage_body_def
        liveWorld_blocks_mapped orMock_def indexerPage_def Let_def)
qed

theorem next_cursor_of_paged_operations_witness:
  "cursorOffset (Some ''20'') = Some 20
   \<and> (20::int) + 20 \<le> 2 ^ 53
   \<and> nextCursor (MockProvider_getBlocksPage (MockProvider_new utcZone demoClock) (Some ''20'')) =
       Some ''40''
   \<and> nextCursor (MockProvider_getTransactionsPage (MockProvider_new utcZone demoClock) (Some ''20'')) =
       Some ''40''
   \<and> length (rpcTransactionsOfBlock demoChain ''2'') = 4
   \<and> nextCursor (RpcHttpProvider_getBlockTransactions demoChain ''2'' (Some ''20'')) = None
   \<and> tipHeight demoChain = 2
   \<and> items (RpcHttpProvider_getBlocksPage demoChain demoClock (Some ''20'')) = []
   \<and> nextCursor (RpcHttpProvider_getBlocksPage demoChain demoClock (Some ''20'')) = None
   \<and> \<not> listFallback liveWorld (getBlocksPage_queries (Some ''20''))
         (\<lambda>result. mapFiltered (mapBlock (w_dates liveWorld)) (blocksOf result))
   \<and> length (items (HttpProvider_getBlocksPage liveWorld demoHttpProvider (Some ''20''))) = 1
   \<and> nextCursor (HttpProvider_getBlocksPage liveWorld demoHttpProvider (Some ''20'')) = None"
proof -
  have c: "cursorOffset (Some ''20'') = Some 20"
    by (simp add: cursorOffset_def parseInt10_20)
  have z: "(0::int) \<le> 20" and b: "(20::int) + 20 \<le> 2 ^ 53"
    by simp_all
  have tip: "tipHeight demoChain = 2"
    by (simp add: demoChain_def)
  note th = next_cursor_of_paged_operations
              [OF c z b, of "MockProvider_new utcZone demoClock" "''2''" demoChain demoClock
                 liveWorld demoHttpProvider]
  from th have 1: "nextCursor (MockProvider_getBlocksPage (MockProvider_new utcZone demoClock)
                     (Some ''20'')) = Some ''40''"
    by (simp add: length_mockBlocks toString10_40)
  from th have 2: "nextCursor (MockProvider_getTransactionsPage (MockProvider_new utcZone demoClock)
                     (Some ''20'')) = Some ''40''"
    by (simp add: length_mockTransactions toString10_40)
  from th have 3: "nextCursor (RpcHttpProvider_getBlockTransactions demoChain ''2''
                     (Some ''20'')) = None"
    by (simp add: length_demo_block_transactions)
  from th have "map b_height (items (RpcHttpProvider_getBlocksPage demoChain demoClock (Some ''20''))) =
                map (\<lambda>i. JNum (tipHeight demoChain - 20 - int i))
                  [0..<min 20 (nat (tipHeight demoChain - 20 + 1))]"
    by blast
  then have 4: "items (RpcHttpProvider_getBlocksPage demoChain demoClock (Some ''20'')) = []"
    by (simp add: tip)
  from th have "nextCursor (RpcHttpProvider_getBlocksPage demoChain demoClock (Some ''20'')) =
       (if length (items (RpcHttpProvider_getBlocksPage demoChain demoClock (Some ''20''))) = 20
        then Some (toString10 (20 + 20)) else None)"
    by blast
  with 4 have 5: "nextCursor (RpcHttpProvider_getBlocksPage demoChain demoClock (Some ''20'')) = None"
    by simp
  from th liveWorld_serves_blocks [of "Some ''20''"]
  have "nextCursor (HttpProvider_getBlocksPage liveWorld demoHttpProvider (Some ''20'')) =
       (if length (items (HttpProvider_getBlocksPage liveWorld demoHttpProvider (Some ''20''))) = 20
        then Some (toString10 (20 + 20)) else None)"
    by blast
  then have 6: "nextCursor (HttpProvider_getBlocksPage liveWorld demoHttpProvider
                  (Some ''20'')) = None"
    by (simp add: liveWorld_blocks_page_items)
  from c b 1 2 3 4 5 6 tip length_demo_block_transactions
    liveWorld_serves_blocks [of "Some ''20''"]
    liveWorld_blocks_page_items [of demoHttpProvider "Some ''20''"]
  show ?thesis
    by blast
qed

section \<open>Construction of the provider\<close>

lemma graphQL_no_indexer: "INDEXER_URL (w_config w) = [] \<Longrightarrow> graphQL w q = JNull"
  by (simp add: graphQL_def)

lemma everyQueryFails_no_indexer:
  "INDEXER_URL (w_config w) = [] \<Longrightarrow> everyQueryFails w queries"
  by (simp add: everyQueryFails_def graphQL_no_indexer list_all_iff)

lemma listFallback_no_indexer:
  "INDEXER_URL (w_config w) = [] \<Longrightarrow> listFallback w queries mapped"
  by (simp add: listFallback_def everyQueryFails_no_indexer)

lemma singleFallback_no_indexer:
  "INDEXER_URL (w_config w) = [] \<Longrightarrow> singleFallback w queries mapped"
  by (simp add: singleFallback_def everyQueryFails_no_indexer)

lemma getBlockTransactions_no_indexer:
  assumes "INDEXER_URL (w_config w) = []"
  shows "HttpProvider_getBlockTransactions w p ident cursor =
         (case MockProvider_getBlockByHashOrHeight (mockProvider p) ident of
            None \<Rightarrow> emptyPage
          | Some block \<Rightarrow> MockProvider_getBlockTransactions (mockProvider p) ident cursor)"
proof -
  have "tryQueries w (getBlockTransactions_queries ident cursor) = JNull"
    by (rule tryQueries_all_fail) (rule everyQueryFails_no_indexer [OF assms])
  moreover
  have "HttpProvider_getBlockByHashOrHeight w p ident =
        MockProvider_getBlockByHashOrHeight (mockProvider p) ident"
    by (rule getBlockByHashOrHeight_fallback) (rule singleFallback_no_indexer [OF assms])
  ultimately show ?thesis
    using getBlockTransactions_fallback
            [of w ident cursor p, OF listFallback_no_indexer [OF assms]]
    by simp
qed

lemma getProvider_cases:
  "getProvider cfg zone clock =
   (if INDEXER_URL cfg = [] \<and> RPC_URL cfg = []
    then Inr (UsesMock (MockProvider_new zone clock))
    else Inr (UsesHttp \<lparr> mockProvider = MockProvider_new zone clock \<rparr>))"
  by (simp add: getProvider_def HttpProvider_new_def)

lemma w_config_nodeOnlyWorld: "w_config nodeOnlyWorld = nodeOnlyConfig"
  by (simp add: nodeOnlyWorld_def)

lemma INDEXER_URL_nodeOnlyWorld: "INDEXER_URL (w_config nodeOnlyWorld) = []"
  by (simp add: w_config_nodeOnlyWorld nodeOnlyConfig_def)

text \<open>
  Claim C8 fails as stated. With the node endpoint set and the indexer endpoint empty,
  \<open>getProvider\<close> of \<open>data.ts\<close> selects the indexer client, the backend whose every
  query goes to the indexer endpoint, and constructs it without an error. The client then
  asks nothing of the network, which would have answered with a page of one block, and the
  caller is served the mock corpus: the first page of blocks is the mock provider's, heights
  12345 down to 12326.
\<close>

theorem indexer_client_without_indexer_endpoint_counterexample:
  "INDEXER_URL nodeOnlyConfig = []
   \<and> getProvider nodeOnlyConfig utcZone demoClock = Inr (UsesHttp demoHttpProvider)
   \<and> w_config nodeOnlyWorld = nodeOnlyConfig
   \<and> w_net nodeOnlyWorld = w_net liveWorld
   \<and> length (items (HttpProvider_getBlocksPage liveWorld demoHttpProvider None)) = 1
   \<and> HttpProvider_getBlocksPage nodeOnlyWorld demoHttpProvider None =
       MockProvider_getBlocksPage (MockProvider_new utcZone demoClock) None
   \<and> map b_height (items (HttpProvider_getBlocksPage nodeOnlyWorld demoHttpProvider None)) =
       map JNum (rev [12326..12345])"
proof -
  have 1: "INDEXER_URL nodeOnlyConfig = []"
    by (simp add: nodeOnlyConfig_def)
  have 2: "getProvider nodeOnlyConfig utcZone demoClock = Inr (UsesHttp demoHttpProvider)"
    by (simp add: getProvider_cases nodeOnlyConfig_def demoHttpProvider_def)
  have 3: "w_net nodeOnlyWorld = w_net liveWorld"
    by (simp add: nodeOnlyWorld_def)
  have "HttpProvider_getBlocksPage nodeOnlyWorld demoHttpProvider None =
        MockProvider_getBlocksPage (mockProvider demoHttpProvider) None"
    by (rule getBlocksPage_fallback) (rule listFallback_no_indexer [OF INDEXER_URL_nodeOnlyWorld])
  then have 4: "HttpProvider_getBlocksPage nodeOnlyWorld demoHttpProvider None =
                MockProvider_getBlocksPage (MockProvider_new utcZone demoClock) None"
    by (simp add: demoHttpProvider_def)
  from 1 2 3 4 w_config_nodeOnlyWorld liveWorld_blocks_page_items [of demoHttpProvider None]
    mock_first_page_heights [of utcZone demoClock]
  show ?thesis
    by simp
qed

text \<open>
  Claim C8, as amended. The RPC scanner's \<open>getProvider\<close> constructs the scanner and
  fails, with the error about the missing node endpoint handed to the caller, if and only
  if the node endpoint is empty. The constructor of the indexer client fails if and only
  if both endpoints are empty, and \<open>getProvider\<close> of \<open>data.ts\<close> never fails: it returns
  the mock provider when both endpoints are empty and the indexer client when either is
  set, so that the \<open>catch\<close> around the constructor is never taken. An indexer client
  that runs with an empty indexer endpoint returns, for every operation but
  \<open>getBlockTransactions\<close>, what the mock provider it holds returns for the same
  arguments; \<open>getBlockTransactions\<close> returns the mock provider's page when the mock
  provider finds the block, and the empty page when it does not.
\<close>

theorem provider_construction_and_missing_endpoints:
  "(getProvider_rpc cfg =
      Inl (Error ''Missing Midnight RPC endpoint. Please set NEXT_PUBLIC_RPC_URL''))
     = (RPC_URL cfg = [])
   \<and> (getProvider_rpc cfg = Inr RpcHttpProvider) = (RPC_URL cfg \<noteq> [])
   \<and> getProvider_rpc cfg = RpcHttpProvider_new cfg
   \<and> isl (HttpProvider_new cfg zone clock) = (INDEXER_URL cfg = [] \<and> RPC_URL cfg = [])
   \<and> getProvider cfg zone clock =
       (if INDEXER_URL cfg = [] \<and> RPC_URL cfg = []
        then Inr (UsesMock (MockProvider_new zone clock))
        else Inr (UsesHttp \<lparr> mockProvider = MockProvider_new zone clock \<rparr>))
   \<and> (INDEXER_URL (w_config w) = [] \<longrightarrow>
        HttpProvider_getLatestBlocks w p limit =
          MockProvider_getLatestBlocks (mockProvider p) limit
        \<and> HttpProvider_getLatestTransactions w p limit =
            MockProvider_getLatestTransactions (mockProvider p) limit
        \<and> HttpProvider_getBlocksPage w p cursor =
            MockProvider_getBlocksPage (mockProvider p) cursor
        \<and> HttpProvider_getBlockByHashOrHeight w p ident =
            MockProvider_getBlockByHashOrHeight (mockProvider p) ident
        \<and> HttpProvider_getTransactionsPage w p cursor =
            MockProvider_getTransactionsPage (mockProvider p) cursor
        \<and> HttpProvider_getTransactionByHash w p hash =
            MockProvider_getTransactionByHash (mockProvider p) hash
        \<and> HttpProvider_getAddressSummary w p addr =
            MockProvider_getAddressSummary (mockProvider p) addr
        \<and> HttpProvider_getBlockTransactions w p ident cursor =
            (case MockProvider_getBlockByHashOrHeight (mockProvider p) ident of
               None \<Rightarrow> emptyPage
             | Some block \<Rightarrow> MockProvider_getBlockTransactions (mockProvider p) ident cursor))"
proof -
  have rpc: "(getProvider_rpc cfg =
      Inl (Error ''Missing Midnight RPC endpoint. Please set NEXT_PUBLIC_RPC_URL''))
     = (RPC_URL cfg = [])"
    "(getProvider_rpc cfg = Inr RpcHttpProvider) = (RPC_URL cfg \<noteq> [])"
    "getProvider_rpc cfg = RpcHttpProvider_new cfg"
    by (simp_all add: getProvider_rpc_def RpcHttpProvider_new_def)
  have new: "isl (HttpProvider_new cfg zone clock) = (INDEXER_URL cfg = [] \<and> RPC_URL cfg = [])"
    by (simp add: HttpProvider_new_def)
  have ops: "HttpProvider_getLatestBlocks w p limit =
          MockProvider_getLatestBlocks (mockProvider p) limit
        \<and> HttpProvider_getLatestTransactions w p limit =
            MockProvider_getLatestTransactions (mockProvider p) limit
        \<and> HttpProvider_getBlocksPage w p cursor =
            MockProvider_getBlocksPage (mockProvider p) cursor
        \<and> HttpProvider_getBlockByHashOrHeight w p ident =
            MockProvider_getBlockByHashOrHeight (mockProvider p) ident
        \<and> HttpProvider_getTransactionsPage w p cursor =
            MockProvider_getTransactionsPage (mockProvider p) cursor
        \<and> HttpProvider_getTransactionByHash w p hash =
            MockProvider_getTransactionByHash (mockProvider p) hash
        \<and> HttpProvider_getAddressSummary w p addr =
            MockProvider_getAddressSummary (mockProvider p) addr
        \<and> HttpProvider_getBlockTransactions w p ident cursor =
            (case MockProvider_getBlockByHashOrHeight (mockProvider p) ident of
               None \<Rightarrow> emptyPage
             | Some block \<Rightarrow> MockProvider_getBlockTransactions (mockProvider p) ident cursor)"
    if e: "INDEXER_URL (w_config w) = []"
    using getLatestBlocks_fallback [of w limit p, OF listFallback_no_indexer [OF e]]
      getLatestTransactions_fallback [of w limit p, OF listFallback_no_indexer [OF e]]
      getBlocksPage_fallback [of w cursor p, OF listFallback_no_indexer [OF e]]
      getBlockByHashOrHeight_fallback [of w ident p, OF singleFallback_no_indexer [OF e]]
      getTransactionsPage_fallback [of w cursor p, OF listFallback_no_indexer [OF e]]
      getTransactionByHash_fallback [of w hash p, OF singleFallback_no_indexer [OF e]]
      getAddressSummary_fallback [of w addr p, OF singleFallback_no_indexer [OF e]]
      getBlockTransactions_no_indexer [OF e, of p ident cursor]
    by blast
  from rpc new getProvider_cases [of cfg zone clock] ops show ?thesis
    by blast
qed

theorem provider_construction_and_missing_endpoints_witness:
  "getProvider_rpc \<lparr> INDEXER_URL = ''https://indexer.example'', RPC_URL = [] \<rparr> =
     Inl (Error ''Missing Midnight RPC endpoint. Please set NEXT_PUBLIC_RPC_URL'')
   \<and> getProvider_rpc nodeOnlyConfig = Inr RpcHttpProvider
   \<and> getProvider \<lparr> INDEXER_URL = [], RPC_URL = [] \<rparr> utcZone demoClock =
     Inr (UsesMock (MockProvider_new utcZone demoClock))
   \<and> getProvider nodeOnlyConfig utcZone demoClock =
     Inr (UsesHttp \<lparr> mockProvider = MockProvider_new utcZone demoClock \<rparr>)
   \<and> INDEXER_URL (w_config nodeOnlyWorld) = []
   \<and> HttpProvider_getLatestBlocks nodeOnlyWorld demoHttpProvider 5 =
       MockProvider_getLatestBlocks (mockProvider demoHttpProvider) 5
   \<and> HttpProvider_getBlockByHashOrHeight nodeOnlyWorld demoHttpProvider ''12345'' =
       MockProvider_getBlockByHashOrHeight (mockProvider demoHttpProvider) ''12345''
   \<and> HttpProvider_getBlockTransactions nodeOnlyWorld demoHttpProvider ''1'' (Some ''-30'') =
       emptyPage"
proof -
  note a = provider_construction_and_missing_endpoints
             [of "\<lparr> INDEXER_URL = ''https://indexer.example'', RPC_URL = [] \<rparr>" utcZone
                demoClock nodeOnlyWorld demoHttpProvider 5 "Some ''-30''" "''1''"]
  note b = provider_construction_and_missing_endpoints
             [of nodeOnlyConfig utcZone demoClock nodeOnlyWorld demoHttpProvider 5
                "Some ''-30''" "''12345''"]
  note c = provider_construction_and_missing_endpoints
             [of "\<lparr> INDEXER_URL = [], RPC_URL = [] \<rparr>" utcZone demoClock]
  have m: "MockProvider_getBlockByHashOrHeight (mockProvider demoHttpProvider) ''1'' = None"
    by (simp add: demoHttpProvider_def mock_no_block_at_height_1)
  from a have 1: "getProvider_rpc \<lparr> INDEXER_URL = ''https://indexer.example'', RPC_URL = [] \<rparr> =
                  Inl (Error ''Missing Midnight RPC endpoint. Please set NEXT_PUBLIC_RPC_URL'')"
    by simp
  from a INDEXER_URL_nodeOnlyWorld m
  have 2: "HttpProvider_getBlockTransactions nodeOnlyWorld demoHttpProvider ''1''
             (Some ''-30'') = emptyPage"
    by simp
  from b have 3: "getProvider_rpc nodeOnlyConfig = Inr RpcHttpProvider"
    by (simp add: nodeOnlyConfig_def)
  from b have 4: "getProvider nodeOnlyConfig utcZone demoClock =
                  Inr (UsesHttp \<lparr> mockProvider = MockProvider_new utcZone demoClock \<rparr>)"
    by (simp add: nodeOnlyConfig_def)
  from b INDEXER_URL_nodeOnlyWorld
  have 5: "HttpProvider_getLatestBlocks nodeOnlyWorld demoHttpProvider 5 =
             MockProvider_getLatestBlocks (mockProvider demoHttpProvider) 5
           \<and> HttpProvider_getBlockByHashOrHeight nodeOnlyWorld demoHttpProvider ''12345'' =
               MockProvider_getBlockByHashOrHeight (mockProvider demoHttpProvider) ''12345''"
    by blast
  from c have 6: "getProvider \<lparr> INDEXER_URL = [], RPC_URL = [] \<rparr> utcZone demoClock =
                  Inr (UsesMock (MockProvider_new utcZone demoClock))"
    by simp
  from 1 2 3 4 5 6 INDEXER_URL_nodeOnlyWorld show ?thesis
    by blast
qed

end
